theory Spec2Isabelle
  imports Main
begin

section \<open>Data model\<close>

text \<open>
  The role enumeration of the driver package (\<^verbatim>\<open>IssuerRole = iota\<close>, \<^verbatim>\<open>AuditorRole\<close>,
  \<^verbatim>\<open>OwnerRole\<close>, \<^verbatim>\<open>CertifierRole\<close>), in the order of the source.
\<close>

datatype IdentityUsage = IssuerRole | AuditorRole | OwnerRole | CertifierRole

text \<open>
  The token chaincode options and the TMS descriptor. Their declarations live in the
  topology package; the fields are the ones \<^verbatim>\<open>fabric.go\<close> reads.
\<close>

record TokenChaincode =
  Private :: bool
  DockerImage :: string
  Orgs :: "string list"

record TMS =
  Network :: string
  Channel :: string
  Namespace :: string
  Driver :: string
  PublicParamsGenArgs :: "string list"
  TokenChaincode :: TokenChaincode

text \<open>
  The options of an FSC node (\<^verbatim>\<open>topology2.ToOptions(node.PlatformOpts())\<close>): the methods
  \<^verbatim>\<open>Issuers()\<close>, \<^verbatim>\<open>Owners()\<close>, \<^verbatim>\<open>Auditor()\<close>, \<^verbatim>\<open>Certifier()\<close>. A node has a
  field \<^verbatim>\<open>Name\<close> and a method \<^verbatim>\<open>ID()\<close>.
\<close>

record Options =
  OptIssuers :: "string list"
  OptOwners :: "string list"
  OptAuditor :: bool
  OptCertifier :: bool

record Node =
  Name :: string
  NodeID :: string
  PlatformOpts :: Options

text \<open>
  Modelled from the spec: the declaration of the struct \<^verbatim>\<open>Identity\<close> (and of
  \<^verbatim>\<open>generators.Identity\<close>, which \<^verbatim>\<open>fabric.go\<close> converts to it) is missing. The spec
  describes an identity record as opaque credential bytes plus a boolean \<^verbatim>\<open>Default\<close>
  flag. The conversion \<^verbatim>\<open>Identity(id)\<close> is a Go conversion between struct types, which
  the language allows only when both have the same fields: a record returned by a
  generator has a \<^verbatim>\<open>Default\<close> flag of its own, and the conversion keeps its value.
\<close>

record Identity =
  Credential :: string
  Default :: bool

record Wallet =
  Certifiers :: "Identity list"
  Issuers :: "Identity list"
  Owners :: "Identity list"
  Auditors :: "Identity list"

text \<open>
  A channel chaincode of the fabric topology. Only the constructor argument
  (\<^verbatim>\<open>cc.Chaincode.Ctor\<close>) is written by \<^verbatim>\<open>fabric.go\<close>; the rest is opaque.
\<close>

record ChannelChaincode =
  Descr :: string
  Ctor :: string

record TCC =
  Chaincode :: ChannelChaincode

record Entry =
  TMS :: TMS
  TCC :: "TCC option"
  Wallets :: "string \<rightharpoonup> Wallet"

section \<open>Collaborators\<close>

text \<open>
  The crypto material generator and the public parameters generator are interfaces
  implemented elsewhere. The model takes their answers as functions of the arguments and
  records every invocation in a trace (below). \<^verbatim>\<open>Setup\<close> and \<^verbatim>\<open>Generate\<close> return a
  value or an error (\<open>Inl\<close>); the four identity generators return a list of records.
\<close>

record CryptoMaterialGenerator =
  Setup :: "TMS \<Rightarrow> string + string"
  GenerateCertifierIdentities :: "TMS \<Rightarrow> Node \<Rightarrow> string list \<Rightarrow> Identity list"
  GenerateOwnerIdentities :: "TMS \<Rightarrow> Node \<Rightarrow> string list \<Rightarrow> Identity list"
  GenerateIssuerIdentities :: "TMS \<Rightarrow> Node \<Rightarrow> string list \<Rightarrow> Identity list"
  GenerateAuditorIdentities :: "TMS \<Rightarrow> Node \<Rightarrow> string list \<Rightarrow> Identity list"

record PublicParamsGenerator =
  Generate :: "TMS \<Rightarrow> string list \<Rightarrow> string + string"

text \<open>
  The fabric platform of a network: \<^verbatim>\<open>Topology().AddFPC\<close> returns the chaincode it
  registers.
\<close>

record fabricPlatform =
  AddFPC :: "string \<Rightarrow> string \<Rightarrow> string list \<Rightarrow> ChannelChaincode"

text \<open>
  The token platform, with what \<^verbatim>\<open>fabric.go\<close> reaches through \<^verbatim>\<open>GetContext()\<close>: the root
  directory, the FSC topology's nodes (\<open>None\<close> when the type assertion
  \<^verbatim>\<open>.(*fsc.Topology)\<close> fails) and the platform of a network (\<open>None\<close> when the assertion
  \<^verbatim>\<open>.(fabricPlatform)\<close> fails). A getter that returns \<^verbatim>\<open>nil\<close> returns \<open>None\<close>.
\<close>

record tokenPlatform =
  PublicParametersFile :: "TMS \<Rightarrow> string"
  GetPublicParamsGenerators :: "string \<Rightarrow> PublicParamsGenerator option"
  GetCryptoMaterialGenerator :: "string \<Rightarrow> CryptoMaterialGenerator option"
  PublicParametersDir :: string
  RootDir :: string
  FSCTopology :: "Node list option"
  PlatformByName :: "string \<Rightarrow> fabricPlatform option"

text \<open>
  What else \<^verbatim>\<open>GenerateArtifacts\<close> calls: the methods \<^verbatim>\<open>PrepareTCC\<close> and \<^verbatim>\<open>TCCCtor\<close> of
  the handler (declared in another file of the package), and the operating system, which
  answers \<^verbatim>\<open>os.MkdirAll\<close> and \<^verbatim>\<open>ioutil.WriteFile\<close> with an error (\<open>Some\<close>) or not.
\<close>

record Externals =
  PrepareTCC :: "TMS \<Rightarrow> ChannelChaincode"
  TCCCtor :: "TMS \<Rightarrow> string"
  MkdirAll :: "string \<Rightarrow> string option"
  WriteFile :: "string \<Rightarrow> string \<Rightarrow> string option"

text \<open>Every call that leaves the handler, in the order the handler makes them.\<close>

datatype event =
    EvSetup TMS
  | EvGenerateIdentities IdentityUsage TMS Node "string list"
  | EvGenerate TMS "string list"
  | EvMkdirAll string
  | EvWriteFile string string
  | EvAddFPC string string "string list"
  | EvAddChaincode ChannelChaincode

text \<open>
  What aborts a run: a panic of the Go runtime (an index out of range, with the index
  and the length; \<^verbatim>\<open>Setup\<close> called on a \<^verbatim>\<open>nil\<close> generator; the failed type assertion
  on the FSC topology or on the platform of a network) or a failed \<^verbatim>\<open>Expect\<close>.
\<close>

datatype error =
    IndexOutOfRange int nat
  | NilCryptoMaterialGenerator
  | NoFSCTopology
  | NoFabricPlatform string
  | SetupFailed string
  | NoPublicParamsGenerator string
  | GenerateFailed string
  | MkdirAllFailed string
  | WriteFileFailed string

section \<open>The handler and its entry registry\<close>

text \<open>
  \<^verbatim>\<open>Entries\<close> maps a key to a pointer to an \<^verbatim>\<open>Entry\<close>. The model keeps the entries in a
  store, a list addressed by position, and \<open>Entries\<close> maps a key to an address: two
  pointers are the same instance when the addresses are equal. \<open>Trace\<close> is the list of
  calls made so far.
\<close>

record NetworkHandler =
  Entries :: "string \<rightharpoonup> nat"
  Store :: "Entry list"
  Trace :: "event list"

definition NewNetworkHandler :: NetworkHandler where
  "NewNetworkHandler = \<lparr>Entries = Map.empty, Store = [], Trace = []\<rparr>"

text \<open>
  \<^verbatim>\<open>GetEntry\<close>: the entry stored under \<^verbatim>\<open>tms.Network+tms.Channel+tms.Namespace\<close>, created
  and stored when the key is absent. It returns the pointer and the updated handler.
\<close>

definition GetEntry :: "TMS \<Rightarrow> NetworkHandler \<Rightarrow> nat \<times> NetworkHandler" where
  "GetEntry tms p =
     (case Entries p (Network tms @ Channel tms @ Namespace tms) of
        Some entry \<Rightarrow> (entry, p)
      | None \<Rightarrow>
          (let entry = length (Store p) in
           (entry,
            p\<lparr>Store := Store p @ [\<lparr>TMS = tms, TCC = None, Wallets = Map.empty\<rparr>],
              Entries := (Entries p)(Network tms @ Channel tms @ Namespace tms \<mapsto> entry)\<rparr>)))"

text \<open>
  A handler is well formed when every key points to an allocated entry and no two keys
  share one. \<^verbatim>\<open>NewNetworkHandler\<close> is, and \<^verbatim>\<open>GetEntry\<close>, the only writer of
  \<^verbatim>\<open>Entries\<close>, keeps it so.
\<close>

definition wellformed :: "NetworkHandler \<Rightarrow> bool" where
  "wellformed p \<longleftrightarrow>
     (\<forall>k a. Entries p k = Some a \<longrightarrow> a < length (Store p)) \<and>
     (\<forall>k k' a. Entries p k = Some a \<longrightarrow> Entries p k' = Some a \<longrightarrow> k = k')"

section \<open>Wallet assembly\<close>

text \<open>
  The loop \<^verbatim>\<open>for _, id := range ids { w = append(w, Identity(id)) }\<close>.
\<close>

fun appendIdentities :: "Identity list \<Rightarrow> Identity list \<Rightarrow> Identity list" where
  "appendIdentities w [] = w"
| "appendIdentities w (x # ids) = appendIdentities (w @ [x]) ids"

text \<open>
  \<^verbatim>\<open>ids[i]\<close> and \<^verbatim>\<open>w[i].Default = true\<close> for a Go \<^verbatim>\<open>int\<close> index: out of range, the
  runtime panics.
\<close>

definition index :: "Identity list \<Rightarrow> int \<Rightarrow> error + Identity" where
  "index ids i =
     (if 0 \<le> i \<and> i < int (length ids) then Inr (ids ! nat i)
      else Inl (IndexOutOfRange i (length ids)))"

definition setDefault :: "Identity list \<Rightarrow> int \<Rightarrow> error + Identity list" where
  "setDefault w i =
     (if 0 \<le> i \<and> i < int (length w) then Inr (w[nat i := (w ! nat i)\<lparr>Default := True\<rparr>])
      else Inl (IndexOutOfRange i (length w)))"

text \<open>
  The four blocks of \<^verbatim>\<open>GenerateCryptoMaterial\<close>, each on the wallet and the calls made
  so far. A panic returns the wallet as it stands (\<open>Inl\<close>).
\<close>

type_synonym assembly = "Wallet \<times> event list"

definition IssuerIdentities ::
  "CryptoMaterialGenerator \<Rightarrow> TMS \<Rightarrow> Node \<Rightarrow> assembly \<Rightarrow> (error \<times> assembly) + assembly" where
  "IssuerIdentities cmGenerator tms node = (\<lambda>(wallet, evs).
     (let issuers = OptIssuers (PlatformOpts node) in
      if length issuers \<noteq> 0 then
        (let issuers = issuers @ [NodeID node];
             ids = GenerateIssuerIdentities cmGenerator tms node issuers;
             evs = evs @ [EvGenerateIdentities IssuerRole tms node issuers];
             wallet = wallet\<lparr>Issuers := appendIdentities (Issuers wallet) ids\<rparr>
         in case setDefault (Issuers wallet) (int (length (Issuers wallet)) - 1) of
              Inl e \<Rightarrow> Inl (e, wallet, evs)
            | Inr w \<Rightarrow> Inr (wallet\<lparr>Issuers := w\<rparr>, evs))
      else Inr (wallet, evs)))"

definition OwnerIdentities ::
  "CryptoMaterialGenerator \<Rightarrow> TMS \<Rightarrow> Node \<Rightarrow> assembly \<Rightarrow> (error \<times> assembly) + assembly" where
  "OwnerIdentities cmGenerator tms node = (\<lambda>(wallet, evs).
     (let owners = OptOwners (PlatformOpts node) in
      if length owners \<noteq> 0 then
        (let owners = owners @ [NodeID node];
             ids = GenerateOwnerIdentities cmGenerator tms node owners;
             evs = evs @ [EvGenerateIdentities OwnerRole tms node owners];
             wallet = wallet\<lparr>Owners := appendIdentities (Owners wallet) ids\<rparr>
         in case setDefault (Owners wallet) (int (length (Owners wallet)) - 1) of
              Inl e \<Rightarrow> Inl (e, wallet, evs)
            | Inr w \<Rightarrow> Inr (wallet\<lparr>Owners := w\<rparr>, evs))
      else Inr (wallet, evs)))"

definition AuditorIdentity ::
  "CryptoMaterialGenerator \<Rightarrow> TMS \<Rightarrow> Node \<Rightarrow> assembly \<Rightarrow> (error \<times> assembly) + assembly" where
  "AuditorIdentity cmGenerator tms node = (\<lambda>(wallet, evs).
     if OptAuditor (PlatformOpts node) then
       (let ids = GenerateAuditorIdentities cmGenerator tms node [Name node];
            evs = evs @ [EvGenerateIdentities AuditorRole tms node [Name node]]
        in case index ids 0 of
             Inl e \<Rightarrow> Inl (e, wallet, evs)
           | Inr x \<Rightarrow>
               (let wallet = wallet\<lparr>Auditors := Auditors wallet @ [x]\<rparr>
                in case setDefault (Auditors wallet) 0 of
                     Inl e \<Rightarrow> Inl (e, wallet, evs)
                   | Inr w \<Rightarrow> Inr (wallet\<lparr>Auditors := w\<rparr>, evs)))
     else Inr (wallet, evs))"

definition CertifierIdentities ::
  "CryptoMaterialGenerator \<Rightarrow> TMS \<Rightarrow> Node \<Rightarrow> assembly \<Rightarrow> (error \<times> assembly) + assembly" where
  "CertifierIdentities cmGenerator tms node = (\<lambda>(wallet, evs).
     if OptCertifier (PlatformOpts node) then
       (let ids = GenerateCertifierIdentities cmGenerator tms node [Name node];
            evs = evs @ [EvGenerateIdentities CertifierRole tms node [Name node]]
        in case index ids 0 of
             Inl e \<Rightarrow> Inl (e, wallet, evs)
           | Inr x \<Rightarrow>
               (let wallet = wallet\<lparr>Certifiers := Certifiers wallet @ [x]\<rparr>
                in case setDefault (Certifiers wallet) 0 of
                     Inl e \<Rightarrow> Inl (e, wallet, evs)
                   | Inr w \<Rightarrow> Inr (wallet\<lparr>Certifiers := w\<rparr>, evs)))
     else Inr (wallet, evs))"

text \<open>Sequencing: the first panic ends the run.\<close>

definition andThen :: "'e + 'a \<Rightarrow> ('a \<Rightarrow> 'e + 'b) \<Rightarrow> 'e + 'b" where
  "andThen r f = (case r of Inl e \<Rightarrow> Inl e | Inr x \<Rightarrow> f x)"

text \<open>
  The wallet of a node as the store holds it, and the write
  \<^verbatim>\<open>entry.Wallets[node.Name] = wallet\<close> together with the calls made.
\<close>

definition walletOf :: "NetworkHandler \<Rightarrow> nat \<Rightarrow> string \<Rightarrow> Wallet option" where
  "walletOf p entry name = Wallets (Store p ! entry) name"

definition putWallet :: "nat \<Rightarrow> string \<Rightarrow> assembly \<Rightarrow> NetworkHandler \<Rightarrow> NetworkHandler" where
  "putWallet entry name = (\<lambda>(wallet, evs) p.
     p\<lparr>Store := (Store p)[entry := (Store p ! entry)
                    \<lparr>Wallets := (Wallets (Store p ! entry))(name \<mapsto> wallet)\<rparr>],
       Trace := Trace p @ evs\<rparr>)"

text \<open>
  \<^verbatim>\<open>GenerateCryptoMaterial\<close>. The source stores the pointer to the new, empty wallet
  in the entry first and fills the wallet through the pointer; the wallet the entry holds
  when the function returns or panics is the wallet as assembled up to there, which is
  what the model stores.
\<close>

definition GenerateCryptoMaterial ::
  "CryptoMaterialGenerator \<Rightarrow> TMS \<Rightarrow> Node \<Rightarrow> NetworkHandler
     \<Rightarrow> (error \<times> NetworkHandler) + NetworkHandler" where
  "GenerateCryptoMaterial cmGenerator tms node p =
     (let (entry, p) = GetEntry tms p;
          wallet = \<lparr>Certifiers = [], Issuers = [], Owners = [], Auditors = []\<rparr>
      in case andThen (andThen (andThen
                (IssuerIdentities cmGenerator tms node (wallet, []))
                (OwnerIdentities cmGenerator tms node))
                (AuditorIdentity cmGenerator tms node))
                (CertifierIdentities cmGenerator tms node) of
           Inl (e, a) \<Rightarrow> Inl (e, putWallet entry (Name node) a p)
         | Inr a \<Rightarrow> Inr (putWallet entry (Name node) a p))"

section \<open>Artifact generation\<close>

text \<open>The loop over the nodes of the FSC topology; a panic ends it.\<close>

fun forNodes ::
  "CryptoMaterialGenerator \<Rightarrow> TMS \<Rightarrow> Node list \<Rightarrow> NetworkHandler
     \<Rightarrow> (error \<times> NetworkHandler) + NetworkHandler" where
  "forNodes cmGenerator tms [] p = Inr p"
| "forNodes cmGenerator tms (node # nodes) p =
     (case GenerateCryptoMaterial cmGenerator tms node p of
        Inl e \<Rightarrow> Inl e
      | Inr p' \<Rightarrow> forNodes cmGenerator tms nodes p')"

definition logEvent :: "event \<Rightarrow> NetworkHandler \<Rightarrow> NetworkHandler" where
  "logEvent ev p = p\<lparr>Trace := Trace p @ [ev]\<rparr>"

text \<open>
  Lines 96 to 110: the public parameters are generated with the arguments
  \<^verbatim>\<open>root\<close> followed by \<^verbatim>\<open>tms.PublicParamsGenArgs\<close>, then stored.
\<close>

definition generatePublicParameters ::
  "tokenPlatform \<Rightarrow> Externals \<Rightarrow> TMS \<Rightarrow> string \<Rightarrow> NetworkHandler
     \<Rightarrow> (error \<times> NetworkHandler) + NetworkHandler" where
  "generatePublicParameters tp ext tms root p =
     (case GetPublicParamsGenerators tp (Driver tms) of
        None \<Rightarrow> Inl (NoPublicParamsGenerator (Driver tms), p)
      | Some ppGenerator \<Rightarrow>
          (let args = root # PublicParamsGenArgs tms;
               p = logEvent (EvGenerate tms args) p
           in case Generate ppGenerator tms args of
                Inl err \<Rightarrow> Inl (GenerateFailed err, p)
              | Inr ppRaw \<Rightarrow>
                  (let p = logEvent (EvMkdirAll (PublicParametersDir tp)) p
                   in case MkdirAll ext (PublicParametersDir tp) of
                        Some err \<Rightarrow> Inl (MkdirAllFailed err, p)
                      | None \<Rightarrow>
                          (let p = logEvent (EvWriteFile (PublicParametersFile tp tms) ppRaw) p
                           in case WriteFile ext (PublicParametersFile tp tms) ppRaw of
                                Some err \<Rightarrow> Inl (WriteFileFailed err, p)
                              | None \<Rightarrow> Inr p))))"

text \<open>
  Lines 112 to 126: the chaincode, private (FPC) or not. \<^verbatim>\<open>p.Fabric(tms)\<close> asserts that
  the platform of the network is a fabric platform.
\<close>

definition prepareChaincodes ::
  "tokenPlatform \<Rightarrow> Externals \<Rightarrow> TMS \<Rightarrow> NetworkHandler
     \<Rightarrow> (error \<times> NetworkHandler) + ChannelChaincode \<times> NetworkHandler" where
  "prepareChaincodes tp ext tms p =
     (if Private (TokenChaincode tms) then
        (case PlatformByName tp (Network tms) of
           None \<Rightarrow> Inl (NoFabricPlatform (Network tms), p)
         | Some fabric \<Rightarrow>
             (let cc = AddFPC fabric (Namespace tms) (DockerImage (TokenChaincode tms))
                         (Orgs (TokenChaincode tms));
                  p = logEvent (EvAddFPC (Namespace tms) (DockerImage (TokenChaincode tms))
                         (Orgs (TokenChaincode tms))) p;
                  cc = cc\<lparr>Ctor := TCCCtor ext tms\<rparr>
              in Inr (cc, p)))
      else
        (let chaincode = PrepareTCC ext tms
         in case PlatformByName tp (Network tms) of
              None \<Rightarrow> Inl (NoFabricPlatform (Network tms), p)
            | Some fabric \<Rightarrow> Inr (chaincode, logEvent (EvAddChaincode chaincode) p)))"

definition setTCC :: "nat \<Rightarrow> ChannelChaincode \<Rightarrow> NetworkHandler \<Rightarrow> NetworkHandler" where
  "setTCC entry chaincode p =
     p\<lparr>Store := (Store p)[entry := (Store p ! entry)\<lparr>TCC := Some \<lparr>Chaincode = chaincode\<rparr>\<rparr>]\<rparr>"

definition GenerateArtifacts ::
  "tokenPlatform \<Rightarrow> Externals \<Rightarrow> TMS \<Rightarrow> NetworkHandler
     \<Rightarrow> (error \<times> NetworkHandler) + NetworkHandler" where
  "GenerateArtifacts tp ext tms p =
     (let (entry, p) = GetEntry tms p
      in case GetCryptoMaterialGenerator tp (Driver tms) of
           None \<Rightarrow> Inl (NilCryptoMaterialGenerator, p)
         | Some cmGenerator \<Rightarrow>
             (let p = logEvent (EvSetup tms) p
              in case Setup cmGenerator tms of
                   Inl err \<Rightarrow> Inl (SetupFailed err, p)
                 | Inr root \<Rightarrow>
                     (case FSCTopology tp of
                        None \<Rightarrow> Inl (NoFSCTopology, p)
                      | Some nodes \<Rightarrow>
                          andThen (andThen (andThen
                            (forNodes cmGenerator tms nodes p)
                            (generatePublicParameters tp ext tms root))
                            (prepareChaincodes tp ext tms))
                            (\<lambda>(chaincode, p). Inr (setTCC entry chaincode p)))))"

section \<open>Paths\<close>

text \<open>
  \<^verbatim>\<open>strings.Join\<close>, and \<^verbatim>\<open>filepath.Join\<close> as the standard library has it on Unix: the
  elements from the first non-empty one on, joined with the separator and cleaned; the
  empty string when there is none. \<^verbatim>\<open>filepath.Clean\<close>, the lexical normalisation of
  the standard library, is a parameter.
\<close>

fun strings_Join :: "string list \<Rightarrow> string \<Rightarrow> string" where
  "strings_Join [] sep = []"
| "strings_Join [e] sep = e"
| "strings_Join (e # es) sep = e @ sep @ strings_Join es sep"

definition filepath_Join :: "(string \<Rightarrow> string) \<Rightarrow> string list \<Rightarrow> string" where
  "filepath_Join Clean elem =
     (case dropWhile (\<lambda>e. e = []) elem of
        [] \<Rightarrow> []
      | es \<Rightarrow> Clean (strings_Join es ''/''))"

definition FSCCertifierCryptoMaterialDir ::
  "(string \<Rightarrow> string) \<Rightarrow> tokenPlatform \<Rightarrow> TMS \<Rightarrow> Node \<Rightarrow> string" where
  "FSCCertifierCryptoMaterialDir Clean tp tms peer =
     filepath_Join Clean
       [RootDir tp, ''crypto'', ''fsc'', NodeID peer, ''wallets'', ''certifier'',
        Network tms @ ''_'' @ Channel tms @ ''_'' @ Namespace tms @ ''_'' @ Driver tms]"

section \<open>Vocabulary of the statements\<close>

text \<open>
  The four blocks of \<^verbatim>\<open>GenerateCryptoMaterial\<close> in sequence, from the empty wallet: the
  expression the function evaluates, named.
\<close>

definition assembleWallet ::
  "CryptoMaterialGenerator \<Rightarrow> TMS \<Rightarrow> Node \<Rightarrow> (error \<times> assembly) + assembly" where
  "assembleWallet cmGenerator tms node =
     andThen (andThen (andThen
       (IssuerIdentities cmGenerator tms node
          (\<lparr>Certifiers = [], Issuers = [], Owners = [], Auditors = []\<rparr>, []))
       (OwnerIdentities cmGenerator tms node))
       (AuditorIdentity cmGenerator tms node))
       (CertifierIdentities cmGenerator tms node)"

text \<open>
  Role by role: whether a node has membership in a role, the names the handler passes to
  the generator for it, what the generator answers, and the wallet's sequence.
\<close>

fun configured :: "Node \<Rightarrow> IdentityUsage \<Rightarrow> bool" where
  "configured node IssuerRole = (OptIssuers (PlatformOpts node) \<noteq> [])"
| "configured node OwnerRole = (OptOwners (PlatformOpts node) \<noteq> [])"
| "configured node AuditorRole = OptAuditor (PlatformOpts node)"
| "configured node CertifierRole = OptCertifier (PlatformOpts node)"

fun requested :: "Node \<Rightarrow> IdentityUsage \<Rightarrow> string list" where
  "requested node IssuerRole = OptIssuers (PlatformOpts node) @ [NodeID node]"
| "requested node OwnerRole = OptOwners (PlatformOpts node) @ [NodeID node]"
| "requested node AuditorRole = [Name node]"
| "requested node CertifierRole = [Name node]"

fun generated :: "CryptoMaterialGenerator \<Rightarrow> TMS \<Rightarrow> Node \<Rightarrow> IdentityUsage \<Rightarrow> Identity list" where
  "generated g tms node IssuerRole = GenerateIssuerIdentities g tms node (requested node IssuerRole)"
| "generated g tms node OwnerRole = GenerateOwnerIdentities g tms node (requested node OwnerRole)"
| "generated g tms node AuditorRole = GenerateAuditorIdentities g tms node (requested node AuditorRole)"
| "generated g tms node CertifierRole =
     GenerateCertifierIdentities g tms node (requested node CertifierRole)"

fun sequence :: "Wallet \<Rightarrow> IdentityUsage \<Rightarrow> Identity list" where
  "sequence w IssuerRole = Issuers w"
| "sequence w OwnerRole = Owners w"
| "sequence w AuditorRole = Auditors w"
| "sequence w CertifierRole = Certifiers w"

text \<open>
  What a role's sequence is once its block has run: for Issuer and Owner every returned
  record with the last one marked, for Auditor and Certifier the first returned record,
  marked.
\<close>

definition markLast :: "Identity list \<Rightarrow> Identity list" where
  "markLast ids = butlast ids @ [(last ids)\<lparr>Default := True\<rparr>]"

fun filled :: "CryptoMaterialGenerator \<Rightarrow> TMS \<Rightarrow> Node \<Rightarrow> IdentityUsage \<Rightarrow> Identity list" where
  "filled g tms node IssuerRole = markLast (generated g tms node IssuerRole)"
| "filled g tms node OwnerRole = markLast (generated g tms node OwnerRole)"
| "filled g tms node AuditorRole = [(hd (generated g tms node AuditorRole))\<lparr>Default := True\<rparr>]"
| "filled g tms node CertifierRole =
     [(hd (generated g tms node CertifierRole))\<lparr>Default := True\<rparr>]"

text \<open>The calls a run added to the trace, and among some calls those for one role.\<close>

definition newEvents :: "NetworkHandler \<Rightarrow> NetworkHandler \<Rightarrow> event list" where
  "newEvents p p' = drop (length (Trace p)) (Trace p')"

fun isCallFor :: "IdentityUsage \<Rightarrow> event \<Rightarrow> bool" where
  "isCallFor r (EvGenerateIdentities r' tms node names) = (r' = r)"
| "isCallFor r ev = False"

definition callsFor :: "IdentityUsage \<Rightarrow> event list \<Rightarrow> event list" where
  "callsFor r evs = filter (isCallFor r) evs"

text \<open>
  The generator answers every role the node is configured for with at least one record.
\<close>

definition answersAll :: "CryptoMaterialGenerator \<Rightarrow> TMS \<Rightarrow> Node \<Rightarrow> bool" where
  "answersAll g tms node \<longleftrightarrow>
     (\<forall>r \<in> {IssuerRole, OwnerRole, AuditorRole, CertifierRole}.
        configured node r \<longrightarrow> generated g tms node r \<noteq> [])"

text \<open>
  Where a run stands after the blocks of the roles \<open>rs\<close>: the wallet, and the calls made.
  A block is blocked when the node has membership in the role and the generator answers
  with no record; the panic it ends in is \<open>failure\<close>.
\<close>

definition callOf :: "TMS \<Rightarrow> Node \<Rightarrow> IdentityUsage \<Rightarrow> event list" where
  "callOf tms node r =
     (if configured node r then [EvGenerateIdentities r tms node (requested node r)] else [])"

definition callsOf :: "TMS \<Rightarrow> Node \<Rightarrow> IdentityUsage list \<Rightarrow> event list" where
  "callsOf tms node rs = concat (map (callOf tms node) rs)"

definition fillIn ::
  "CryptoMaterialGenerator \<Rightarrow> TMS \<Rightarrow> Node \<Rightarrow> IdentityUsage list \<Rightarrow> IdentityUsage
     \<Rightarrow> Identity list" where
  "fillIn g tms node rs r =
     (if r \<in> set rs \<and> configured node r then filled g tms node r else [])"

definition walletAfter ::
  "CryptoMaterialGenerator \<Rightarrow> TMS \<Rightarrow> Node \<Rightarrow> IdentityUsage list \<Rightarrow> Wallet" where
  "walletAfter g tms node rs =
     \<lparr>Certifiers = fillIn g tms node rs CertifierRole, Issuers = fillIn g tms node rs IssuerRole,
      Owners = fillIn g tms node rs OwnerRole, Auditors = fillIn g tms node rs AuditorRole\<rparr>"

definition blocked :: "CryptoMaterialGenerator \<Rightarrow> TMS \<Rightarrow> Node \<Rightarrow> IdentityUsage \<Rightarrow> bool" where
  "blocked g tms node r \<longleftrightarrow> configured node r \<and> generated g tms node r = []"

definition failure :: "IdentityUsage \<Rightarrow> error" where
  "failure r = IndexOutOfRange (if r = IssuerRole \<or> r = OwnerRole then - 1 else 0) 0"

text \<open>The roles in the order of their blocks.\<close>

definition allRoles :: "IdentityUsage list" where
  "allRoles = [IssuerRole, OwnerRole, AuditorRole, CertifierRole]"

text \<open>The roles whose blocks come before the block of a role.\<close>

fun before :: "IdentityUsage \<Rightarrow> IdentityUsage list" where
  "before IssuerRole = []"
| "before OwnerRole = [IssuerRole]"
| "before AuditorRole = [IssuerRole, OwnerRole]"
| "before CertifierRole = [IssuerRole, OwnerRole, AuditorRole]"

text \<open>
  The generator answers with at least one record every role the node has membership in,
  among the roles up to \<open>r\<close> and \<open>r\<close> itself: the blocks before the block of \<open>r\<close> do not
  panic, and the block of \<open>r\<close> finds a record.
\<close>

definition answersUpTo :: "CryptoMaterialGenerator \<Rightarrow> TMS \<Rightarrow> Node \<Rightarrow> IdentityUsage \<Rightarrow> bool" where
  "answersUpTo g tms node r \<longleftrightarrow>
     (\<forall>r' \<in> set (before r @ [r]). configured node r' \<longrightarrow> generated g tms node r' \<noteq> [])"

text \<open>
  The records of a role's sequence that come before the last one: for Issuer and Owner the
  generator's records but the last, as returned; none for Auditor and Certifier.
\<close>

fun kept :: "CryptoMaterialGenerator \<Rightarrow> TMS \<Rightarrow> Node \<Rightarrow> IdentityUsage \<Rightarrow> Identity list" where
  "kept g tms node IssuerRole = butlast (generated g tms node IssuerRole)"
| "kept g tms node OwnerRole = butlast (generated g tms node OwnerRole)"
| "kept g tms node AuditorRole = []"
| "kept g tms node CertifierRole = []"

text \<open>
  The phase of a call, in the order \<^verbatim>\<open>GenerateArtifacts\<close> makes them: the set-up of the
  crypto material, the identities of the nodes, the generation of the public parameters,
  the directory, the file, the chaincode.
\<close>

fun phaseOf :: "event \<Rightarrow> nat" where
  "phaseOf (EvSetup tms) = 0"
| "phaseOf (EvGenerateIdentities r tms node names) = 1"
| "phaseOf (EvGenerate tms args) = 2"
| "phaseOf (EvMkdirAll dir) = 3"
| "phaseOf (EvWriteFile file raw) = 4"
| "phaseOf (EvAddFPC ns img orgs) = 5"
| "phaseOf (EvAddChaincode cc) = 5"

text \<open>
  What the loop over the nodes may change from \<open>q\<close> to \<open>q'\<close>, for the entry at \<open>a\<close>: it
  adds wallets and identity calls, nothing else.
\<close>

definition grown :: "nat \<Rightarrow> NetworkHandler \<Rightarrow> NetworkHandler \<Rightarrow> bool" where
  "grown a q q' \<longleftrightarrow>
     Entries q' = Entries q \<and> length (Store q') = length (Store q) \<and>
     (\<forall>i. TCC (Store q' ! i) = TCC (Store q ! i)) \<and>
     (\<forall>i. TMS (Store q' ! i) = TMS (Store q ! i)) \<and>
     dom (Wallets (Store q ! a)) \<subseteq> dom (Wallets (Store q' ! a)) \<and>
     (\<exists>evs. Trace q' = Trace q @ evs \<and> (\<forall>ev \<in> set evs. phaseOf ev = 1))"

text \<open>A handler with calls added to its trace.\<close>

definition withEvents :: "event list \<Rightarrow> NetworkHandler \<Rightarrow> NetworkHandler" where
  "withEvents evs q = q\<lparr>Trace := Trace q @ evs\<rparr>"

text \<open>
  The states of an entry in the specification, in order, and the state a run is in when it
  aborts with a given error: the last one it completed. An index out of range is a panic
  of the wallets step.
\<close>

datatype state = Empty | WalletsPopulated | ParametersPersisted | ContractDescriptorSet

fun rank :: "state \<Rightarrow> nat" where
  "rank Empty = 0"
| "rank WalletsPopulated = 1"
| "rank ParametersPersisted = 2"
| "rank ContractDescriptorSet = 3"

fun lastCompleted :: "error \<Rightarrow> state" where
  "lastCompleted (IndexOutOfRange i n) = Empty"
| "lastCompleted NilCryptoMaterialGenerator = Empty"
| "lastCompleted NoFSCTopology = Empty"
| "lastCompleted (SetupFailed err) = Empty"
| "lastCompleted (NoPublicParamsGenerator driver) = WalletsPopulated"
| "lastCompleted (GenerateFailed err) = WalletsPopulated"
| "lastCompleted (MkdirAllFailed err) = WalletsPopulated"
| "lastCompleted (WriteFileFailed err) = WalletsPopulated"
| "lastCompleted (NoFabricPlatform network) = ParametersPersisted"

fun walletsStep :: "error \<Rightarrow> bool" where
  "walletsStep (IndexOutOfRange i n) = True"
| "walletsStep e = False"

text \<open>
  The wallet map once the wallet of every node of \<open>nodes\<close> is built and stored, from the
  wallet map \<open>m\<close>: under the name of each node its complete wallet, which is
  \<open>walletAfter\<close> for all the roles (every role the node has membership in is filled, the
  others are empty); a later node of the same name replaces an earlier one. With it, the
  identity calls made for the nodes, node by node.
\<close>

fun populated ::
  "CryptoMaterialGenerator \<Rightarrow> TMS \<Rightarrow> Node list \<Rightarrow> (string \<rightharpoonup> Wallet) \<Rightarrow> (string \<rightharpoonup> Wallet)" where
  "populated g tms [] m = m"
| "populated g tms (node # nodes) m =
     populated g tms nodes (m(Name node \<mapsto> walletAfter g tms node allRoles))"

definition walletCalls :: "TMS \<Rightarrow> Node list \<Rightarrow> event list" where
  "walletCalls tms nodes = concat (map (\<lambda>node. callsOf tms node allRoles) nodes)"

text \<open>
  The wallets are populated, for a run that found the entry as \<open>e0\<close> and leaves it as \<open>e'\<close>
  after the calls \<open>evs\<close>: the generator answered every role of every node of the topology,
  the wallet map of \<open>e'\<close> is the one of \<open>e0\<close> with the complete wallet of every node stored,
  and the calls of the first two phases are the set-up followed by the identity calls of
  every node.
\<close>

definition walletsPopulated ::
  "tokenPlatform \<Rightarrow> TMS \<Rightarrow> Entry \<Rightarrow> Entry \<Rightarrow> event list \<Rightarrow> bool" where
  "walletsPopulated tp tms e0 e' evs \<longleftrightarrow>
     (case GetCryptoMaterialGenerator tp (Driver tms) of
        None \<Rightarrow> False
      | Some g \<Rightarrow>
          (case FSCTopology tp of
             None \<Rightarrow> False
           | Some nodes \<Rightarrow>
               (\<forall>node \<in> set nodes. answersAll g tms node) \<and>
               Wallets e' = populated g tms nodes (Wallets e0) \<and>
               filter (\<lambda>ev. phaseOf ev \<le> 1) evs = EvSetup tms # walletCalls tms nodes))"

text \<open>
  What a panic \<open>e\<close> of the wallets step leaves: the topology is \<open>built @ node # rest\<close>, the
  wallets of the nodes \<open>built\<close> are complete, and the panic came from the block of the role
  \<open>r\<close> of \<open>node\<close>, the first one the generator answered with no record. The wallet map
  holds the wallets of \<open>built\<close> and, under the name of \<open>node\<close>, the wallet as far as it was
  assembled: the roles before \<open>r\<close> filled, \<open>r\<close> and the roles after it empty. The calls are
  the set-up, the identity calls of \<open>built\<close> and those of \<open>node\<close> up to the one for \<open>r\<close>.
\<close>

definition walletsPartial ::
  "tokenPlatform \<Rightarrow> TMS \<Rightarrow> error \<Rightarrow> Entry \<Rightarrow> Entry \<Rightarrow> event list \<Rightarrow> bool" where
  "walletsPartial tp tms e e0 e' evs \<longleftrightarrow>
     (case GetCryptoMaterialGenerator tp (Driver tms) of
        None \<Rightarrow> False
      | Some g \<Rightarrow>
          (case FSCTopology tp of
             None \<Rightarrow> False
           | Some nodes \<Rightarrow>
               (\<exists>built node rest r.
                  nodes = built @ node # rest \<and>
                  (\<forall>n \<in> set built. answersAll g tms n) \<and>
                  (\<forall>r' \<in> set (before r). \<not> blocked g tms node r') \<and>
                  blocked g tms node r \<and>
                  e = failure r \<and>
                  Wallets e' =
                    (populated g tms built (Wallets e0))
                      (Name node \<mapsto> walletAfter g tms node (before r)) \<and>
                  evs = EvSetup tms # walletCalls tms built @ callsOf tms node (before r @ [r]))))"

text \<open>
  The parameters are persisted when the calls hold a write of the public parameters file
  that succeeded. They are generated and persisted when the calls of the phases 2 to 4 are
  the generation with the root of the set-up followed by the arguments of the TMS, the
  creation of the directory, and the write of what the generation returned, all three
  successful.
\<close>

definition parametersPersisted :: "tokenPlatform \<Rightarrow> Externals \<Rightarrow> TMS \<Rightarrow> event list \<Rightarrow> bool" where
  "parametersPersisted tp ext tms evs \<longleftrightarrow>
     (\<exists>raw. EvWriteFile (PublicParametersFile tp tms) raw \<in> set evs \<and>
            WriteFile ext (PublicParametersFile tp tms) raw = None)"

definition parametersGenerated :: "tokenPlatform \<Rightarrow> Externals \<Rightarrow> TMS \<Rightarrow> event list \<Rightarrow> bool" where
  "parametersGenerated tp ext tms evs \<longleftrightarrow>
     (\<exists>g root ppGenerator ppRaw.
        GetCryptoMaterialGenerator tp (Driver tms) = Some g \<and> Setup g tms = Inr root \<and>
        GetPublicParamsGenerators tp (Driver tms) = Some ppGenerator \<and>
        Generate ppGenerator tms (root # PublicParamsGenArgs tms) = Inr ppRaw \<and>
        MkdirAll ext (PublicParametersDir tp) = None \<and>
        WriteFile ext (PublicParametersFile tp tms) ppRaw = None \<and>
        filter (\<lambda>ev. 2 \<le> phaseOf ev \<and> phaseOf ev \<le> 4) evs =
          [EvGenerate tms (root # PublicParamsGenArgs tms), EvMkdirAll (PublicParametersDir tp),
           EvWriteFile (PublicParametersFile tp tms) ppRaw])"

text \<open>
  The chaincode \<^verbatim>\<open>GenerateArtifacts\<close> prepares on the fabric platform of the network, and
  the call that registers it. The contract descriptor is set when the TCC of the entry
  holds that chaincode and the registration is the last call, the only one of its phase.
\<close>

definition chaincodeOf :: "fabricPlatform \<Rightarrow> Externals \<Rightarrow> TMS \<Rightarrow> ChannelChaincode" where
  "chaincodeOf fabric ext tms =
     (if Private (TokenChaincode tms) then
        (AddFPC fabric (Namespace tms) (DockerImage (TokenChaincode tms))
           (Orgs (TokenChaincode tms)))\<lparr>Ctor := TCCCtor ext tms\<rparr>
      else PrepareTCC ext tms)"

definition registration :: "Externals \<Rightarrow> TMS \<Rightarrow> event" where
  "registration ext tms =
     (if Private (TokenChaincode tms) then
        EvAddFPC (Namespace tms) (DockerImage (TokenChaincode tms)) (Orgs (TokenChaincode tms))
      else EvAddChaincode (PrepareTCC ext tms))"

definition descriptorSet :: "tokenPlatform \<Rightarrow> Externals \<Rightarrow> TMS \<Rightarrow> Entry \<Rightarrow> event list \<Rightarrow> bool" where
  "descriptorSet tp ext tms e' evs \<longleftrightarrow>
     (case PlatformByName tp (Network tms) of
        None \<Rightarrow> False
      | Some fabric \<Rightarrow>
          TCC e' = Some \<lparr>Chaincode = chaincodeOf fabric ext tms\<rparr> \<and>
          evs \<noteq> [] \<and> last evs = registration ext tms \<and>
          (\<forall>ev \<in> set (butlast evs). phaseOf ev < 5))"

text \<open>The facts of a run that ends in the state \<open>s\<close>, on the calls and on the entry.\<close>

definition stageFacts ::
  "tokenPlatform \<Rightarrow> Externals \<Rightarrow> TMS \<Rightarrow> NetworkHandler \<Rightarrow> NetworkHandler \<Rightarrow> state \<Rightarrow> bool" where
  "stageFacts tp ext tms p p' s \<longleftrightarrow>
     (let a = fst (GetEntry tms p); p0 = snd (GetEntry tms p); evs = newEvents p p'
      in Trace p' = Trace p @ evs \<and> sorted (map phaseOf evs) \<and>
         Entries p' = Entries p0 \<and> TMS (Store p' ! a) = TMS (Store p0 ! a) \<and>
         dom (Wallets (Store p0 ! a)) \<subseteq> dom (Wallets (Store p' ! a)) \<and>
         (rank s = 0 \<longrightarrow> (\<forall>ev \<in> set evs. phaseOf ev \<le> 1)) \<and>
         (parametersPersisted tp ext tms evs \<longleftrightarrow> 2 \<le> rank s) \<and>
         (rank s < 3 \<longrightarrow>
            TCC (Store p' ! a) = TCC (Store p0 ! a) \<and> (\<forall>ev \<in> set evs. phaseOf ev < 5)) \<and>
         (rank s = 3 \<longrightarrow>
            TCC (Store p' ! a) \<noteq> None \<and> evs \<noteq> [] \<and> phaseOf (last evs) = 5))"

definition entryFacts ::
  "tokenPlatform \<Rightarrow> Externals \<Rightarrow> TMS \<Rightarrow> NetworkHandler \<Rightarrow> NetworkHandler \<Rightarrow> error \<Rightarrow> state
     \<Rightarrow> bool" where
  "entryFacts tp ext tms p p' e s \<longleftrightarrow>
     (let a = fst (GetEntry tms p); p0 = snd (GetEntry tms p); evs = newEvents p p';
          e0 = Store p0 ! a; e' = Store p' ! a
      in (1 \<le> rank s \<longrightarrow> walletsPopulated tp tms e0 e' evs) \<and>
         (rank s = 0 \<longrightarrow>
            (if walletsStep e then walletsPartial tp tms e e0 e' evs
             else Wallets e' = Wallets e0)) \<and>
         (2 \<le> rank s \<longrightarrow> parametersGenerated tp ext tms evs) \<and>
         (rank s = 3 \<longrightarrow> descriptorSet tp ext tms e' evs))"

section \<open>Example inputs\<close>

text \<open>
  The scenario of the specification: the TMS N1/C1/tokens with driver zkat and the node
  org1peer, with one issuer name, no owner, auditor and not certifier; a generator that
  returns one record per requested name.
\<close>

definition exampleTMS :: TMS where
  "exampleTMS = \<lparr>Network = ''N1'', Channel = ''C1'', Namespace = ''tokens'', Driver = ''zkat'',
     PublicParamsGenArgs = [''32''],
     TokenChaincode = \<lparr>Private = False, DockerImage = [], Orgs = []\<rparr>\<rparr>"

definition exampleNode :: Node where
  "exampleNode = \<lparr>Name = ''org1peer'', NodeID = ''org1peer'',
     PlatformOpts = \<lparr>OptIssuers = [''alice''], OptOwners = [], OptAuditor = True,
       OptCertifier = False\<rparr>\<rparr>"

definition perName :: "bool \<Rightarrow> string list \<Rightarrow> Identity list" where
  "perName flag names = map (\<lambda>n. \<lparr>Credential = n @ ''-cred'', Default = flag\<rparr>) names"

definition exampleGenerator :: CryptoMaterialGenerator where
  "exampleGenerator = \<lparr>Setup = (\<lambda>tms. Inr ''root''),
     GenerateCertifierIdentities = (\<lambda>tms node. perName False),
     GenerateOwnerIdentities = (\<lambda>tms node. perName False),
     GenerateIssuerIdentities = (\<lambda>tms node. perName False),
     GenerateAuditorIdentities = (\<lambda>tms node. perName False)\<rparr>"

text \<open>
  A second descriptor of the same network, channel and namespace, and two descriptors
  whose names differ and concatenate to the same key.
\<close>

definition exampleTMS2 :: TMS where
  "exampleTMS2 = exampleTMS\<lparr>Driver := ''fabtoken'', PublicParamsGenArgs := []\<rparr>"

definition collideA :: TMS where
  "collideA = exampleTMS\<lparr>Network := ''a'', Channel := ''bc'', Namespace := ''x''\<rparr>"

definition collideB :: TMS where
  "collideB = exampleTMS\<lparr>Network := ''ab'', Channel := ''c'', Namespace := ''x''\<rparr>"

text \<open>
  Three more generators: one that answers the issuer request with no record, one whose
  issuer records all carry \<^verbatim>\<open>Default = true\<close>, and one that answers the issuer request
  with a single record whatever the names.
\<close>

definition emptyGenerator :: CryptoMaterialGenerator where
  "emptyGenerator = exampleGenerator\<lparr>GenerateIssuerIdentities := (\<lambda>tms node names. [])\<rparr>"

definition flaggedGenerator :: CryptoMaterialGenerator where
  "flaggedGenerator = exampleGenerator\<lparr>GenerateIssuerIdentities := (\<lambda>tms node. perName True)\<rparr>"


text \<open>
  The calls of the example run, the handler it leaves when the wallet it assembles is
  \<open>w\<close>, and the wallets the three generators that answer give.
\<close>

definition exampleCalls :: "event list" where
  "exampleCalls =
     [EvGenerateIdentities IssuerRole exampleTMS exampleNode [''alice'', ''org1peer''],
      EvGenerateIdentities AuditorRole exampleTMS exampleNode [''org1peer'']]"

definition handlerWith :: "Wallet \<Rightarrow> NetworkHandler" where
  "handlerWith w =
     putWallet 0 ''org1peer'' (w, exampleCalls) (snd (GetEntry exampleTMS NewNetworkHandler))"

definition exampleWallet :: Wallet where
  "exampleWallet = \<lparr>Certifiers = [],
     Issuers = [\<lparr>Credential = ''alice-cred'', Default = False\<rparr>,
                \<lparr>Credential = ''org1peer-cred'', Default = True\<rparr>],
     Owners = [],
     Auditors = [\<lparr>Credential = ''org1peer-cred'', Default = True\<rparr>]\<rparr>"

definition flaggedWallet :: Wallet where
  "flaggedWallet = \<lparr>Certifiers = [],
     Issuers = [\<lparr>Credential = ''alice-cred'', Default = True\<rparr>,
                \<lparr>Credential = ''org1peer-cred'', Default = True\<rparr>],
     Owners = [],
     Auditors = [\<lparr>Credential = ''org1peer-cred'', Default = True\<rparr>]\<rparr>"


text \<open>
  A generator that answers the auditor request with no record, and the wallet the example
  node is left with when its run panics in the auditor block: the issuers, no auditor.
\<close>

definition muteGenerator :: CryptoMaterialGenerator where
  "muteGenerator = exampleGenerator\<lparr>GenerateAuditorIdentities := (\<lambda>tms node names. [])\<rparr>"

definition muteWallet :: Wallet where
  "muteWallet = \<lparr>Certifiers = [],
     Issuers = [\<lparr>Credential = ''alice-cred'', Default = False\<rparr>,
                \<lparr>Credential = ''org1peer-cred'', Default = True\<rparr>],
     Owners = [],
     Auditors = []\<rparr>"

text \<open>
  The handler the example node's run leaves with the generator that answers the issuer
  request with no record: the issuer call only, and a wallet with nothing in it.
\<close>

definition emptyWallet :: Wallet where
  "emptyWallet = \<lparr>Certifiers = [], Issuers = [], Owners = [], Auditors = []\<rparr>"

definition blockedHandler :: NetworkHandler where
  "blockedHandler =
     putWallet 0 ''org1peer''
       (emptyWallet,
        [EvGenerateIdentities IssuerRole exampleTMS exampleNode [''alice'', ''org1peer'']])
       (snd (GetEntry exampleTMS NewNetworkHandler))"

text \<open>
  A node that is auditor and certifier, with no issuer and no owner name, and a generator
  that answers the auditor and the certifier request with two records, one for the
  requested name and a spare one; the calls of the node's run with this generator, the
  wallet, and the handler the run leaves.
\<close>

definition pairGenerator :: CryptoMaterialGenerator where
  "pairGenerator = exampleGenerator\<lparr>
     GenerateCertifierIdentities := (\<lambda>tms node names. perName False (names @ [''spare''])),
     GenerateAuditorIdentities := (\<lambda>tms node names. perName False (names @ [''spare'']))\<rparr>"

definition certifierNode :: Node where
  "certifierNode = \<lparr>Name = ''org2peer'', NodeID = ''fsc.org2peer'',
     PlatformOpts = \<lparr>OptIssuers = [], OptOwners = [], OptAuditor = True,
       OptCertifier = True\<rparr>\<rparr>"

definition certifierCalls :: "event list" where
  "certifierCalls =
     [EvGenerateIdentities AuditorRole exampleTMS certifierNode [''org2peer''],
      EvGenerateIdentities CertifierRole exampleTMS certifierNode [''org2peer'']]"

definition certifierWallet :: Wallet where
  "certifierWallet = \<lparr>Certifiers = [\<lparr>Credential = ''org2peer-cred'', Default = True\<rparr>],
     Issuers = [],
     Owners = [],
     Auditors = [\<lparr>Credential = ''org2peer-cred'', Default = True\<rparr>]\<rparr>"

definition certifierHandler :: NetworkHandler where
  "certifierHandler =
     putWallet 0 ''org2peer'' (certifierWallet, certifierCalls)
       (snd (GetEntry exampleTMS NewNetworkHandler))"

text \<open>
  A token platform with one node, a public parameters generator for the driver zkat only,
  and an operating system that creates the directory and writes the file.
\<close>

definition examplePPGenerator :: PublicParamsGenerator where
  "examplePPGenerator = \<lparr>Generate = (\<lambda>tms args. Inr ''pp'')\<rparr>"

definition exampleFabric :: fabricPlatform where
  "exampleFabric = \<lparr>AddFPC = (\<lambda>ns img orgs. \<lparr>Descr = ns, Ctor = []\<rparr>)\<rparr>"

definition exampleTokenPlatform :: tokenPlatform where
  "exampleTokenPlatform = \<lparr>
     PublicParametersFile = (\<lambda>tms. ''/net/token/pp.json''),
     GetPublicParamsGenerators = (\<lambda>driver. if driver = ''zkat'' then Some examplePPGenerator else None),
     GetCryptoMaterialGenerator = (\<lambda>driver. Some exampleGenerator),
     PublicParametersDir = ''/net/token'',
     RootDir = ''/net'',
     FSCTopology = Some [exampleNode],
     PlatformByName = (\<lambda>network. Some exampleFabric)\<rparr>"

definition exampleExternals :: Externals where
  "exampleExternals = \<lparr>
     PrepareTCC = (\<lambda>tms. \<lparr>Descr = Namespace tms, Ctor = ''init''\<rparr>),
     TCCCtor = (\<lambda>tms. ''init''),
     MkdirAll = (\<lambda>dir. None),
     WriteFile = (\<lambda>file raw. None)\<rparr>"

text \<open>
  The same platform with the generator that gives no auditor record, and the handler its
  run leaves: the set-up call, then the calls and the wallet of the example node up to the
  panic.
\<close>

definition muteTokenPlatform :: tokenPlatform where
  "muteTokenPlatform =
     exampleTokenPlatform\<lparr>GetCryptoMaterialGenerator := (\<lambda>driver. Some muteGenerator)\<rparr>"

definition abortedHandler :: NetworkHandler where
  "abortedHandler =
     putWallet 0 ''org1peer'' (muteWallet, exampleCalls)
       (logEvent (EvSetup exampleTMS) (snd (GetEntry exampleTMS NewNetworkHandler)))"

section \<open>Properties of the entry registry\<close>

lemma wellformed_NewNetworkHandler: "wellformed NewNetworkHandler"
  by (simp add: wellformed_def NewNetworkHandler_def)

lemma GetEntry_wellformed:
  assumes "wellformed p"
  shows "wellformed (snd (GetEntry tms p))"
proof (cases "Entries p (Network tms @ Channel tms @ Namespace tms)")
  case None
  have fresh: "\<And>k a. Entries p k = Some a \<Longrightarrow> a \<noteq> length (Store p)"
    using assms by (fastforce simp: wellformed_def)
  show ?thesis
    using assms None fresh
    unfolding wellformed_def GetEntry_def
    by (auto simp: Let_def less_Suc_eq split: if_splits)
next
  case (Some a)
  then show ?thesis using assms by (simp add: GetEntry_def)
qed

lemma GetEntry_registered:
  "Entries (snd (GetEntry tms p)) (Network tms @ Channel tms @ Namespace tms)
     = Some (fst (GetEntry tms p))"
  by (simp add: GetEntry_def Let_def split: option.splits)

lemma GetEntry_allocated:
  "wellformed p \<Longrightarrow> fst (GetEntry tms p) < length (Store (snd (GetEntry tms p)))"
  by (auto simp: GetEntry_def Let_def wellformed_def split: option.splits)

lemma GetEntry_again:
  "Network t2 @ Channel t2 @ Namespace t2 = Network t1 @ Channel t1 @ Namespace t1 \<Longrightarrow>
   GetEntry t2 (snd (GetEntry t1 p)) = (fst (GetEntry t1 p), snd (GetEntry t1 p))"
  by (simp add: GetEntry_def Let_def split: option.splits)

section \<open>Properties of the wallet assembly\<close>

lemma appendIdentities_append: "appendIdentities w ids = w @ ids"
  by (induction ids arbitrary: w) simp_all

lemma setDefault_last:
  "setDefault w (int (length w) - 1) =
     (if w = [] then Inl (IndexOutOfRange (- 1) 0) else Inr (markLast w))"
  by (cases w rule: rev_cases) (simp_all add: setDefault_def markLast_def nth_append)

lemma index_0:
  "index ids 0 = (if ids = [] then Inl (IndexOutOfRange 0 0) else Inr (hd ids))"
  by (cases ids) (simp_all add: index_def)

lemma setDefault_single: "setDefault [x] 0 = Inr [x\<lparr>Default := True\<rparr>]"
  by (simp add: setDefault_def)

lemma IssuerIdentities_empty:
  "Issuers w = [] \<Longrightarrow>
   IssuerIdentities g tms node (w, evs) =
     (if configured node IssuerRole then
        (if generated g tms node IssuerRole = []
         then Inl (IndexOutOfRange (- 1) 0, w,
                evs @ [EvGenerateIdentities IssuerRole tms node (requested node IssuerRole)])
         else Inr (w\<lparr>Issuers := filled g tms node IssuerRole\<rparr>,
                evs @ [EvGenerateIdentities IssuerRole tms node (requested node IssuerRole)]))
      else Inr (w, evs))"
  by (simp add: IssuerIdentities_def Let_def appendIdentities_append setDefault_last)

lemma OwnerIdentities_empty:
  "Owners w = [] \<Longrightarrow>
   OwnerIdentities g tms node (w, evs) =
     (if configured node OwnerRole then
        (if generated g tms node OwnerRole = []
         then Inl (IndexOutOfRange (- 1) 0, w,
                evs @ [EvGenerateIdentities OwnerRole tms node (requested node OwnerRole)])
         else Inr (w\<lparr>Owners := filled g tms node OwnerRole\<rparr>,
                evs @ [EvGenerateIdentities OwnerRole tms node (requested node OwnerRole)]))
      else Inr (w, evs))"
  by (simp add: OwnerIdentities_def Let_def appendIdentities_append setDefault_last)

lemma AuditorIdentity_empty:
  "Auditors w = [] \<Longrightarrow>
   AuditorIdentity g tms node (w, evs) =
     (if configured node AuditorRole then
        (if generated g tms node AuditorRole = []
         then Inl (IndexOutOfRange 0 0, w,
                evs @ [EvGenerateIdentities AuditorRole tms node (requested node AuditorRole)])
         else Inr (w\<lparr>Auditors := filled g tms node AuditorRole\<rparr>,
                evs @ [EvGenerateIdentities AuditorRole tms node (requested node AuditorRole)]))
      else Inr (w, evs))"
  by (simp add: AuditorIdentity_def Let_def index_0 setDefault_single)

lemma CertifierIdentities_empty:
  "Certifiers w = [] \<Longrightarrow>
   CertifierIdentities g tms node (w, evs) =
     (if configured node CertifierRole then
        (if generated g tms node CertifierRole = []
         then Inl (IndexOutOfRange 0 0, w,
                evs @ [EvGenerateIdentities CertifierRole tms node (requested node CertifierRole)])
         else Inr (w\<lparr>Certifiers := filled g tms node CertifierRole\<rparr>,
                evs @ [EvGenerateIdentities CertifierRole tms node (requested node CertifierRole)]))
      else Inr (w, evs))"
  by (simp add: CertifierIdentities_def Let_def index_0 setDefault_single)


lemma andThen_simps [simp]: "andThen (Inl e) f = Inl e" "andThen (Inr x) f = f x"
  by (simp_all add: andThen_def)



lemma step_Issuer:
  "IssuerIdentities g tms node (walletAfter g tms node [], callsOf tms node []) =
     (if blocked g tms node IssuerRole
      then Inl (failure IssuerRole, walletAfter g tms node [], callsOf tms node [IssuerRole])
      else Inr (walletAfter g tms node [IssuerRole], callsOf tms node [IssuerRole]))"
  by (simp add: walletAfter_def fillIn_def callsOf_def callOf_def failure_def blocked_def
        IssuerIdentities_empty)

lemma step_Owner:
  "OwnerIdentities g tms node (walletAfter g tms node [IssuerRole], callsOf tms node [IssuerRole]) =
     (if blocked g tms node OwnerRole
      then Inl (failure OwnerRole, walletAfter g tms node [IssuerRole],
             callsOf tms node [IssuerRole, OwnerRole])
      else Inr (walletAfter g tms node [IssuerRole, OwnerRole],
             callsOf tms node [IssuerRole, OwnerRole]))"
  by (simp add: walletAfter_def fillIn_def callsOf_def callOf_def failure_def blocked_def
        OwnerIdentities_empty)

lemma step_Auditor:
  "AuditorIdentity g tms node
     (walletAfter g tms node [IssuerRole, OwnerRole], callsOf tms node [IssuerRole, OwnerRole]) =
     (if blocked g tms node AuditorRole
      then Inl (failure AuditorRole, walletAfter g tms node [IssuerRole, OwnerRole],
             callsOf tms node [IssuerRole, OwnerRole, AuditorRole])
      else Inr (walletAfter g tms node [IssuerRole, OwnerRole, AuditorRole],
             callsOf tms node [IssuerRole, OwnerRole, AuditorRole]))"
  by (simp add: walletAfter_def fillIn_def callsOf_def callOf_def failure_def blocked_def
        AuditorIdentity_empty)

lemma step_Certifier:
  "CertifierIdentities g tms node
     (walletAfter g tms node [IssuerRole, OwnerRole, AuditorRole],
      callsOf tms node [IssuerRole, OwnerRole, AuditorRole]) =
     (if blocked g tms node CertifierRole
      then Inl (failure CertifierRole, walletAfter g tms node [IssuerRole, OwnerRole, AuditorRole],
             callsOf tms node [IssuerRole, OwnerRole, AuditorRole, CertifierRole])
      else Inr (walletAfter g tms node [IssuerRole, OwnerRole, AuditorRole, CertifierRole],
             callsOf tms node [IssuerRole, OwnerRole, AuditorRole, CertifierRole]))"
  by (simp add: walletAfter_def fillIn_def callsOf_def callOf_def failure_def blocked_def
        CertifierIdentities_empty)

lemma start_wallet:
  "(\<lparr>Certifiers = [], Issuers = [], Owners = [], Auditors = []\<rparr>, []) =
     (walletAfter g tms node [], callsOf tms node [])"
  by (simp add: walletAfter_def fillIn_def callsOf_def)

lemma assembleWallet_eq:
  "assembleWallet g tms node =
     (if blocked g tms node IssuerRole then
        Inl (failure IssuerRole, walletAfter g tms node [], callsOf tms node [IssuerRole])
      else if blocked g tms node OwnerRole then
        Inl (failure OwnerRole, walletAfter g tms node [IssuerRole],
          callsOf tms node [IssuerRole, OwnerRole])
      else if blocked g tms node AuditorRole then
        Inl (failure AuditorRole, walletAfter g tms node [IssuerRole, OwnerRole],
          callsOf tms node [IssuerRole, OwnerRole, AuditorRole])
      else if blocked g tms node CertifierRole then
        Inl (failure CertifierRole, walletAfter g tms node [IssuerRole, OwnerRole, AuditorRole],
          callsOf tms node [IssuerRole, OwnerRole, AuditorRole, CertifierRole])
      else
        Inr (walletAfter g tms node [IssuerRole, OwnerRole, AuditorRole, CertifierRole],
          callsOf tms node [IssuerRole, OwnerRole, AuditorRole, CertifierRole]))"
  unfolding assembleWallet_def start_wallet [of g tms node]
  by (simp add: step_Issuer step_Owner step_Auditor step_Certifier)

lemma GenerateCryptoMaterial_assemble:
  "GenerateCryptoMaterial g tms node p =
     (case assembleWallet g tms node of
        Inl (e, a) \<Rightarrow>
          Inl (e, putWallet (fst (GetEntry tms p)) (Name node) a (snd (GetEntry tms p)))
      | Inr a \<Rightarrow> Inr (putWallet (fst (GetEntry tms p)) (Name node) a (snd (GetEntry tms p))))"
  by (cases "GetEntry tms p")
    (simp add: GenerateCryptoMaterial_def assembleWallet_def split: sum.splits prod.splits)

lemma GenerateCryptoMaterial_outcome:
  obtains
    (panic) r where "blocked g tms node r"
      and "GenerateCryptoMaterial g tms node p =
             Inl (failure r, putWallet (fst (GetEntry tms p)) (Name node)
                    (walletAfter g tms node (before r), callsOf tms node (before r @ [r]))
                    (snd (GetEntry tms p)))"
  | (return) "\<forall>r. \<not> blocked g tms node r"
      and "GenerateCryptoMaterial g tms node p =
             Inr (putWallet (fst (GetEntry tms p)) (Name node)
                    (walletAfter g tms node allRoles, callsOf tms node allRoles)
                    (snd (GetEntry tms p)))"
proof -
  consider (i) "blocked g tms node IssuerRole"
    | (ii) "\<not> blocked g tms node IssuerRole" "blocked g tms node OwnerRole"
    | (iii) "\<not> blocked g tms node IssuerRole" "\<not> blocked g tms node OwnerRole"
        "blocked g tms node AuditorRole"
    | (iv) "\<not> blocked g tms node IssuerRole" "\<not> blocked g tms node OwnerRole"
        "\<not> blocked g tms node AuditorRole" "blocked g tms node CertifierRole"
    | (v) "\<not> blocked g tms node IssuerRole" "\<not> blocked g tms node OwnerRole"
        "\<not> blocked g tms node AuditorRole" "\<not> blocked g tms node CertifierRole"
    by blast
  then show thesis
  proof cases
    case i
    then show thesis
      using panic [of IssuerRole]
      by (simp add: GenerateCryptoMaterial_assemble assembleWallet_eq)
  next
    case ii
    then show thesis
      using panic [of OwnerRole]
      by (simp add: GenerateCryptoMaterial_assemble assembleWallet_eq)
  next
    case iii
    then show thesis
      using panic [of AuditorRole]
      by (simp add: GenerateCryptoMaterial_assemble assembleWallet_eq)
  next
    case iv
    then show thesis
      using panic [of CertifierRole]
      by (simp add: GenerateCryptoMaterial_assemble assembleWallet_eq)
  next
    case v
    have "\<not> blocked g tms node r" for r
      using v by (cases r) simp_all
    then show thesis
      using return v
      by (simp add: GenerateCryptoMaterial_assemble assembleWallet_eq allRoles_def)
  qed
qed

lemma sequence_walletAfter: "sequence (walletAfter g tms node rs) r = fillIn g tms node rs r"
  by (cases r) (simp_all add: walletAfter_def)

lemma last_markLast: "Default (last (markLast ids))" "butlast (markLast ids) = butlast ids"
  by (simp_all add: markLast_def)

lemma filled_last: "Default (last (filled g tms node r))"
  by (cases r) (simp_all add: last_markLast)

lemma filled_butlast: "butlast (filled g tms node r) = kept g tms node r"
  by (cases r) (simp_all add: last_markLast)

lemma filled_nonempty: "filled g tms node r \<noteq> []"
  by (cases r) (simp_all add: markLast_def)

lemma callsFor_callOf:
  "callsFor r (callOf tms node r') = (if r = r' then callOf tms node r else [])"
  by (simp add: callsFor_def callOf_def)

lemma callsFor_callsOf_Cons:
  "callsFor r (callsOf tms node (r' # rs)) =
     (if r = r' then callOf tms node r else []) @ callsFor r (callsOf tms node rs)"
  by (simp add: callsOf_def callsFor_def callOf_def)

lemma callsFor_callsOf_Nil: "callsFor r (callsOf tms node []) = []"
  by (simp add: callsOf_def callsFor_def)

lemma callsFor_unconfigured:
  "\<not> configured node r \<Longrightarrow> callsFor r (callsOf tms node rs) = []"
  by (induction rs) (auto simp: callsFor_callsOf_Nil callsFor_callsOf_Cons callOf_def)

lemma callsFor_allRoles: "callsFor r (callsOf tms node allRoles) = callOf tms node r"
  by (cases r) (simp_all add: allRoles_def callsFor_callsOf_Nil callsFor_callsOf_Cons)

lemma walletOf_putWallet:
  "entry < length (Store p) \<Longrightarrow> walletOf (putWallet entry name (w, evs) p) entry name = Some w"
  by (simp add: walletOf_def putWallet_def)

lemma Trace_putWallet: "Trace (putWallet entry name (w, evs) p) = Trace p @ evs"
  by (simp add: putWallet_def)

lemma Trace_GetEntry: "Trace (snd (GetEntry tms p)) = Trace p"
  by (simp add: GetEntry_def Let_def split: option.splits)

lemma newEvents_putWallet:
  "newEvents p (putWallet (fst (GetEntry tms p)) name (w, evs) (snd (GetEntry tms p))) = evs"
  by (simp add: newEvents_def Trace_putWallet Trace_GetEntry)

lemma walletOf_GenerateCryptoMaterial:
  "wellformed p \<Longrightarrow>
   walletOf (putWallet (fst (GetEntry tms p)) name (w, evs) (snd (GetEntry tms p)))
     (fst (GetEntry tms p)) name = Some w"
  by (simp add: walletOf_putWallet GetEntry_allocated)

lemma answersAll_blocked: "answersAll g tms node \<longleftrightarrow> (\<forall>r. \<not> blocked g tms node r)"
proof
  assume a: "answersAll g tms node"
  show "\<forall>r. \<not> blocked g tms node r"
  proof
    fix r
    show "\<not> blocked g tms node r"
      using a by (cases r) (auto simp: answersAll_def blocked_def)
  qed
next
  assume "\<forall>r. \<not> blocked g tms node r"
  then show "answersAll g tms node"
    by (simp add: answersAll_def blocked_def)
qed

text \<open>The example run, evaluated.\<close>

lemma example_answersAll: "answersAll exampleGenerator exampleTMS exampleNode"
  by (simp add: answersAll_def exampleGenerator_def exampleNode_def perName_def)

lemma GenerateCryptoMaterial_returns:
  assumes "answersAll g tms node"
  shows "GenerateCryptoMaterial g tms node p =
           Inr (putWallet (fst (GetEntry tms p)) (Name node)
                  (walletAfter g tms node allRoles, callsOf tms node allRoles)
                  (snd (GetEntry tms p)))"
proof (cases rule: GenerateCryptoMaterial_outcome [of g tms node p])
  case (panic r)
  then show ?thesis using assms by (simp add: answersAll_blocked)
next
  case return
  then show ?thesis by simp
qed

lemma GenerateCryptoMaterial_Inr:
  assumes "GenerateCryptoMaterial g tms node p = Inr p'"
  shows "answersAll g tms node"
    and "p' = putWallet (fst (GetEntry tms p)) (Name node)
                (walletAfter g tms node allRoles, callsOf tms node allRoles)
                (snd (GetEntry tms p))"
proof -
  have "\<exists>q. GenerateCryptoMaterial g tms node p = Inr q"
    using assms by blast
  then show a: "answersAll g tms node"
    by (cases rule: GenerateCryptoMaterial_outcome [of g tms node p])
      (simp_all add: answersAll_blocked)
  show "p' = putWallet (fst (GetEntry tms p)) (Name node)
                (walletAfter g tms node allRoles, callsOf tms node allRoles)
                (snd (GetEntry tms p))"
    using assms GenerateCryptoMaterial_returns [OF a, of p] by simp
qed

lemma GenerateCryptoMaterial_Inl:
  assumes "GenerateCryptoMaterial g tms node p = Inl (e, p')"
  shows "\<exists>r. blocked g tms node r \<and> e = failure r \<and>
           p' = putWallet (fst (GetEntry tms p)) (Name node)
                  (walletAfter g tms node (before r), callsOf tms node (before r @ [r]))
                  (snd (GetEntry tms p))"
proof (cases rule: GenerateCryptoMaterial_outcome [of g tms node p])
  case (panic r)
  then show ?thesis using assms by auto
next
  case return
  then show ?thesis using assms by simp
qed

text \<open>Whatever the outcome, the handler holds a wallet of the form \<open>walletAfter\<close>.\<close>

lemma GenerateCryptoMaterial_leaves:
  assumes "GenerateCryptoMaterial g tms node p = Inr p' \<or>
           GenerateCryptoMaterial g tms node p = Inl (e, p')"
  obtains rs rs' where
    "p' = putWallet (fst (GetEntry tms p)) (Name node)
            (walletAfter g tms node rs, callsOf tms node rs') (snd (GetEntry tms p))"
  using assms GenerateCryptoMaterial_Inr(2) [of g tms node p p']
    GenerateCryptoMaterial_Inl [of g tms node p e p']
  by blast

lemma fillIn_cases:
  "fillIn g tms node rs r = [] \<or> fillIn g tms node rs r = filled g tms node r"
  by (simp add: fillIn_def)

lemma callsOf_snoc: "callsOf tms node (rs @ [r]) = callsOf tms node rs @ callOf tms node r"
  by (simp add: callsOf_def)

lemma count_Default:
  assumes "xs \<noteq> []" and "Default (last xs)" and "\<forall>x \<in> set (butlast xs). \<not> Default x"
  shows "length (filter Default xs) = 1"
proof -
  have "xs = butlast xs @ [last xs]" using assms(1) by simp
  then have "filter Default xs = filter Default (butlast xs) @ filter Default [last xs]"
    by (metis filter_append)
  moreover have "filter Default (butlast xs) = []"
    using assms(3) by (simp add: filter_empty_conv)
  ultimately show ?thesis using assms(2) by simp
qed


text \<open>The example runs, evaluated.\<close>

lemma example_entry: "fst (GetEntry exampleTMS NewNetworkHandler) = 0"
  by (simp add: GetEntry_def NewNetworkHandler_def)

lemma example_calls: "callsOf exampleTMS exampleNode allRoles = exampleCalls"
  by (simp add: callsOf_def callOf_def allRoles_def exampleCalls_def)
    (simp add: exampleNode_def)

lemma example_walletOf: "walletOf (handlerWith w) 0 ''org1peer'' = Some w"
  using walletOf_GenerateCryptoMaterial [OF wellformed_NewNetworkHandler,
      of exampleTMS "''org1peer''" w exampleCalls]
  by (simp add: handlerWith_def example_entry)

lemma example_newEvents: "newEvents NewNetworkHandler (handlerWith w) = exampleCalls"
  using newEvents_putWallet [of NewNetworkHandler exampleTMS "''org1peer''" w exampleCalls]
  by (simp add: handlerWith_def example_entry)

lemma example_run_with:
  assumes "answersAll g exampleTMS exampleNode"
    and "walletAfter g exampleTMS exampleNode allRoles = w"
  shows "GenerateCryptoMaterial g exampleTMS exampleNode NewNetworkHandler = Inr (handlerWith w)"
  unfolding GenerateCryptoMaterial_returns [OF assms(1)] assms(2) example_calls example_entry
    handlerWith_def
  by (simp add: exampleNode_def)

lemma example_wallet: "walletAfter exampleGenerator exampleTMS exampleNode allRoles = exampleWallet"
  by (simp add: walletAfter_def fillIn_def allRoles_def exampleNode_def markLast_def
        exampleGenerator_def perName_def exampleWallet_def)

lemma flagged_wallet: "walletAfter flaggedGenerator exampleTMS exampleNode allRoles = flaggedWallet"
  by (simp add: walletAfter_def fillIn_def allRoles_def exampleNode_def markLast_def
        flaggedGenerator_def exampleGenerator_def perName_def flaggedWallet_def)


lemma flagged_answersAll: "answersAll flaggedGenerator exampleTMS exampleNode"
  by (simp add: answersAll_def flaggedGenerator_def exampleGenerator_def exampleNode_def
        perName_def)


lemma example_run:
  "GenerateCryptoMaterial exampleGenerator exampleTMS exampleNode NewNetworkHandler
     = Inr (handlerWith exampleWallet)"
  using example_answersAll example_wallet by (rule example_run_with)

text \<open>A panic comes from the first role the generator answers with no record.\<close>

lemma GenerateCryptoMaterial_first:
  assumes "GenerateCryptoMaterial g tms node p = Inl (e, p')"
  shows "\<exists>r. blocked g tms node r \<and> (\<forall>r' \<in> set (before r). \<not> blocked g tms node r') \<and>
           e = failure r \<and>
           p' = putWallet (fst (GetEntry tms p)) (Name node)
                  (walletAfter g tms node (before r), callsOf tms node (before r @ [r]))
                  (snd (GetEntry tms p))"
proof -
  consider (i) "blocked g tms node IssuerRole"
    | (ii) "\<not> blocked g tms node IssuerRole" "blocked g tms node OwnerRole"
    | (iii) "\<not> blocked g tms node IssuerRole" "\<not> blocked g tms node OwnerRole"
        "blocked g tms node AuditorRole"
    | (iv) "\<not> blocked g tms node IssuerRole" "\<not> blocked g tms node OwnerRole"
        "\<not> blocked g tms node AuditorRole" "blocked g tms node CertifierRole"
    | (v) "\<not> blocked g tms node IssuerRole" "\<not> blocked g tms node OwnerRole"
        "\<not> blocked g tms node AuditorRole" "\<not> blocked g tms node CertifierRole"
    by blast
  then show ?thesis
  proof cases
    case i
    then show ?thesis
      using assms
      by (intro exI [of _ IssuerRole])
        (simp add: GenerateCryptoMaterial_assemble assembleWallet_eq)
  next
    case ii
    then show ?thesis
      using assms
      by (intro exI [of _ OwnerRole])
        (simp add: GenerateCryptoMaterial_assemble assembleWallet_eq)
  next
    case iii
    then show ?thesis
      using assms
      by (intro exI [of _ AuditorRole])
        (simp add: GenerateCryptoMaterial_assemble assembleWallet_eq)
  next
    case iv
    then show ?thesis
      using assms
      by (intro exI [of _ CertifierRole])
        (simp add: GenerateCryptoMaterial_assemble assembleWallet_eq)
  next
    case v
    then show ?thesis
      using assms by (simp add: GenerateCryptoMaterial_assemble assembleWallet_eq)
  qed
qed

lemma answersUpTo_blocked:
  "answersUpTo g tms node r \<longleftrightarrow> (\<forall>r' \<in> set (before r @ [r]). \<not> blocked g tms node r')"
  by (simp add: answersUpTo_def blocked_def)

lemma answersAll_upTo: "answersAll g tms node \<longleftrightarrow> answersUpTo g tms node CertifierRole"
  by (simp add: answersAll_def answersUpTo_def)

lemma answersAll_imp_upTo: "answersAll g tms node \<Longrightarrow> answersUpTo g tms node r"
  by (cases r) (simp_all add: answersAll_def answersUpTo_def)

text \<open>
  Where the block of a role stands in a run that panics in the block of \<open>r0\<close>: reached and
  left when the role is before \<open>r0\<close>.
\<close>

lemma before_cases:
  "r \<in> set (before r0) \<or> r = r0 \<or> r0 \<in> set (before r)"
  by (cases r; cases r0) simp_all

lemma callsFor_before:
  "r \<in> set (before r0) \<Longrightarrow> callsFor r (callsOf tms node (before r0 @ [r0])) = callOf tms node r"
  by (cases r; cases r0) (simp_all add: callsFor_callsOf_Nil callsFor_callsOf_Cons)

lemma before_trans_set: "r0 \<in> set (before r) \<Longrightarrow> set (before r0) \<subseteq> set (before r)"
  by (cases r; cases r0) simp_all

text \<open>
  The sequence of a role and the calls for it in the wallet a run leaves, in terms of what
  the generator answers up to the role.
\<close>

lemma GenerateCryptoMaterial_role:
  assumes wf: "wellformed p"
  shows "\<exists>p' w. (GenerateCryptoMaterial g tms node p = Inr p' \<or>
                 (\<exists>e. GenerateCryptoMaterial g tms node p = Inl (e, p'))) \<and>
           (answersAll g tms node \<longrightarrow> GenerateCryptoMaterial g tms node p = Inr p') \<and>
           walletOf p' (fst (GetEntry tms p)) (Name node) = Some w \<and>
           (\<forall>r. configured node r \<longrightarrow>
              (if answersUpTo g tms node r
               then sequence w r = filled g tms node r \<and>
                    callsFor r (newEvents p p') = callOf tms node r
               else sequence w r = []))"
proof (cases rule: GenerateCryptoMaterial_outcome [of g tms node p])
  case return
  let ?w = "walletAfter g tms node allRoles"
  let ?p' = "putWallet (fst (GetEntry tms p)) (Name node)
               (?w, callsOf tms node allRoles) (snd (GetEntry tms p))"
  have w: "walletOf ?p' (fst (GetEntry tms p)) (Name node) = Some ?w"
    using wf by (rule walletOf_GenerateCryptoMaterial)
  have all: "answersUpTo g tms node r" for r
    using return(1) by (simp add: answersUpTo_blocked)
  have s: "sequence ?w r = filled g tms node r" if "configured node r" for r
    using that by (cases r) (simp_all add: walletAfter_def fillIn_def allRoles_def)
  have c: "callsFor r (newEvents p ?p') = callOf tms node r" for r
    by (simp add: newEvents_putWallet callsFor_allRoles)
  show ?thesis
    using return(2) w all s c by (intro exI [of _ ?p'] exI [of _ ?w]) simp
next
  case (panic r0)
  obtain e p' where run: "GenerateCryptoMaterial g tms node p = Inl (e, p')"
    using panic(2) by blast
  obtain r1 where b1: "blocked g tms node r1"
    and f1: "\<forall>r' \<in> set (before r1). \<not> blocked g tms node r'"
    and p': "p' = putWallet (fst (GetEntry tms p)) (Name node)
                  (walletAfter g tms node (before r1), callsOf tms node (before r1 @ [r1]))
                  (snd (GetEntry tms p))"
    using GenerateCryptoMaterial_first [OF run] by blast
  let ?w = "walletAfter g tms node (before r1)"
  have w: "walletOf p' (fst (GetEntry tms p)) (Name node) = Some ?w"
    unfolding p' using wf by (rule walletOf_GenerateCryptoMaterial)
  have no: "\<not> answersAll g tms node"
    using b1 by (auto simp: answersAll_blocked)
  have role: "if answersUpTo g tms node r
              then sequence ?w r = filled g tms node r \<and>
                   callsFor r (newEvents p p') = callOf tms node r
              else sequence ?w r = []"
    if c: "configured node r" for r
  proof (cases "r \<in> set (before r1)")
    case True
    have "set (before r) \<subseteq> set (before r1)"
      using True by (rule before_trans_set)
    then have "answersUpTo g tms node r"
      using f1 True by (auto simp: answersUpTo_blocked)
    moreover have "sequence ?w r = filled g tms node r"
      using True c by (simp add: sequence_walletAfter fillIn_def)
    moreover have "callsFor r (newEvents p p') = callOf tms node r"
      unfolding p' using True by (simp add: newEvents_putWallet callsFor_before)
    ultimately show ?thesis by simp
  next
    case False
    then have "r1 \<in> set (before r @ [r])"
      using before_cases [of r r1] by auto
    then have "\<not> answersUpTo g tms node r"
      using b1 unfolding answersUpTo_blocked by blast
    moreover have "sequence ?w r = []"
      using False by (simp add: sequence_walletAfter fillIn_def)
    ultimately show ?thesis by simp
  qed
  show ?thesis
    using run w no role by (intro exI [of _ p'] exI [of _ ?w]) auto
qed

text \<open>The runs of the certifier node and of the generator without auditor record, evaluated.\<close>

lemma certifier_answersAll: "answersAll pairGenerator exampleTMS certifierNode"
  by (simp add: answersAll_def pairGenerator_def exampleGenerator_def certifierNode_def
        perName_def)

lemma certifier_records:
  "GenerateAuditorIdentities pairGenerator exampleTMS certifierNode [''org2peer''] =
     [\<lparr>Credential = ''org2peer-cred'', Default = False\<rparr>,
      \<lparr>Credential = ''spare-cred'', Default = False\<rparr>]"
  "GenerateCertifierIdentities pairGenerator exampleTMS certifierNode [''org2peer''] =
     [\<lparr>Credential = ''org2peer-cred'', Default = False\<rparr>,
      \<lparr>Credential = ''spare-cred'', Default = False\<rparr>]"
  by (simp_all add: pairGenerator_def exampleGenerator_def perName_def)

lemma certifier_wallet:
  "walletAfter pairGenerator exampleTMS certifierNode allRoles = certifierWallet"
  by (simp add: walletAfter_def fillIn_def allRoles_def certifierNode_def
        pairGenerator_def exampleGenerator_def perName_def certifierWallet_def)

lemma certifier_calls: "callsOf exampleTMS certifierNode allRoles = certifierCalls"
  by (simp add: callsOf_def callOf_def allRoles_def certifierCalls_def)
    (simp add: certifierNode_def)

lemma certifier_run:
  "GenerateCryptoMaterial pairGenerator exampleTMS certifierNode NewNetworkHandler
     = Inr certifierHandler"
  unfolding GenerateCryptoMaterial_returns [OF certifier_answersAll] certifier_wallet
    certifier_calls example_entry certifierHandler_def
  by (simp add: certifierNode_def)

lemma certifier_walletOf: "walletOf certifierHandler 0 ''org2peer'' = Some certifierWallet"
  using walletOf_GenerateCryptoMaterial [OF wellformed_NewNetworkHandler,
      of exampleTMS "''org2peer''" certifierWallet certifierCalls]
  by (simp add: certifierHandler_def example_entry)

lemma mute_blocked:
  "\<not> blocked muteGenerator exampleTMS exampleNode IssuerRole"
  "\<not> blocked muteGenerator exampleTMS exampleNode OwnerRole"
  "blocked muteGenerator exampleTMS exampleNode AuditorRole"
  by (simp_all add: blocked_def muteGenerator_def exampleGenerator_def exampleNode_def
        perName_def)

lemma mute_wallet:
  "walletAfter muteGenerator exampleTMS exampleNode [IssuerRole, OwnerRole] = muteWallet"
  by (simp add: walletAfter_def fillIn_def exampleNode_def markLast_def
        muteGenerator_def exampleGenerator_def perName_def muteWallet_def)

lemma mute_calls:
  "callsOf exampleTMS exampleNode [IssuerRole, OwnerRole, AuditorRole] = exampleCalls"
  by (simp add: callsOf_def callOf_def exampleCalls_def)
    (simp add: exampleNode_def)

lemma mute_assemble:
  "assembleWallet muteGenerator exampleTMS exampleNode
     = Inl (IndexOutOfRange 0 0, muteWallet, exampleCalls)"
  by (simp add: assembleWallet_eq mute_blocked mute_wallet mute_calls failure_def)

lemma mute_run:
  "GenerateCryptoMaterial muteGenerator exampleTMS exampleNode NewNetworkHandler
     = Inl (IndexOutOfRange 0 0, handlerWith muteWallet)"
  unfolding GenerateCryptoMaterial_assemble mute_assemble example_entry handlerWith_def
  by (simp add: exampleNode_def)

lemma empty_assemble:
  "assembleWallet emptyGenerator exampleTMS exampleNode
     = Inl (IndexOutOfRange (- 1) 0, emptyWallet,
         [EvGenerateIdentities IssuerRole exampleTMS exampleNode [''alice'', ''org1peer'']])"
proof -
  have "blocked emptyGenerator exampleTMS exampleNode IssuerRole"
    by (simp add: blocked_def emptyGenerator_def exampleNode_def)
  moreover have "walletAfter emptyGenerator exampleTMS exampleNode [] = emptyWallet"
    by (simp add: walletAfter_def fillIn_def emptyWallet_def)
  moreover have "callsOf exampleTMS exampleNode [IssuerRole]
      = [EvGenerateIdentities IssuerRole exampleTMS exampleNode [''alice'', ''org1peer'']]"
    by (simp add: callsOf_def callOf_def) (simp add: exampleNode_def)
  ultimately show ?thesis
    by (simp add: assembleWallet_eq failure_def)
qed

lemma empty_run:
  "GenerateCryptoMaterial emptyGenerator exampleTMS exampleNode NewNetworkHandler
     = Inl (IndexOutOfRange (- 1) 0, blockedHandler)"
  unfolding GenerateCryptoMaterial_assemble empty_assemble example_entry blockedHandler_def
  by (simp add: exampleNode_def)

lemma blocked_walletOf: "walletOf blockedHandler 0 ''org1peer'' = Some emptyWallet"
  using walletOf_GenerateCryptoMaterial [OF wellformed_NewNetworkHandler,
      of exampleTMS "''org1peer''" emptyWallet
        "[EvGenerateIdentities IssuerRole exampleTMS exampleNode [''alice'', ''org1peer'']]"]
  by (simp add: blockedHandler_def example_entry)

lemma blocked_newEvents:
  "newEvents NewNetworkHandler blockedHandler
     = [EvGenerateIdentities IssuerRole exampleTMS exampleNode [''alice'', ''org1peer'']]"
  using newEvents_putWallet [of NewNetworkHandler exampleTMS "''org1peer''" emptyWallet
      "[EvGenerateIdentities IssuerRole exampleTMS exampleNode [''alice'', ''org1peer'']]"]
  by (simp add: blockedHandler_def example_entry)

section \<open>Properties of the artifact generation\<close>

lemma grown_refl: "grown a q q"
  by (simp add: grown_def)

lemma grown_trans: "grown a q q' \<Longrightarrow> grown a q' q'' \<Longrightarrow> grown a q q''"
  unfolding grown_def by (elim conjE exE) (auto 0 3 intro!: exI [of _ "_ @ _"])

lemma callOf_phase: "\<forall>ev \<in> set (callOf tms node r). phaseOf ev = 1"
  by (simp add: callOf_def)

lemma callsOf_phase: "\<forall>ev \<in> set (callsOf tms node rs). phaseOf ev = 1"
  by (induction rs) (auto simp: callsOf_def callOf_def)

lemma putWallet_grown:
  assumes "a < length (Store q)"
  shows "grown a q (putWallet a name (w, callsOf tms node rs) q)"
  using assms callsOf_phase [of tms node rs]
  by (auto simp: grown_def putWallet_def nth_list_update)

lemma GetEntry_present:
  "Entries q (Network tms @ Channel tms @ Namespace tms) = Some a \<Longrightarrow> GetEntry tms q = (a, q)"
  by (simp add: GetEntry_def)

lemma GenerateCryptoMaterial_grown:
  assumes "Entries q (Network tms @ Channel tms @ Namespace tms) = Some a"
    and "a < length (Store q)"
    and "GenerateCryptoMaterial g tms node q = Inr q' \<or>
         GenerateCryptoMaterial g tms node q = Inl (e, q')"
  shows "grown a q q'" and "Name node \<in> dom (Wallets (Store q' ! a))"
proof -
  obtain rs rs' where q': "q' = putWallet (fst (GetEntry tms q)) (Name node)
      (walletAfter g tms node rs, callsOf tms node rs') (snd (GetEntry tms q))"
    using assms(3) by (rule GenerateCryptoMaterial_leaves)
  have q'': "q' = putWallet a (Name node) (walletAfter g tms node rs, callsOf tms node rs') q"
    using q' by (simp add: GetEntry_present [OF assms(1)])
  show "grown a q q'"
    unfolding q'' using assms(2) by (rule putWallet_grown)
  show "Name node \<in> dom (Wallets (Store q' ! a))"
    unfolding q'' using assms(2) by (simp add: putWallet_def)
qed

lemma GenerateCryptoMaterial_error:
  "GenerateCryptoMaterial g tms node q = Inl (e, q') \<Longrightarrow> \<exists>i. e = IndexOutOfRange i 0"
  by (auto dest!: GenerateCryptoMaterial_Inl simp: failure_def)

lemma forNodes_grown:
  assumes "Entries q (Network tms @ Channel tms @ Namespace tms) = Some a"
    and "a < length (Store q)"
  shows "(\<forall>q'. forNodes g tms nodes q = Inr q' \<longrightarrow>
            grown a q q' \<and> Name ` set nodes \<subseteq> dom (Wallets (Store q' ! a))) \<and>
         (\<forall>e q'. forNodes g tms nodes q = Inl (e, q') \<longrightarrow>
            grown a q q' \<and> (\<exists>i. e = IndexOutOfRange i 0))"
  using assms
proof (induction nodes arbitrary: q)
  case Nil
  then show ?case by (simp add: grown_refl)
next
  case (Cons node nodes)
  show ?case
  proof (cases "GenerateCryptoMaterial g tms node q")
    case (Inl x)
    obtain e q1 where x: "x = (e, q1)" by (cases x)
    have "grown a q q1"
      using GenerateCryptoMaterial_grown(1) [OF Cons.prems, of g node q1 e] Inl x by simp
    moreover have "\<exists>i. e = IndexOutOfRange i 0"
      using GenerateCryptoMaterial_error [of g tms node q e q1] Inl x by simp
    ultimately show ?thesis using Inl x by simp
  next
    case (Inr q1)
    have g1: "grown a q q1" and n1: "Name node \<in> dom (Wallets (Store q1 ! a))"
      using GenerateCryptoMaterial_grown [OF Cons.prems, of g node q1 NoFSCTopology] Inr by simp_all
    have e1: "Entries q1 (Network tms @ Channel tms @ Namespace tms) = Some a"
      and l1: "a < length (Store q1)"
      using g1 Cons.prems by (simp_all add: grown_def)
    note ih = Cons.IH [OF e1 l1]
    have d: "dom (Wallets (Store q1 ! a)) \<subseteq> dom (Wallets (Store q' ! a))" if "grown a q1 q'" for q'
      using that by (simp add: grown_def)
    have "grown a q q' \<and> Name ` set (node # nodes) \<subseteq> dom (Wallets (Store q' ! a))"
      if r: "forNodes g tms nodes q1 = Inr q'" for q'
    proof -
      have g2: "grown a q1 q'" and n2: "Name ` set nodes \<subseteq> dom (Wallets (Store q' ! a))"
        using ih r by blast+
      have "Name node \<in> dom (Wallets (Store q' ! a))"
        using n1 d [OF g2] by blast
      then show ?thesis
        using grown_trans [OF g1 g2] n2 by simp
    qed
    moreover have "grown a q q' \<and> (\<exists>i. e = IndexOutOfRange i 0)"
      if r: "forNodes g tms nodes q1 = Inl (e, q')" for e q'
      using ih r grown_trans [OF g1] by blast
    ultimately show ?thesis
      using Inr by simp
  qed
qed


lemma withEvents_simps [simp]:
  "Store (withEvents evs q) = Store q"
  "Entries (withEvents evs q) = Entries q"
  "Trace (withEvents evs q) = Trace q @ evs"
  "withEvents ys (withEvents xs q) = withEvents (xs @ ys) q"
  by (simp_all add: withEvents_def)

lemma logEvent_withEvents: "logEvent ev q = withEvents [ev] q"
  by (simp add: logEvent_def withEvents_def)

lemma generatePublicParameters_cases:
  obtains
    (nogen) "GetPublicParamsGenerators tp (Driver tms) = None"
      and "generatePublicParameters tp ext tms root q
             = Inl (NoPublicParamsGenerator (Driver tms), q)"
  | (generate) err where
      "generatePublicParameters tp ext tms root q = Inl (GenerateFailed err, withEvents [EvGenerate tms (root # PublicParamsGenArgs tms)] q)"
  | (mkdir) err where
      "generatePublicParameters tp ext tms root q = Inl (MkdirAllFailed err, withEvents [EvGenerate tms (root # PublicParamsGenArgs tms),
                EvMkdirAll (PublicParametersDir tp)] q)"
  | (writefail) raw err where "WriteFile ext (PublicParametersFile tp tms) raw = Some err"
      and "generatePublicParameters tp ext tms root q =
         Inl (WriteFileFailed err,
              withEvents [EvGenerate tms (root # PublicParamsGenArgs tms),
                EvMkdirAll (PublicParametersDir tp), EvWriteFile (PublicParametersFile tp tms) raw] q)"
  | (stored) raw where "WriteFile ext (PublicParametersFile tp tms) raw = None"
      and "generatePublicParameters tp ext tms root q =
         Inr (withEvents [EvGenerate tms (root # PublicParamsGenArgs tms),
                EvMkdirAll (PublicParametersDir tp), EvWriteFile (PublicParametersFile tp tms) raw] q)"
proof (cases "GetPublicParamsGenerators tp (Driver tms)")
  case None
  then show ?thesis using nogen by (simp add: generatePublicParameters_def)
next
  case (Some ppg)
  note g = Some
  show ?thesis
  proof (cases "Generate ppg tms (root # PublicParamsGenArgs tms)")
    case (Inl err)
    then show ?thesis
      using generate [of err] g
      by (simp add: generatePublicParameters_def logEvent_withEvents)
  next
    case (Inr raw)
    note r = Inr
    show ?thesis
    proof (cases "MkdirAll ext (PublicParametersDir tp)")
      case (Some err)
      then show ?thesis
        using mkdir [of err] g r
        by (simp add: generatePublicParameters_def logEvent_withEvents)
    next
      case None
      note m = None
      show ?thesis
      proof (cases "WriteFile ext (PublicParametersFile tp tms) raw")
        case None
        then show ?thesis
          using stored [of raw] g r m
          by (simp add: generatePublicParameters_def logEvent_withEvents)
      next
        case (Some err)
        then show ?thesis
          using writefail [of raw err] g r m
          by (simp add: generatePublicParameters_def logEvent_withEvents)
      qed
    qed
  qed
qed

lemma prepareChaincodes_cases:
  obtains
    (noplatform) "prepareChaincodes tp ext tms q = Inl (NoFabricPlatform (Network tms), q)"
  | (registered) cc ev where "phaseOf ev = 5"
      and "prepareChaincodes tp ext tms q = Inr (cc, withEvents [ev] q)"
proof (cases "PlatformByName tp (Network tms)")
  case None
  then show ?thesis using noplatform by (simp add: prepareChaincodes_def)
next
  case (Some fabric)
  show ?thesis
  proof (cases "Private (TokenChaincode tms)")
    case True
    then show ?thesis
      using Some registered [of "EvAddFPC (Namespace tms) (DockerImage (TokenChaincode tms))
                         (Orgs (TokenChaincode tms))"]
      by (simp add: prepareChaincodes_def logEvent_withEvents)
  next
    case False
    then show ?thesis
      using Some registered [of "EvAddChaincode (PrepareTCC ext tms)"]
      by (simp add: prepareChaincodes_def logEvent_withEvents Let_def)
  qed
qed

lemma GenerateArtifacts_outcome:
  obtains
    (nogenerator) "GenerateArtifacts tp ext tms p
        = Inl (NilCryptoMaterialGenerator, snd (GetEntry tms p))"
  | (nosetup) err where "GenerateArtifacts tp ext tms p
        = Inl (SetupFailed err, withEvents [EvSetup tms] (snd (GetEntry tms p)))"
  | (notopology) "FSCTopology tp = None"
      and "GenerateArtifacts tp ext tms p
        = Inl (NoFSCTopology, withEvents [EvSetup tms] (snd (GetEntry tms p)))"
  | (wallets) g nodes e p2 where "FSCTopology tp = Some nodes"
      and "forNodes g tms nodes (withEvents [EvSetup tms] (snd (GetEntry tms p))) = Inl (e, p2)"
      and "GenerateArtifacts tp ext tms p = Inl (e, p2)"
      and "GetCryptoMaterialGenerator tp (Driver tms) = Some g"
  | (params) g root nodes p2 e p3 where "FSCTopology tp = Some nodes"
      and "forNodes g tms nodes (withEvents [EvSetup tms] (snd (GetEntry tms p))) = Inr p2"
      and "generatePublicParameters tp ext tms root p2 = Inl (e, p3)"
      and "GenerateArtifacts tp ext tms p = Inl (e, p3)"
      and "GetCryptoMaterialGenerator tp (Driver tms) = Some g" and "Setup g tms = Inr root"
  | (chaincodes) g root nodes p2 p3 e p4 where "FSCTopology tp = Some nodes"
      and "forNodes g tms nodes (withEvents [EvSetup tms] (snd (GetEntry tms p))) = Inr p2"
      and "generatePublicParameters tp ext tms root p2 = Inr p3"
      and "prepareChaincodes tp ext tms p3 = Inl (e, p4)"
      and "GenerateArtifacts tp ext tms p = Inl (e, p4)"
      and "GetCryptoMaterialGenerator tp (Driver tms) = Some g" and "Setup g tms = Inr root"
  | (finished) g root nodes p2 p3 cc p4 where "FSCTopology tp = Some nodes"
      and "forNodes g tms nodes (withEvents [EvSetup tms] (snd (GetEntry tms p))) = Inr p2"
      and "generatePublicParameters tp ext tms root p2 = Inr p3"
      and "prepareChaincodes tp ext tms p3 = Inr (cc, p4)"
      and "GenerateArtifacts tp ext tms p = Inr (setTCC (fst (GetEntry tms p)) cc p4)"
      and "GetCryptoMaterialGenerator tp (Driver tms) = Some g" and "Setup g tms = Inr root"
proof -
  obtain a p0 where ge: "GetEntry tms p = (a, p0)" by (cases "GetEntry tms p")
  show thesis
  proof (cases "GetCryptoMaterialGenerator tp (Driver tms)")
    case None
    then show ?thesis
      using nogenerator ge by (simp add: GenerateArtifacts_def)
  next
    case (Some g)
    note cg = Some
    show ?thesis
    proof (cases "Setup g tms")
      case (Inl err)
      then show ?thesis
        using nosetup [of err] ge cg by (simp add: GenerateArtifacts_def logEvent_withEvents)
    next
      case (Inr root)
      note su = Inr
      show ?thesis
      proof (cases "FSCTopology tp")
        case None
        then show ?thesis
          using notopology ge cg su by (simp add: GenerateArtifacts_def logEvent_withEvents)
      next
        case (Some nodes)
        note top = Some
        have ga: "GenerateArtifacts tp ext tms p =
            andThen (andThen (andThen
              (forNodes g tms nodes (withEvents [EvSetup tms] p0))
              (generatePublicParameters tp ext tms root))
              (prepareChaincodes tp ext tms))
              (\<lambda>(chaincode, p). Inr (setTCC a chaincode p))"
          using ge cg su top by (simp add: GenerateArtifacts_def logEvent_withEvents)
        show ?thesis
        proof (cases "forNodes g tms nodes (withEvents [EvSetup tms] p0)")
          case (Inl x)
          then show ?thesis
            using wallets [of nodes g "fst x" "snd x"] top ge ga cg by simp
        next
          case (Inr p2)
          note fn = Inr
          show ?thesis
          proof (cases "generatePublicParameters tp ext tms root p2")
            case (Inl x)
            then show ?thesis
              using params [of nodes g p2 root "fst x" "snd x"] top ge ga fn cg su by simp
          next
            case (Inr p3)
            note pp = Inr
            show ?thesis
            proof (cases "prepareChaincodes tp ext tms p3")
              case (Inl x)
              then show ?thesis
                using chaincodes [of nodes g p2 root p3 "fst x" "snd x"] top ge ga fn pp cg su
                by simp
            next
              case (Inr y)
              then show ?thesis
                using finished [of nodes g p2 root p3 "fst y" "snd y"] top ge ga fn pp cg su
                by (simp add: case_prod_beta)
            qed
          qed
        qed
      qed
    qed
  qed
qed

lemma parametersPersisted_phase:
  assumes "\<forall>ev \<in> set evs. phaseOf ev \<noteq> 4"
  shows "parametersPersisted tp ext tms (evs @ X) \<longleftrightarrow> parametersPersisted tp ext tms X"
  using assms by (fastforce simp: parametersPersisted_def)

lemma sorted_phases:
  assumes "\<forall>ev \<in> set evsW. phaseOf ev = 1" and "sorted (map phaseOf X)"
    and "\<forall>ev \<in> set X. 2 \<le> phaseOf ev"
  shows "sorted (map phaseOf ((EvSetup tms # evsW) @ X))"
proof -
  have "sorted (map phaseOf (evsW @ X))"
    using assms
  proof (induction evsW)
    case Nil
    then show ?case by simp
  next
    case (Cons ev evsW)
    have "phaseOf ev \<le> phaseOf x" if "x \<in> set evsW \<union> set X" for x
      using that Cons.prems by force
    then show ?case
      using Cons by auto
  qed
  then show ?thesis by simp
qed

lemma stageFacts_leaf:
  assumes g: "grown (fst (GetEntry tms p)) (withEvents [EvSetup tms] (snd (GetEntry tms p))) p2"
    and en: "Entries q = Entries p2"
    and tr: "Trace q = Trace p2 @ X"
    and tm: "TMS (Store q ! fst (GetEntry tms p)) = TMS (Store p2 ! fst (GetEntry tms p))"
    and wa: "Wallets (Store q ! fst (GetEntry tms p)) = Wallets (Store p2 ! fst (GetEntry tms p))"
    and so: "sorted (map phaseOf X)"
    and ph: "\<forall>ev \<in> set X. 2 \<le> phaseOf ev"
    and x0: "rank s = 0 \<longrightarrow> X = []"
    and pe: "parametersPersisted tp ext tms X \<longleftrightarrow> 2 \<le> rank s"
    and lt: "rank s < 3 \<longrightarrow>
               TCC (Store q ! fst (GetEntry tms p)) = TCC (Store p2 ! fst (GetEntry tms p)) \<and>
               (\<forall>ev \<in> set X. phaseOf ev < 5)"
    and eq: "rank s = 3 \<longrightarrow>
               TCC (Store q ! fst (GetEntry tms p)) \<noteq> None \<and> X \<noteq> [] \<and> phaseOf (last X) = 5"
  shows "stageFacts tp ext tms p q s"
proof -
  let ?a = "fst (GetEntry tms p)" and ?p0 = "snd (GetEntry tms p)"
  obtain evsW where t2: "Trace p2 = Trace p @ EvSetup tms # evsW"
    and p1: "\<forall>ev \<in> set evsW. phaseOf ev = 1"
    using g by (auto simp: grown_def Trace_GetEntry)
  have e2: "Entries p2 = Entries ?p0"
    and c2: "TCC (Store p2 ! ?a) = TCC (Store ?p0 ! ?a)"
    and m2: "TMS (Store p2 ! ?a) = TMS (Store ?p0 ! ?a)"
    and d2: "dom (Wallets (Store ?p0 ! ?a)) \<subseteq> dom (Wallets (Store p2 ! ?a))"
    using g by (simp_all add: grown_def)
  have evs: "newEvents p q = (EvSetup tms # evsW) @ X"
    by (simp add: newEvents_def tr t2)
  have 1: "Trace q = Trace p @ newEvents p q"
    by (simp add: evs tr t2)
  have 2: "sorted (map phaseOf (newEvents p q))"
    unfolding evs using p1 so ph by (rule sorted_phases)
  have 4: "\<forall>ev \<in> set (newEvents p q). phaseOf ev \<le> 1" if "rank s = 0"
    using x0 that p1 by (simp add: evs)
  have 5: "parametersPersisted tp ext tms (newEvents p q) \<longleftrightarrow> 2 \<le> rank s"
    unfolding evs using pe p1 by (subst parametersPersisted_phase) auto
  have 6: "TCC (Store q ! ?a) = TCC (Store ?p0 ! ?a) \<and> (\<forall>ev \<in> set (newEvents p q). phaseOf ev < 5)"
    if "rank s < 3"
    using lt that p1 c2 by (auto simp: evs)
  have 7: "TCC (Store q ! ?a) \<noteq> None \<and> newEvents p q \<noteq> [] \<and> phaseOf (last (newEvents p q)) = 5"
    if "rank s = 3"
    using eq that by (simp add: evs)
  show ?thesis
    unfolding stageFacts_def Let_def
    using 1 2 4 5 6 7 en e2 tm m2 wa d2 by simp
qed

lemma setTCC_simps:
  "Entries (setTCC a cc q) = Entries q"
  "Trace (setTCC a cc q) = Trace q"
  "a < length (Store q) \<Longrightarrow> TCC (Store (setTCC a cc q) ! a) = Some \<lparr>Chaincode = cc\<rparr>"
  "a < length (Store q) \<Longrightarrow> TMS (Store (setTCC a cc q) ! a) = TMS (Store q ! a)"
  "a < length (Store q) \<Longrightarrow> Wallets (Store (setTCC a cc q) ! a) = Wallets (Store q ! a)"
  by (simp_all add: setTCC_def)

lemma GenerateArtifacts_stageFacts:
  assumes wf: "wellformed p"
  shows "(\<forall>p'. GenerateArtifacts tp ext tms p = Inr p' \<longrightarrow>
            stageFacts tp ext tms p p' ContractDescriptorSet) \<and>
         (\<forall>e p'. GenerateArtifacts tp ext tms p = Inl (e, p') \<longrightarrow>
            stageFacts tp ext tms p p' (lastCompleted e))"
proof -
  let ?a = "fst (GetEntry tms p)" and ?p0 = "snd (GetEntry tms p)"
  let ?p1 = "withEvents [EvSetup tms] ?p0"
  let ?M = "EvMkdirAll (PublicParametersDir tp)"
  have k1: "Entries ?p1 (Network tms @ Channel tms @ Namespace tms) = Some ?a"
    by (simp add: GetEntry_registered)
  have l1: "?a < length (Store ?p1)"
    using wf by (simp add: GetEntry_allocated)
  have g1: "grown ?a ?p1 ?p1" by (rule grown_refl)
  have early: "stageFacts tp ext tms p ?p1 s" if "rank s = 0" for s
    using that by (intro stageFacts_leaf [OF g1, where X = "[]"])
      (simp_all add: parametersPersisted_def)
  have np: "\<not> parametersPersisted tp ext tms []"
    by (simp add: parametersPersisted_def)
  show ?thesis
  proof (cases rule: GenerateArtifacts_outcome [of tp ext tms p])
    case nogenerator
    have "stageFacts tp ext tms p ?p0 Empty"
      by (simp add: stageFacts_def newEvents_def Trace_GetEntry np)
    then show ?thesis using nogenerator by simp
  next
    case (nosetup err)
    then show ?thesis using early [of Empty] by simp
  next
    case notopology
    then show ?thesis using early [of Empty] by simp
  next
    case (wallets g nodes e p2)
    have g2: "grown ?a ?p1 p2" and e: "\<exists>i. e = IndexOutOfRange i 0"
      using forNodes_grown [OF k1 l1, of g nodes] wallets(2) by blast+
    have "rank (lastCompleted e) = 0" using e by auto
    then have "stageFacts tp ext tms p p2 (lastCompleted e)"
      by (intro stageFacts_leaf [OF g2, where X = "[]"]) (simp_all add: np)
    then show ?thesis using wallets(3) by simp
  next
    case (params g root nodes p2 e p3)
    let ?G = "EvGenerate tms (root # PublicParamsGenArgs tms)"
    have g2: "grown ?a ?p1 p2" and n2: "Name ` set nodes \<subseteq> dom (Wallets (Store p2 ! ?a))"
      using forNodes_grown [OF k1 l1, of g nodes] params(2) by blast+
    have "stageFacts tp ext tms p p3 (lastCompleted e)"
    proof (cases rule: generatePublicParameters_cases [of tp tms ext root p2])
      case nogen
      then have "e = NoPublicParamsGenerator (Driver tms)" and "p3 = p2"
        using params(3) by simp_all
      then show ?thesis
        by (intro stageFacts_leaf [OF g2, where X = "[]"]) (simp_all add: np)
    next
      case (generate err)
      then have "e = GenerateFailed err" and "p3 = withEvents [?G] p2"
        using params(3) by simp_all
      then show ?thesis
        by (intro stageFacts_leaf [OF g2, where X = "[?G]"])
          (simp_all add: parametersPersisted_def)
    next
      case (mkdir err)
      then have "e = MkdirAllFailed err" and "p3 = withEvents [?G, ?M] p2"
        using params(3) by simp_all
      then show ?thesis
        by (intro stageFacts_leaf [OF g2, where X = "[?G, ?M]"])
          (simp_all add: parametersPersisted_def)
    next
      case (writefail raw err)
      then have "e = WriteFileFailed err"
        and "p3 = withEvents [?G, ?M, EvWriteFile (PublicParametersFile tp tms) raw] p2"
        using params(3) by simp_all
      then show ?thesis
        using writefail(1)
        by (intro stageFacts_leaf [OF g2,
              where X = "[?G, ?M, EvWriteFile (PublicParametersFile tp tms) raw]"])
          (auto simp: parametersPersisted_def)
    next
      case (stored raw)
      then show ?thesis using params(3) by simp
    qed
    then show ?thesis using params(4) by simp
  next
    case (chaincodes g root nodes p2 p3 e p4)
    let ?G = "EvGenerate tms (root # PublicParamsGenArgs tms)"
    have g2: "grown ?a ?p1 p2" and n2: "Name ` set nodes \<subseteq> dom (Wallets (Store p2 ! ?a))"
      using forNodes_grown [OF k1 l1, of g nodes] chaincodes(2) by blast+
    obtain raw where wr: "WriteFile ext (PublicParametersFile tp tms) raw = None"
      and p3: "p3 = withEvents [?G, ?M, EvWriteFile (PublicParametersFile tp tms) raw] p2"
      using chaincodes(3)
      by (cases rule: generatePublicParameters_cases [of tp tms ext root p2]) simp_all
    have "e = NoFabricPlatform (Network tms)" and "p4 = p3"
      using chaincodes(4)
      by (cases rule: prepareChaincodes_cases [of tp ext tms p3]; simp)+
    then have "stageFacts tp ext tms p p4 (lastCompleted e)"
      using wr unfolding p3
      by (intro stageFacts_leaf [OF g2,
            where X = "[?G, ?M, EvWriteFile (PublicParametersFile tp tms) raw]"])
        (auto simp: parametersPersisted_def)
    then show ?thesis using chaincodes(5) by simp
  next
    case (finished g root nodes p2 p3 cc p4)
    let ?G = "EvGenerate tms (root # PublicParamsGenArgs tms)"
    have g2: "grown ?a ?p1 p2" and n2: "Name ` set nodes \<subseteq> dom (Wallets (Store p2 ! ?a))"
      using forNodes_grown [OF k1 l1, of g nodes] finished(2) by blast+
    have l2: "?a < length (Store p2)"
      using g2 l1 by (simp add: grown_def)
    obtain raw where wr: "WriteFile ext (PublicParametersFile tp tms) raw = None"
      and p3: "p3 = withEvents [?G, ?M, EvWriteFile (PublicParametersFile tp tms) raw] p2"
      using finished(3)
      by (cases rule: generatePublicParameters_cases [of tp tms ext root p2]) simp_all
    obtain ev where ev: "phaseOf ev = 5" and p4: "p4 = withEvents [ev] p3"
      using finished(4)
      by (cases rule: prepareChaincodes_cases [of tp ext tms p3]) simp_all
    have "stageFacts tp ext tms p (setTCC ?a cc p4) ContractDescriptorSet"
      using wr ev l2 unfolding p4 p3
      by (intro stageFacts_leaf [OF g2,
            where X = "[?G, ?M, EvWriteFile (PublicParametersFile tp tms) raw, ev]"])
        (auto simp: parametersPersisted_def setTCC_simps)
    then show ?thesis using finished(5) by simp
  qed
qed

lemma forNodes_trace:
  "forNodes g tms nodes q = Inr q' \<or> forNodes g tms nodes q = Inl (e, q') \<Longrightarrow>
   \<exists>evs. Trace q' = Trace q @ evs \<and> (\<forall>ev \<in> set evs. phaseOf ev = 1)"
proof (induction nodes arbitrary: q)
  case Nil
  then show ?case by simp
next
  case (Cons node nodes)
  show ?case
  proof (cases "GenerateCryptoMaterial g tms node q")
    case (Inl x)
    then have x: "GenerateCryptoMaterial g tms node q = Inl (e, q')"
      using Cons.prems by simp
    then obtain rs rs' where "q' = putWallet (fst (GetEntry tms q)) (Name node)
        (walletAfter g tms node rs, callsOf tms node rs') (snd (GetEntry tms q))"
      using GenerateCryptoMaterial_leaves [of g tms node q q' e] by blast
    then have "Trace q' = Trace q @ callsOf tms node rs'"
      by (simp add: Trace_putWallet Trace_GetEntry)
    then show ?thesis using callsOf_phase by blast
  next
    case (Inr q1)
    then obtain rs rs' where "q1 = putWallet (fst (GetEntry tms q)) (Name node)
        (walletAfter g tms node rs, callsOf tms node rs') (snd (GetEntry tms q))"
      using GenerateCryptoMaterial_leaves [of g tms node q q1 e] by blast
    then have t1: "Trace q1 = Trace q @ callsOf tms node rs'"
      by (simp add: Trace_putWallet Trace_GetEntry)
    have "forNodes g tms nodes q1 = Inr q' \<or> forNodes g tms nodes q1 = Inl (e, q')"
      using Cons.prems Inr by simp
    then obtain evs where "Trace q' = Trace q1 @ evs" and "\<forall>ev \<in> set evs. phaseOf ev = 1"
      using Cons.IH by blast
    then have "Trace q' = Trace q @ (callsOf tms node rs' @ evs) \<and>
               (\<forall>ev \<in> set (callsOf tms node rs' @ evs). phaseOf ev = 1)"
      using t1 callsOf_phase [of tms node rs'] by auto
    then show ?thesis by blast
  qed
qed

lemma example_artifacts:
  "\<exists>p'. GenerateArtifacts exampleTokenPlatform exampleExternals exampleTMS NewNetworkHandler = Inr p'"
proof (cases "GetEntry exampleTMS NewNetworkHandler")
  case (Pair a p0)
  have d: "Driver exampleTMS = ''zkat''" and n: "\<not> Private (TokenChaincode exampleTMS)"
    by (simp_all add: exampleTMS_def)
  have tp: "GetCryptoMaterialGenerator exampleTokenPlatform ''zkat'' = Some exampleGenerator"
    "FSCTopology exampleTokenPlatform = Some [exampleNode]"
    "GetPublicParamsGenerators exampleTokenPlatform ''zkat'' = Some examplePPGenerator"
    "PlatformByName exampleTokenPlatform (Network exampleTMS) = Some exampleFabric"
    by (simp_all add: exampleTokenPlatform_def)
  have ex: "MkdirAll exampleExternals dir = None" "WriteFile exampleExternals path raw = None"
    for dir path raw
    by (simp_all add: exampleExternals_def)
  have su: "Setup exampleGenerator exampleTMS = Inr ''root''"
    by (simp add: exampleGenerator_def)
  have ge: "Generate examplePPGenerator tms args = Inr ''pp''" for tms args
    by (simp add: examplePPGenerator_def)
  show ?thesis
    by (simp add: GenerateArtifacts_def Pair d n tp ex su ge
          GenerateCryptoMaterial_returns [OF example_answersAll]
          generatePublicParameters_def prepareChaincodes_def Let_def)
qed

text \<open>The loop over the nodes, exactly: the wallets it stores and the calls it makes.\<close>

lemma putWallet_simps:
  "Entries (putWallet a name (w, evs) q) = Entries q"
  "length (Store (putWallet a name (w, evs) q)) = length (Store q)"
  "a < length (Store q) \<Longrightarrow>
   Wallets (Store (putWallet a name (w, evs) q) ! a) = (Wallets (Store q ! a))(name \<mapsto> w)"
  by (simp_all add: putWallet_def)

lemma walletCalls_simps:
  "walletCalls tms [] = []"
  "walletCalls tms (node # nodes) = callsOf tms node allRoles @ walletCalls tms nodes"
  by (simp_all add: walletCalls_def)

lemma walletCalls_phase: "\<forall>ev \<in> set (walletCalls tms nodes). phaseOf ev = 1"
  using callsOf_phase by (induction nodes) (auto simp: walletCalls_simps)

lemma forNodes_exact:
  assumes "Entries q (Network tms @ Channel tms @ Namespace tms) = Some a"
    and "a < length (Store q)"
  shows "(\<forall>q'. forNodes g tms nodes q = Inr q' \<longrightarrow>
            (\<forall>node \<in> set nodes. answersAll g tms node) \<and>
            Wallets (Store q' ! a) = populated g tms nodes (Wallets (Store q ! a)) \<and>
            Trace q' = Trace q @ walletCalls tms nodes) \<and>
         (\<forall>e q'. forNodes g tms nodes q = Inl (e, q') \<longrightarrow>
            (\<exists>built node rest r.
               nodes = built @ node # rest \<and>
               (\<forall>n \<in> set built. answersAll g tms n) \<and>
               (\<forall>r' \<in> set (before r). \<not> blocked g tms node r') \<and>
               blocked g tms node r \<and>
               e = failure r \<and>
               Wallets (Store q' ! a) =
                 (populated g tms built (Wallets (Store q ! a)))
                   (Name node \<mapsto> walletAfter g tms node (before r)) \<and>
               Trace q' = Trace q @ walletCalls tms built @ callsOf tms node (before r @ [r])))"
  using assms
proof (induction nodes arbitrary: q)
  case Nil
  then show ?case by (simp add: walletCalls_simps)
next
  case (Cons node nodes)
  note ge = GetEntry_present [OF Cons.prems(1)]
  show ?case
  proof (cases "GenerateCryptoMaterial g tms node q")
    case (Inl x)
    obtain e1 q1 where x: "x = (e1, q1)" by (cases x)
    obtain r where b: "blocked g tms node r"
      and f: "\<forall>r' \<in> set (before r). \<not> blocked g tms node r'"
      and e1: "e1 = failure r"
      and q1: "q1 = putWallet a (Name node)
                  (walletAfter g tms node (before r), callsOf tms node (before r @ [r])) q"
      using GenerateCryptoMaterial_first [of g tms node q e1 q1] Inl x by (auto simp: ge)
    have w: "Wallets (Store q1 ! a) =
               (populated g tms [] (Wallets (Store q ! a)))
                 (Name node \<mapsto> walletAfter g tms node (before r))"
      unfolding q1 using Cons.prems(2) by (simp add: putWallet_simps)
    have t: "Trace q1 = Trace q @ walletCalls tms [] @ callsOf tms node (before r @ [r])"
      unfolding q1 by (simp add: Trace_putWallet walletCalls_simps)
    have fn: "forNodes g tms (node # nodes) q = Inl (e1, q1)"
      using Inl x by simp
    have ex: "\<exists>built n rest r.
               node # nodes = built @ n # rest \<and>
               (\<forall>n \<in> set built. answersAll g tms n) \<and>
               (\<forall>r' \<in> set (before r). \<not> blocked g tms n r') \<and>
               blocked g tms n r \<and>
               e1 = failure r \<and>
               Wallets (Store q1 ! a) =
                 (populated g tms built (Wallets (Store q ! a)))
                   (Name n \<mapsto> walletAfter g tms n (before r)) \<and>
               Trace q1 = Trace q @ walletCalls tms built @ callsOf tms n (before r @ [r])"
      using b f e1 w t
      by (intro exI [of _ "[]"] exI [of _ node] exI [of _ nodes] exI [of _ r]) simp
    show ?thesis
      unfolding fn
    proof (rule conjI)
      show "\<forall>q'. Inl (e1, q1) = Inr q' \<longrightarrow>
              (\<forall>node \<in> set (node # nodes). answersAll g tms node) \<and>
              Wallets (Store q' ! a) = populated g tms (node # nodes) (Wallets (Store q ! a)) \<and>
              Trace q' = Trace q @ walletCalls tms (node # nodes)"
        by simp
    next
      show "\<forall>e q'. Inl (e1, q1) = Inl (e, q') \<longrightarrow>
            (\<exists>built n rest r.
               node # nodes = built @ n # rest \<and>
               (\<forall>n \<in> set built. answersAll g tms n) \<and>
               (\<forall>r' \<in> set (before r). \<not> blocked g tms n r') \<and>
               blocked g tms n r \<and>
               e = failure r \<and>
               Wallets (Store q' ! a) =
                 (populated g tms built (Wallets (Store q ! a)))
                   (Name n \<mapsto> walletAfter g tms n (before r)) \<and>
               Trace q' = Trace q @ walletCalls tms built @ callsOf tms n (before r @ [r]))"
      proof (intro allI impI)
        fix e q'
        assume "Inl (e1, q1) = Inl (e, q')"
        then have "e1 = e" and "q1 = q'" by simp_all
        then show "\<exists>built n rest r.
               node # nodes = built @ n # rest \<and>
               (\<forall>n \<in> set built. answersAll g tms n) \<and>
               (\<forall>r' \<in> set (before r). \<not> blocked g tms n r') \<and>
               blocked g tms n r \<and>
               e = failure r \<and>
               Wallets (Store q' ! a) =
                 (populated g tms built (Wallets (Store q ! a)))
                   (Name n \<mapsto> walletAfter g tms n (before r)) \<and>
               Trace q' = Trace q @ walletCalls tms built @ callsOf tms n (before r @ [r])"
          using ex by simp
      qed
    qed
  next
    case (Inr q1)
    have all: "answersAll g tms node"
      and q1: "q1 = putWallet a (Name node)
                  (walletAfter g tms node allRoles, callsOf tms node allRoles) q"
      using GenerateCryptoMaterial_Inr [OF Inr] by (simp_all add: ge)
    have k1: "Entries q1 (Network tms @ Channel tms @ Namespace tms) = Some a"
      and l1: "a < length (Store q1)"
      unfolding q1 using Cons.prems by (simp_all add: putWallet_simps)
    have w1: "Wallets (Store q1 ! a) =
                (Wallets (Store q ! a))(Name node \<mapsto> walletAfter g tms node allRoles)"
      unfolding q1 using Cons.prems(2) by (simp add: putWallet_simps)
    have t1: "Trace q1 = Trace q @ callsOf tms node allRoles"
      unfolding q1 by (simp add: Trace_putWallet)
    note ih = Cons.IH [OF k1 l1]
    have ret: "(\<forall>n \<in> set (node # nodes). answersAll g tms n) \<and>
            Wallets (Store q' ! a) = populated g tms (node # nodes) (Wallets (Store q ! a)) \<and>
            Trace q' = Trace q @ walletCalls tms (node # nodes)"
      if r: "forNodes g tms nodes q1 = Inr q'" for q'
    proof -
      have "\<forall>n \<in> set nodes. answersAll g tms n"
        and "Wallets (Store q' ! a) = populated g tms nodes (Wallets (Store q1 ! a))"
        and "Trace q' = Trace q1 @ walletCalls tms nodes"
        using ih r by blast+
      then show ?thesis
        using all by (simp add: w1 t1 walletCalls_simps)
    qed
    have pan: "\<exists>built n rest r.
               node # nodes = built @ n # rest \<and>
               (\<forall>n \<in> set built. answersAll g tms n) \<and>
               (\<forall>r' \<in> set (before r). \<not> blocked g tms n r') \<and>
               blocked g tms n r \<and>
               e = failure r \<and>
               Wallets (Store q' ! a) =
                 (populated g tms built (Wallets (Store q ! a)))
                   (Name n \<mapsto> walletAfter g tms n (before r)) \<and>
               Trace q' = Trace q @ walletCalls tms built @ callsOf tms n (before r @ [r])"
      if r: "forNodes g tms nodes q1 = Inl (e, q')" for e q'
    proof -
      obtain built n rest r where n: "nodes = built @ n # rest"
        and a: "\<forall>n \<in> set built. answersAll g tms n"
        and f: "\<forall>r' \<in> set (before r). \<not> blocked g tms n r'"
        and b: "blocked g tms n r"
        and e: "e = failure r"
        and w: "Wallets (Store q' ! a) =
                 (populated g tms built (Wallets (Store q1 ! a)))
                   (Name n \<mapsto> walletAfter g tms n (before r))"
        and t: "Trace q' = Trace q1 @ walletCalls tms built @ callsOf tms n (before r @ [r])"
        using ih r by blast
      show ?thesis
        using n a f b e w t all
        by (intro exI [of _ "node # built"] exI [of _ n] exI [of _ rest] exI [of _ r])
          (simp add: w1 t1 walletCalls_simps)
    qed
    have fn: "forNodes g tms (node # nodes) q = forNodes g tms nodes q1"
      using Inr by simp
    show ?thesis
      unfolding fn using ret pan by blast
  qed
qed

text \<open>The two later steps, exactly.\<close>

lemma generatePublicParameters_Inr:
  assumes "generatePublicParameters tp ext tms root q = Inr q'"
  shows "\<exists>ppGenerator ppRaw.
           GetPublicParamsGenerators tp (Driver tms) = Some ppGenerator \<and>
           Generate ppGenerator tms (root # PublicParamsGenArgs tms) = Inr ppRaw \<and>
           MkdirAll ext (PublicParametersDir tp) = None \<and>
           WriteFile ext (PublicParametersFile tp tms) ppRaw = None \<and>
           q' = withEvents [EvGenerate tms (root # PublicParamsGenArgs tms),
                  EvMkdirAll (PublicParametersDir tp),
                  EvWriteFile (PublicParametersFile tp tms) ppRaw] q"
  using assms
  by (auto simp: generatePublicParameters_def logEvent_withEvents Let_def
        split: option.splits sum.splits)

lemma prepareChaincodes_eq:
  "prepareChaincodes tp ext tms q =
     (case PlatformByName tp (Network tms) of
        None \<Rightarrow> Inl (NoFabricPlatform (Network tms), q)
      | Some fabric \<Rightarrow> Inr (chaincodeOf fabric ext tms, withEvents [registration ext tms] q))"
  by (simp add: prepareChaincodes_def chaincodeOf_def registration_def logEvent_withEvents
        Let_def split: option.splits)

lemma registration_phase: "phaseOf (registration ext tms) = 5"
  by (simp add: registration_def)

text \<open>The facts on the entry, outcome by outcome.\<close>

lemma filter_phases:
  assumes "\<forall>ev \<in> set W. phaseOf ev = 1"
  shows "filter (\<lambda>ev. phaseOf ev \<le> 1) (EvSetup tms # W @ X)
           = EvSetup tms # W @ filter (\<lambda>ev. phaseOf ev \<le> 1) X"
    and "filter (\<lambda>ev. 2 \<le> phaseOf ev \<and> phaseOf ev \<le> 4) (EvSetup tms # W @ X)
           = filter (\<lambda>ev. 2 \<le> phaseOf ev \<and> phaseOf ev \<le> 4) X"
proof -
  have "filter (\<lambda>ev. phaseOf ev \<le> 1) W = W"
    using assms by (simp add: filter_id_conv)
  then show "filter (\<lambda>ev. phaseOf ev \<le> 1) (EvSetup tms # W @ X)
           = EvSetup tms # W @ filter (\<lambda>ev. phaseOf ev \<le> 1) X"
    by simp
  have "filter (\<lambda>ev. 2 \<le> phaseOf ev \<and> phaseOf ev \<le> 4) W = []"
    using assms by (simp add: filter_empty_conv)
  then show "filter (\<lambda>ev. 2 \<le> phaseOf ev \<and> phaseOf ev \<le> 4) (EvSetup tms # W @ X)
           = filter (\<lambda>ev. 2 \<le> phaseOf ev \<and> phaseOf ev \<le> 4) X"
    by simp
qed

lemma filter_later:
  assumes "\<forall>ev \<in> set X. 2 \<le> phaseOf ev"
  shows "filter (\<lambda>ev. phaseOf ev \<le> 1) X = []"
  using assms by (auto simp: filter_empty_conv)

lemma parametersGenerated_later:
  assumes "\<forall>ev \<in> set W. phaseOf ev = 1"
  shows "parametersGenerated tp ext tms (EvSetup tms # W @ X)
           \<longleftrightarrow> parametersGenerated tp ext tms X"
  unfolding parametersGenerated_def filter_phases(2) [OF assms] ..

lemma descriptorSet_later:
  assumes "\<forall>ev \<in> set W. phaseOf ev = 1" and "descriptorSet tp ext tms e' X"
  shows "descriptorSet tp ext tms e' (EvSetup tms # W @ X)"
proof (cases "PlatformByName tp (Network tms)")
  case None
  then show ?thesis using assms(2) by (simp add: descriptorSet_def)
next
  case (Some fabric)
  have x: "X \<noteq> []" and l: "last X = registration ext tms"
    and c: "TCC e' = Some \<lparr>Chaincode = chaincodeOf fabric ext tms\<rparr>"
    and b: "\<forall>ev \<in> set (butlast X). phaseOf ev < 5"
    using assms(2) Some by (simp_all add: descriptorSet_def)
  have "butlast (EvSetup tms # W @ X) = EvSetup tms # W @ butlast X"
    using x by (simp add: butlast_append)
  then have "\<forall>ev \<in> set (butlast (EvSetup tms # W @ X)). phaseOf ev < 5"
    using assms(1) b by auto
  moreover have "last (EvSetup tms # W @ X) = registration ext tms"
    using x l by simp
  ultimately show ?thesis
    using Some c by (simp add: descriptorSet_def)
qed

lemma entryFacts_later:
  assumes cg: "GetCryptoMaterialGenerator tp (Driver tms) = Some g"
    and top: "FSCTopology tp = Some nodes"
    and all: "\<forall>node \<in> set nodes. answersAll g tms node"
    and wal: "Wallets (Store q ! fst (GetEntry tms p)) =
                populated g tms nodes
                  (Wallets (Store (snd (GetEntry tms p)) ! fst (GetEntry tms p)))"
    and tr: "Trace q = Trace p @ EvSetup tms # walletCalls tms nodes @ X"
    and ph: "\<forall>ev \<in> set X. 2 \<le> phaseOf ev"
    and r1: "1 \<le> rank s"
    and pg: "2 \<le> rank s \<longrightarrow> parametersGenerated tp ext tms X"
    and ds: "rank s = 3 \<longrightarrow> descriptorSet tp ext tms (Store q ! fst (GetEntry tms p)) X"
  shows "entryFacts tp ext tms p q e s"
proof -
  let ?a = "fst (GetEntry tms p)" and ?p0 = "snd (GetEntry tms p)"
  note w1 = walletCalls_phase [of tms nodes]
  have evs: "newEvents p q = EvSetup tms # walletCalls tms nodes @ X"
    by (simp add: newEvents_def tr)
  have "filter (\<lambda>ev. phaseOf ev \<le> 1) (newEvents p q) = EvSetup tms # walletCalls tms nodes"
    unfolding evs filter_phases(1) [OF w1] filter_later [OF ph] by simp
  then have 1: "walletsPopulated tp tms (Store ?p0 ! ?a) (Store q ! ?a) (newEvents p q)"
    using all wal by (simp add: walletsPopulated_def cg top)
  have 2: "parametersGenerated tp ext tms (newEvents p q)" if "2 \<le> rank s"
    unfolding evs parametersGenerated_later [OF w1] using pg that by simp
  have 3: "descriptorSet tp ext tms (Store q ! ?a) (newEvents p q)" if "rank s = 3"
    unfolding evs using w1 ds that by (intro descriptorSet_later) simp_all
  show ?thesis
    unfolding entryFacts_def Let_def using 1 2 3 r1 by simp
qed

lemma entryFacts_early:
  assumes "Store q = Store (snd (GetEntry tms p))" and "rank s = 0" and "\<not> walletsStep e"
  shows "entryFacts tp ext tms p q e s"
  using assms by (simp add: entryFacts_def Let_def)

lemma GenerateArtifacts_entryFacts:
  assumes wf: "wellformed p"
  shows "(\<forall>p'. GenerateArtifacts tp ext tms p = Inr p' \<longrightarrow>
            entryFacts tp ext tms p p' e ContractDescriptorSet) \<and>
         (\<forall>e p'. GenerateArtifacts tp ext tms p = Inl (e, p') \<longrightarrow>
            entryFacts tp ext tms p p' e (lastCompleted e))"
proof -
  let ?a = "fst (GetEntry tms p)" and ?p0 = "snd (GetEntry tms p)"
  let ?p1 = "withEvents [EvSetup tms] ?p0"
  let ?M = "EvMkdirAll (PublicParametersDir tp)"
  have k1: "Entries ?p1 (Network tms @ Channel tms @ Namespace tms) = Some ?a"
    by (simp add: GetEntry_registered)
  have l1: "?a < length (Store ?p1)"
    using wf by (simp add: GetEntry_allocated)
  have t1: "Trace ?p1 = Trace p @ [EvSetup tms]"
    by (simp add: Trace_GetEntry)
  have s1: "Store ?p1 = Store ?p0"
    by simp
  have loop: "(\<forall>node \<in> set nodes. answersAll g tms node) \<and>
              Wallets (Store p2 ! ?a) = populated g tms nodes (Wallets (Store ?p0 ! ?a)) \<and>
              Trace p2 = Trace p @ EvSetup tms # walletCalls tms nodes \<and>
              ?a < length (Store p2)"
    if "forNodes g tms nodes ?p1 = Inr p2" for g nodes p2
  proof -
    have "grown ?a ?p1 p2"
      using forNodes_grown [OF k1 l1, of g nodes] that by blast
    then have "?a < length (Store p2)"
      using l1 by (simp add: grown_def)
    then show ?thesis
      using forNodes_exact [OF k1 l1, of g nodes] that by (simp add: Trace_GetEntry)
  qed
  show ?thesis
  proof (cases rule: GenerateArtifacts_outcome [of tp ext tms p])
    case nogenerator
    have "entryFacts tp ext tms p ?p0 NilCryptoMaterialGenerator Empty"
      by (rule entryFacts_early) simp_all
    then show ?thesis using nogenerator by simp
  next
    case (nosetup err)
    have "entryFacts tp ext tms p ?p1 (SetupFailed err) Empty"
      by (rule entryFacts_early) simp_all
    then show ?thesis using nosetup by simp
  next
    case notopology
    have "entryFacts tp ext tms p ?p1 NoFSCTopology Empty"
      by (rule entryFacts_early) simp_all
    then show ?thesis using notopology by simp
  next
    case (wallets g nodes e1 p2)
    obtain built node rest r where n: "nodes = built @ node # rest"
      and a: "\<forall>n \<in> set built. answersAll g tms n"
      and f: "\<forall>r' \<in> set (before r). \<not> blocked g tms node r'"
      and b: "blocked g tms node r"
      and e1: "e1 = failure r"
      and w: "Wallets (Store p2 ! ?a) =
                 (populated g tms built (Wallets (Store ?p1 ! ?a)))
                   (Name node \<mapsto> walletAfter g tms node (before r))"
      and t: "Trace p2 = Trace ?p1 @ walletCalls tms built @ callsOf tms node (before r @ [r])"
      using forNodes_exact [OF k1 l1, of g nodes] wallets(2) by blast
    have evs: "newEvents p p2
                 = EvSetup tms # walletCalls tms built @ callsOf tms node (before r @ [r])"
      by (simp add: newEvents_def t Trace_GetEntry)
    have "\<exists>built node rest r.
            nodes = built @ node # rest \<and>
            (\<forall>n \<in> set built. answersAll g tms n) \<and>
            (\<forall>r' \<in> set (before r). \<not> blocked g tms node r') \<and>
            blocked g tms node r \<and>
            e1 = failure r \<and>
            Wallets (Store p2 ! ?a) =
              (populated g tms built (Wallets (Store ?p0 ! ?a)))
                (Name node \<mapsto> walletAfter g tms node (before r)) \<and>
            newEvents p p2
              = EvSetup tms # walletCalls tms built @ callsOf tms node (before r @ [r])"
      using n a f b e1 w evs unfolding s1 by blast
    then have "walletsPartial tp tms e1 (Store ?p0 ! ?a) (Store p2 ! ?a) (newEvents p p2)"
      unfolding walletsPartial_def wallets(1) wallets(4) by simp
    moreover have "walletsStep e1" and "rank (lastCompleted e1) = 0"
      using e1 by (simp_all add: failure_def)
    ultimately have "entryFacts tp ext tms p p2 e1 (lastCompleted e1)"
      by (simp add: entryFacts_def Let_def)
    then show ?thesis using wallets(3) by simp
  next
    case (params g root nodes p2 e1 p3)
    let ?G = "EvGenerate tms (root # PublicParamsGenArgs tms)"
    note lp = loop [OF params(2)]
    have "\<exists>X. p3 = withEvents X p2 \<and> (\<forall>ev \<in> set X. 2 \<le> phaseOf ev) \<and>
              rank (lastCompleted e1) = 1"
    proof (cases rule: generatePublicParameters_cases [of tp tms ext root p2])
      case nogen
      then have "p3 = withEvents [] p2 \<and> rank (lastCompleted e1) = 1"
        using params(3) by (auto simp: withEvents_def)
      then show ?thesis by (intro exI [of _ "[]"]) simp
    next
      case (generate err)
      then have "p3 = withEvents [?G] p2 \<and> rank (lastCompleted e1) = 1"
        using params(3) by auto
      then show ?thesis by (intro exI [of _ "[?G]"]) simp
    next
      case (mkdir err)
      then have "p3 = withEvents [?G, ?M] p2 \<and> rank (lastCompleted e1) = 1"
        using params(3) by auto
      then show ?thesis by (intro exI [of _ "[?G, ?M]"]) simp
    next
      case (writefail raw err)
      then have "p3 = withEvents [?G, ?M, EvWriteFile (PublicParametersFile tp tms) raw] p2 \<and>
                 rank (lastCompleted e1) = 1"
        using params(3) by auto
      then show ?thesis
        by (intro exI [of _ "[?G, ?M, EvWriteFile (PublicParametersFile tp tms) raw]"]) simp
    next
      case (stored raw)
      then show ?thesis using params(3) by simp
    qed
    then obtain X where p3: "p3 = withEvents X p2" and ph: "\<forall>ev \<in> set X. 2 \<le> phaseOf ev"
      and rk: "rank (lastCompleted e1) = 1"
      by blast
    have "entryFacts tp ext tms p p3 e1 (lastCompleted e1)"
      using lp rk ph unfolding p3
      by (intro entryFacts_later [OF params(5) params(1), where X = X]) simp_all
    then show ?thesis using params(4) by simp
  next
    case (chaincodes g root nodes p2 p3 e1 p4)
    let ?G = "EvGenerate tms (root # PublicParamsGenArgs tms)"
    note lp = loop [OF chaincodes(2)]
    obtain ppGenerator ppRaw where
      pp: "GetPublicParamsGenerators tp (Driver tms) = Some ppGenerator"
        "Generate ppGenerator tms (root # PublicParamsGenArgs tms) = Inr ppRaw"
        "MkdirAll ext (PublicParametersDir tp) = None"
        "WriteFile ext (PublicParametersFile tp tms) ppRaw = None"
      and p3: "p3 = withEvents [?G, ?M, EvWriteFile (PublicParametersFile tp tms) ppRaw] p2"
      using generatePublicParameters_Inr [OF chaincodes(3)] by blast
    let ?X = "[?G, ?M, EvWriteFile (PublicParametersFile tp tms) ppRaw]"
    have pg: "parametersGenerated tp ext tms ?X"
      unfolding parametersGenerated_def
      using chaincodes(6) chaincodes(7) pp
      by (intro exI [of _ g] exI [of _ root] exI [of _ ppGenerator] exI [of _ ppRaw]) simp
    have e1: "e1 = NoFabricPlatform (Network tms)" and p4: "p4 = p3"
      using chaincodes(4) by (auto simp: prepareChaincodes_eq split: option.splits)
    have "entryFacts tp ext tms p p4 e1 (lastCompleted e1)"
      using lp pg unfolding p4 p3 e1
      by (intro entryFacts_later [OF chaincodes(6) chaincodes(1), where X = ?X]) simp_all
    then show ?thesis using chaincodes(5) by simp
  next
    case (finished g root nodes p2 p3 cc p4)
    let ?G = "EvGenerate tms (root # PublicParamsGenArgs tms)"
    note lp = loop [OF finished(2)]
    obtain ppGenerator ppRaw where
      pp: "GetPublicParamsGenerators tp (Driver tms) = Some ppGenerator"
        "Generate ppGenerator tms (root # PublicParamsGenArgs tms) = Inr ppRaw"
        "MkdirAll ext (PublicParametersDir tp) = None"
        "WriteFile ext (PublicParametersFile tp tms) ppRaw = None"
      and p3: "p3 = withEvents [?G, ?M, EvWriteFile (PublicParametersFile tp tms) ppRaw] p2"
      using generatePublicParameters_Inr [OF finished(3)] by blast
    let ?X = "[?G, ?M, EvWriteFile (PublicParametersFile tp tms) ppRaw, registration ext tms]"
    have pg: "parametersGenerated tp ext tms ?X"
      unfolding parametersGenerated_def
      using finished(6) finished(7) pp
      by (intro exI [of _ g] exI [of _ root] exI [of _ ppGenerator] exI [of _ ppRaw])
        (simp add: registration_phase)
    obtain fabric where fb: "PlatformByName tp (Network tms) = Some fabric"
      and cc: "cc = chaincodeOf fabric ext tms" and p4: "p4 = withEvents [registration ext tms] p3"
      using finished(4) by (auto simp: prepareChaincodes_eq split: option.splits)
    let ?q = "setTCC ?a cc p4"
    have l4: "?a < length (Store p4)"
      using lp by (simp add: p4 p3)
    have ds: "descriptorSet tp ext tms (Store ?q ! ?a) ?X"
      using l4 by (simp add: descriptorSet_def fb cc setTCC_simps)
    have "entryFacts tp ext tms p ?q e ContractDescriptorSet"
      using lp pg ds l4
      by (intro entryFacts_later [OF finished(6) finished(1), where X = ?X])
        (simp_all add: setTCC_simps p4 p3 registration_phase)
    then show ?thesis using finished(5) by simp
  qed
qed

text \<open>The example runs of the artifact generation, evaluated.\<close>

lemma example_platform:
  "GetCryptoMaterialGenerator exampleTokenPlatform (Driver exampleTMS) = Some exampleGenerator"
  "FSCTopology exampleTokenPlatform = Some [exampleNode]"
  "GetPublicParamsGenerators exampleTokenPlatform (Driver exampleTMS) = Some examplePPGenerator"
  "PlatformByName exampleTokenPlatform (Network exampleTMS) = Some exampleFabric"
  "PublicParametersDir exampleTokenPlatform = ''/net/token''"
  "PublicParametersFile exampleTokenPlatform exampleTMS = ''/net/token/pp.json''"
  by (simp_all add: exampleTokenPlatform_def exampleTMS_def)

lemma mute_platform:
  "GetCryptoMaterialGenerator muteTokenPlatform (Driver exampleTMS) = Some muteGenerator"
  "FSCTopology muteTokenPlatform = Some [exampleNode]"
  "Setup muteGenerator exampleTMS = Inr ''root''"
  by (simp_all add: muteTokenPlatform_def exampleTokenPlatform_def muteGenerator_def
        exampleGenerator_def)

lemma example_store:
  "0 < length (Store (snd (GetEntry exampleTMS NewNetworkHandler)))"
  "TCC (Store (snd (GetEntry exampleTMS NewNetworkHandler)) ! 0) = None"
  "Wallets (Store (snd (GetEntry exampleTMS NewNetworkHandler)) ! 0) name = None"
  by (simp_all add: GetEntry_def NewNetworkHandler_def)

lemma aborted_run:
  "GenerateArtifacts muteTokenPlatform exampleExternals exampleTMS NewNetworkHandler
     = Inl (IndexOutOfRange 0 0, abortedHandler)"
proof -
  obtain p0 where ge: "GetEntry exampleTMS NewNetworkHandler = (0, p0)"
    using example_entry by (cases "GetEntry exampleTMS NewNetworkHandler") simp
  let ?p1 = "logEvent (EvSetup exampleTMS) p0"
  have "Entries ?p1 (Network exampleTMS @ Channel exampleTMS @ Namespace exampleTMS) = Some 0"
    using GetEntry_registered [of exampleTMS NewNetworkHandler] ge by (simp add: logEvent_def)
  then have g1: "GetEntry exampleTMS ?p1 = (0, ?p1)"
    by (rule GetEntry_present)
  have run: "GenerateCryptoMaterial muteGenerator exampleTMS exampleNode ?p1
               = Inl (IndexOutOfRange 0 0, putWallet 0 ''org1peer'' (muteWallet, exampleCalls) ?p1)"
    unfolding GenerateCryptoMaterial_assemble mute_assemble g1
    by (simp add: exampleNode_def)
  show ?thesis
    by (simp add: GenerateArtifacts_def ge mute_platform run abortedHandler_def)
qed

lemma aborted_wallet: "Wallets (Store abortedHandler ! 0) ''org1peer'' = Some muteWallet"
  using example_store(1)
  by (simp add: abortedHandler_def putWallet_simps logEvent_def)

section \<open>Claims about the entry registry\<close>

text \<open>
  C3. Two calls of \<^verbatim>\<open>GetEntry\<close> with descriptors of the same network, channel and
  namespace return the same instance, whatever the other fields: the second call returns
  the pointer the first returned and leaves the handler as the first left it. When the
  first call created the entry, the entry holds the first descriptor after the second
  call; when the entry was there before, neither call changes anything.
\<close>

theorem GetEntry_same_instance:
  assumes "Network t2 = Network t1" and "Channel t2 = Channel t1"
    and "Namespace t2 = Namespace t1"
  shows "fst (GetEntry t2 (snd (GetEntry t1 p))) = fst (GetEntry t1 p) \<and>
         snd (GetEntry t2 (snd (GetEntry t1 p))) = snd (GetEntry t1 p) \<and>
         (Entries p (Network t1 @ Channel t1 @ Namespace t1) = None \<longrightarrow>
            TMS (Store (snd (GetEntry t2 (snd (GetEntry t1 p))))
              ! fst (GetEntry t2 (snd (GetEntry t1 p)))) = t1) \<and>
         (\<forall>a. Entries p (Network t1 @ Channel t1 @ Namespace t1) = Some a \<longrightarrow>
            fst (GetEntry t1 p) = a \<and> snd (GetEntry t2 (snd (GetEntry t1 p))) = p)"
proof -
  have key: "Network t2 @ Channel t2 @ Namespace t2 = Network t1 @ Channel t1 @ Namespace t1"
    using assms by simp
  have again: "GetEntry t2 (snd (GetEntry t1 p)) = (fst (GetEntry t1 p), snd (GetEntry t1 p))"
    using key by (rule GetEntry_again)
  have created: "TMS (Store (snd (GetEntry t1 p)) ! fst (GetEntry t1 p)) = t1"
    if "Entries p (Network t1 @ Channel t1 @ Namespace t1) = None"
    using that by (simp add: GetEntry_def Let_def)
  have found: "fst (GetEntry t1 p) = a \<and> snd (GetEntry t1 p) = p"
    if "Entries p (Network t1 @ Channel t1 @ Namespace t1) = Some a" for a
    using that by (simp add: GetEntry_def)
  have f: "fst (GetEntry t2 (snd (GetEntry t1 p))) = fst (GetEntry t1 p)"
    and s: "snd (GetEntry t2 (snd (GetEntry t1 p))) = snd (GetEntry t1 p)"
    by (simp_all add: again)
  show ?thesis
    unfolding f s using created found by blast
qed

theorem GetEntry_same_instance_witness:
  "exampleTMS2 \<noteq> exampleTMS \<and>
   fst (GetEntry exampleTMS2 (snd (GetEntry exampleTMS NewNetworkHandler)))
     = fst (GetEntry exampleTMS NewNetworkHandler) \<and>
   TMS (Store (snd (GetEntry exampleTMS2 (snd (GetEntry exampleTMS NewNetworkHandler))))
     ! fst (GetEntry exampleTMS2 (snd (GetEntry exampleTMS NewNetworkHandler)))) = exampleTMS"
  using GetEntry_same_instance [of exampleTMS2 exampleTMS NewNetworkHandler]
  by (simp add: exampleTMS2_def exampleTMS_def NewNetworkHandler_def GetEntry_def Let_def)

text \<open>Distinct keys never share an entry of a well-formed handler.\<close>

lemma GetEntry_distinct:
  assumes "wellformed p"
    and "Network t2 @ Channel t2 @ Namespace t2 \<noteq> Network t1 @ Channel t1 @ Namespace t1"
  shows "fst (GetEntry t2 (snd (GetEntry t1 p))) \<noteq> fst (GetEntry t1 p)"
proof -
  let ?q = "snd (GetEntry t1 p)"
  have wf: "wellformed ?q" using assms(1) by (rule GetEntry_wellformed)
  have r1: "Entries ?q (Network t1 @ Channel t1 @ Namespace t1) = Some (fst (GetEntry t1 p))"
    by (rule GetEntry_registered)
  have r2: "Entries (snd (GetEntry t2 ?q)) (Network t2 @ Channel t2 @ Namespace t2)
              = Some (fst (GetEntry t2 ?q))"
    by (rule GetEntry_registered)
  have r1': "Entries (snd (GetEntry t2 ?q)) (Network t1 @ Channel t1 @ Namespace t1)
              = Some (fst (GetEntry t1 p))"
    using r1 assms(2) by (simp add: GetEntry_def Let_def split: option.splits)
  have "wellformed (snd (GetEntry t2 ?q))" using wf by (rule GetEntry_wellformed)
  then show ?thesis
    using r1' r2 assms(2) unfolding wellformed_def by metis
qed

text \<open>
  C4. The registry key is the concatenation network+channel+namespace, with no delimiter:
  \<^verbatim>\<open>GetEntry\<close> registers the entry under it, and on a well-formed handler two
  descriptors get the same entry exactly when their concatenations are equal. So the
  descriptors (a, bc, x) and (ab, c, x), whose triples differ, get the same entry.
\<close>

theorem GetEntry_key_is_concatenation:
  "Entries (snd (GetEntry tms p)) (Network tms @ Channel tms @ Namespace tms)
     = Some (fst (GetEntry tms p)) \<and>
   (wellformed p \<longrightarrow>
      (fst (GetEntry t2 (snd (GetEntry t1 p))) = fst (GetEntry t1 p)
         \<longleftrightarrow> Network t2 @ Channel t2 @ Namespace t2 = Network t1 @ Channel t1 @ Namespace t1)) \<and>
   (Network collideA, Channel collideA, Namespace collideA) = (''a'', ''bc'', ''x'') \<and>
   (Network collideB, Channel collideB, Namespace collideB) = (''ab'', ''c'', ''x'') \<and>
   fst (GetEntry collideB (snd (GetEntry collideA p))) = fst (GetEntry collideA p)"
proof -
  have "fst (GetEntry collideB (snd (GetEntry collideA p))) = fst (GetEntry collideA p)"
    by (simp add: GetEntry_again collideA_def collideB_def)
  moreover have "fst (GetEntry t2 (snd (GetEntry t1 p))) = fst (GetEntry t1 p)
         \<longleftrightarrow> Network t2 @ Channel t2 @ Namespace t2 = Network t1 @ Channel t1 @ Namespace t1"
    if "wellformed p"
    using GetEntry_distinct [OF that, of t2 t1] GetEntry_again [of t2 t1 p] by auto
  ultimately show ?thesis
    by (simp add: GetEntry_registered collideA_def collideB_def)
qed

theorem GetEntry_key_is_concatenation_witness:
  "wellformed NewNetworkHandler \<and>
   Entries (snd (GetEntry exampleTMS NewNetworkHandler)) ''N1C1tokens''
     = Some (fst (GetEntry exampleTMS NewNetworkHandler)) \<and>
   (Network collideA, Channel collideA, Namespace collideA)
     \<noteq> (Network collideB, Channel collideB, Namespace collideB) \<and>
   fst (GetEntry collideB (snd (GetEntry collideA NewNetworkHandler)))
     = fst (GetEntry collideA NewNetworkHandler) \<and>
   fst (GetEntry exampleTMS (snd (GetEntry collideA NewNetworkHandler)))
     \<noteq> fst (GetEntry collideA NewNetworkHandler)"
  using GetEntry_key_is_concatenation [of exampleTMS NewNetworkHandler exampleTMS collideA]
    wellformed_NewNetworkHandler
  by (simp add: exampleTMS_def collideA_def collideB_def)

section \<open>Claims about the wallet assembly\<close>

text \<open>
  C1, as amended. In every wallet \<^verbatim>\<open>GenerateCryptoMaterial\<close> leaves in the entry, whether
  it returns or panics, every role whose sequence is not empty has \<^verbatim>\<open>Default = true\<close> on
  its last record, and the records before the last are the generator's, with the flags
  the generator gave them: the last record is the only one with \<^verbatim>\<open>Default = true\<close> when
  the generator returned those earlier records with \<^verbatim>\<open>Default = false\<close>. \<open>sequence\<close>
  selects the sequence of a role and \<open>kept\<close> the generator's records before the last.
\<close>

theorem last_record_default:
  assumes "wellformed p"
    and "GenerateCryptoMaterial g tms node p = Inr p' \<or>
         GenerateCryptoMaterial g tms node p = Inl (e, p')"
  shows "\<exists>w. walletOf p' (fst (GetEntry tms p)) (Name node) = Some w \<and>
           (\<forall>r. sequence w r \<noteq> [] \<longrightarrow>
              Default (last (sequence w r)) \<and>
              butlast (sequence w r) = kept g tms node r \<and>
              ((\<forall>x \<in> set (kept g tms node r). \<not> Default x) \<longrightarrow>
                 length (filter Default (sequence w r)) = 1))"
proof -
  obtain rs rs' where p': "p' = putWallet (fst (GetEntry tms p)) (Name node)
      (walletAfter g tms node rs, callsOf tms node rs') (snd (GetEntry tms p))"
    using assms(2) by (rule GenerateCryptoMaterial_leaves)
  let ?w = "walletAfter g tms node rs"
  have w: "walletOf p' (fst (GetEntry tms p)) (Name node) = Some ?w"
    unfolding p' using assms(1) by (rule walletOf_GenerateCryptoMaterial)
  have "Default (last (sequence ?w r)) \<and> butlast (sequence ?w r) = kept g tms node r \<and>
        ((\<forall>x \<in> set (kept g tms node r). \<not> Default x) \<longrightarrow>
           length (filter Default (sequence ?w r)) = 1)"
    if ne: "sequence ?w r \<noteq> []" for r
  proof -
    have eq: "sequence ?w r = filled g tms node r"
      using ne fillIn_cases [of g tms node rs r] by (simp add: sequence_walletAfter)
    have l: "Default (last (sequence ?w r))" and b: "butlast (sequence ?w r) = kept g tms node r"
      by (simp_all add: eq filled_last filled_butlast)
    have "length (filter Default (sequence ?w r)) = 1"
      if "\<forall>x \<in> set (kept g tms node r). \<not> Default x"
      using ne l that unfolding b [symmetric] by (rule count_Default)
    then show ?thesis using l b by blast
  qed
  then show ?thesis using w by blast
qed

text \<open>The example run satisfies the hypotheses and has exactly one default issuer.\<close>

theorem last_record_default_witness:
  "wellformed NewNetworkHandler \<and>
   GenerateCryptoMaterial exampleGenerator exampleTMS exampleNode NewNetworkHandler
     = Inr (handlerWith exampleWallet) \<and>
   walletOf (handlerWith exampleWallet) 0 ''org1peer'' = Some exampleWallet \<and>
   Issuers exampleWallet \<noteq> [] \<and>
   Default (last (Issuers exampleWallet)) \<and>
   length (filter Default (Issuers exampleWallet)) = 1"
proof -
  have nm: "Name exampleNode = ''org1peer''"
    by (simp add: exampleNode_def)
  have "GenerateCryptoMaterial exampleGenerator exampleTMS exampleNode NewNetworkHandler
          = Inr (handlerWith exampleWallet) \<or>
        GenerateCryptoMaterial exampleGenerator exampleTMS exampleNode NewNetworkHandler
          = Inl (NoFSCTopology, handlerWith exampleWallet)"
    using example_run by simp
  from last_record_default [OF wellformed_NewNetworkHandler this]
  obtain w where w: "walletOf (handlerWith exampleWallet)
        (fst (GetEntry exampleTMS NewNetworkHandler)) (Name exampleNode) = Some w"
    and all: "\<forall>r. sequence w r \<noteq> [] \<longrightarrow>
              Default (last (sequence w r)) \<and>
              butlast (sequence w r) = kept exampleGenerator exampleTMS exampleNode r \<and>
              ((\<forall>x \<in> set (kept exampleGenerator exampleTMS exampleNode r). \<not> Default x) \<longrightarrow>
                 length (filter Default (sequence w r)) = 1)"
    by blast
  have we: "w = exampleWallet"
    using w by (simp add: example_entry nm example_walletOf)
  have ne: "Issuers exampleWallet \<noteq> []"
    by (simp add: exampleWallet_def)
  have unset: "\<forall>x \<in> set (kept exampleGenerator exampleTMS exampleNode IssuerRole). \<not> Default x"
    by (simp add: exampleGenerator_def exampleNode_def perName_def)
  have "Default (last (Issuers exampleWallet)) \<and>
        length (filter Default (Issuers exampleWallet)) = 1"
    using all [rule_format, of IssuerRole] ne unset unfolding we by simp
  then show ?thesis
    using wellformed_NewNetworkHandler example_run example_walletOf [of exampleWallet] ne
    by blast
qed

text \<open>
  C1 as stated fails: with a generator whose issuer records come with
  \<^verbatim>\<open>Default = true\<close>, the issuer sequence of the wallet has two such records.
\<close>

theorem exactly_one_default_counterexample:
  "GenerateCryptoMaterial flaggedGenerator exampleTMS exampleNode NewNetworkHandler
     = Inr (handlerWith flaggedWallet) \<and>
   walletOf (handlerWith flaggedWallet) 0 ''org1peer'' = Some flaggedWallet \<and>
   Issuers flaggedWallet \<noteq> [] \<and>
   length (filter Default (Issuers flaggedWallet)) = 2"
  using example_run_with [OF flagged_answersAll flagged_wallet]
  by (simp add: example_walletOf) (simp add: flaggedWallet_def)




text \<open>
  C7, as amended. On a well-formed handler \<^verbatim>\<open>GenerateCryptoMaterial\<close> ends, returning or
  panicking, and leaves a wallet under the name of the node; it returns when the generator
  answers every role the node has membership in with at least one record. For a node with
  the auditor flag set: when the generator answers with at least one record every role of
  the node up to the auditor role, that role included, the run has called the generator
  once for the role, with the node's name as the only name, and the auditor sequence is
  exactly the first returned record with \<^verbatim>\<open>Default = true\<close>, of length 1; otherwise the
  auditor sequence is empty. The same for a node with the certifier flag set, whose block
  is the last one: the condition is that the generator answers every role of the node,
  and then the run returns.
\<close>

theorem single_role_wallet:
  assumes "wellformed p"
  shows "\<exists>p' w.
     (GenerateCryptoMaterial g tms node p = Inr p' \<or>
      (\<exists>e. GenerateCryptoMaterial g tms node p = Inl (e, p'))) \<and>
     (answersAll g tms node \<longrightarrow> GenerateCryptoMaterial g tms node p = Inr p') \<and>
     walletOf p' (fst (GetEntry tms p)) (Name node) = Some w \<and>
     (OptAuditor (PlatformOpts node) \<longrightarrow>
        (if answersUpTo g tms node AuditorRole then
           callsFor AuditorRole (newEvents p p')
             = [EvGenerateIdentities AuditorRole tms node [Name node]] \<and>
           GenerateAuditorIdentities g tms node [Name node] \<noteq> [] \<and>
           Auditors w = [(hd (GenerateAuditorIdentities g tms node [Name node]))\<lparr>Default := True\<rparr>] \<and>
           length (Auditors w) = 1 \<and> Default (hd (Auditors w))
         else Auditors w = [])) \<and>
     (OptCertifier (PlatformOpts node) \<longrightarrow>
        (if answersAll g tms node then
           callsFor CertifierRole (newEvents p p')
             = [EvGenerateIdentities CertifierRole tms node [Name node]] \<and>
           GenerateCertifierIdentities g tms node [Name node] \<noteq> [] \<and>
           Certifiers w = [(hd (GenerateCertifierIdentities g tms node [Name node]))\<lparr>Default := True\<rparr>] \<and>
           length (Certifiers w) = 1 \<and> Default (hd (Certifiers w))
         else Certifiers w = []))"
proof -
  obtain p' w where out: "GenerateCryptoMaterial g tms node p = Inr p' \<or>
        (\<exists>e. GenerateCryptoMaterial g tms node p = Inl (e, p'))"
    and ret: "answersAll g tms node \<longrightarrow> GenerateCryptoMaterial g tms node p = Inr p'"
    and w: "walletOf p' (fst (GetEntry tms p)) (Name node) = Some w"
    and role: "\<forall>r. configured node r \<longrightarrow>
              (if answersUpTo g tms node r
               then sequence w r = filled g tms node r \<and>
                    callsFor r (newEvents p p') = callOf tms node r
               else sequence w r = [])"
    using GenerateCryptoMaterial_role [OF assms, of g tms node] by blast
  have a: "if answersUpTo g tms node AuditorRole then
           callsFor AuditorRole (newEvents p p')
             = [EvGenerateIdentities AuditorRole tms node [Name node]] \<and>
           GenerateAuditorIdentities g tms node [Name node] \<noteq> [] \<and>
           Auditors w = [(hd (GenerateAuditorIdentities g tms node [Name node]))\<lparr>Default := True\<rparr>] \<and>
           length (Auditors w) = 1 \<and> Default (hd (Auditors w))
         else Auditors w = []"
    if c: "OptAuditor (PlatformOpts node)"
  proof (cases "answersUpTo g tms node AuditorRole")
    case True
    have "GenerateAuditorIdentities g tms node [Name node] \<noteq> []"
      using True c by (simp add: answersUpTo_def)
    moreover have "Auditors w = [(hd (GenerateAuditorIdentities g tms node [Name node]))\<lparr>Default := True\<rparr>]"
      and "callsFor AuditorRole (newEvents p p')
             = [EvGenerateIdentities AuditorRole tms node [Name node]]"
      using role [rule_format, of AuditorRole] True c by (simp_all add: callOf_def)
    ultimately show ?thesis using True by simp
  next
    case False
    then show ?thesis
      using role [rule_format, of AuditorRole] c by simp
  qed
  have b: "if answersAll g tms node then
           callsFor CertifierRole (newEvents p p')
             = [EvGenerateIdentities CertifierRole tms node [Name node]] \<and>
           GenerateCertifierIdentities g tms node [Name node] \<noteq> [] \<and>
           Certifiers w = [(hd (GenerateCertifierIdentities g tms node [Name node]))\<lparr>Default := True\<rparr>] \<and>
           length (Certifiers w) = 1 \<and> Default (hd (Certifiers w))
         else Certifiers w = []"
    if c: "OptCertifier (PlatformOpts node)"
  proof (cases "answersAll g tms node")
    case True
    then have up: "answersUpTo g tms node CertifierRole"
      by (simp add: answersAll_upTo)
    have "GenerateCertifierIdentities g tms node [Name node] \<noteq> []"
      using up c by (simp add: answersUpTo_def)
    moreover have "Certifiers w = [(hd (GenerateCertifierIdentities g tms node [Name node]))\<lparr>Default := True\<rparr>]"
      and "callsFor CertifierRole (newEvents p p')
             = [EvGenerateIdentities CertifierRole tms node [Name node]]"
      using role [rule_format, of CertifierRole] up c by (simp_all add: callOf_def)
    ultimately show ?thesis using True by simp
  next
    case False
    then have "\<not> answersUpTo g tms node CertifierRole"
      by (simp add: answersAll_upTo)
    then show ?thesis
      using role [rule_format, of CertifierRole] c False by simp
  qed
  show ?thesis
    using out ret w a b by blast
qed

text \<open>
  The node that is auditor and certifier, with the generator that answers with two
  records: the run returns, and the auditor and the certifier sequence each hold the first
  of the two records, from one call with the node's name.
\<close>

theorem single_role_wallet_witness:
  "wellformed NewNetworkHandler \<and>
   OptAuditor (PlatformOpts certifierNode) \<and> OptCertifier (PlatformOpts certifierNode) \<and>
   answersAll pairGenerator exampleTMS certifierNode \<and>
   GenerateAuditorIdentities pairGenerator exampleTMS certifierNode [''org2peer''] =
     [\<lparr>Credential = ''org2peer-cred'', Default = False\<rparr>,
      \<lparr>Credential = ''spare-cred'', Default = False\<rparr>] \<and>
   GenerateCertifierIdentities pairGenerator exampleTMS certifierNode [''org2peer''] =
     [\<lparr>Credential = ''org2peer-cred'', Default = False\<rparr>,
      \<lparr>Credential = ''spare-cred'', Default = False\<rparr>] \<and>
   GenerateCryptoMaterial pairGenerator exampleTMS certifierNode NewNetworkHandler
     = Inr certifierHandler \<and>
   walletOf certifierHandler 0 ''org2peer'' = Some certifierWallet \<and>
   callsFor AuditorRole (newEvents NewNetworkHandler certifierHandler)
     = [EvGenerateIdentities AuditorRole exampleTMS certifierNode [''org2peer'']] \<and>
   Auditors certifierWallet = [\<lparr>Credential = ''org2peer-cred'', Default = True\<rparr>] \<and>
   length (Auditors certifierWallet) = 1 \<and> Default (hd (Auditors certifierWallet)) \<and>
   callsFor CertifierRole (newEvents NewNetworkHandler certifierHandler)
     = [EvGenerateIdentities CertifierRole exampleTMS certifierNode [''org2peer'']] \<and>
   Certifiers certifierWallet = [\<lparr>Credential = ''org2peer-cred'', Default = True\<rparr>] \<and>
   length (Certifiers certifierWallet) = 1 \<and> Default (hd (Certifiers certifierWallet))"
proof -
  have ca: "OptAuditor (PlatformOpts certifierNode)"
    and cc: "OptCertifier (PlatformOpts certifierNode)"
    and nm: "Name certifierNode = ''org2peer''"
    by (simp_all add: certifierNode_def)
  note all = certifier_answersAll
  have up: "answersUpTo pairGenerator exampleTMS certifierNode AuditorRole"
    using all by (rule answersAll_imp_upTo)
  obtain p' w where
    ret: "answersAll pairGenerator exampleTMS certifierNode \<longrightarrow>
          GenerateCryptoMaterial pairGenerator exampleTMS certifierNode NewNetworkHandler = Inr p'"
    and w: "walletOf p' (fst (GetEntry exampleTMS NewNetworkHandler)) (Name certifierNode) = Some w"
    and a: "OptAuditor (PlatformOpts certifierNode) \<longrightarrow>
        (if answersUpTo pairGenerator exampleTMS certifierNode AuditorRole then
           callsFor AuditorRole (newEvents NewNetworkHandler p')
             = [EvGenerateIdentities AuditorRole exampleTMS certifierNode [Name certifierNode]] \<and>
           GenerateAuditorIdentities pairGenerator exampleTMS certifierNode [Name certifierNode] \<noteq> [] \<and>
           Auditors w = [(hd (GenerateAuditorIdentities pairGenerator exampleTMS certifierNode
                             [Name certifierNode]))\<lparr>Default := True\<rparr>] \<and>
           length (Auditors w) = 1 \<and> Default (hd (Auditors w))
         else Auditors w = [])"
    and c: "OptCertifier (PlatformOpts certifierNode) \<longrightarrow>
        (if answersAll pairGenerator exampleTMS certifierNode then
           callsFor CertifierRole (newEvents NewNetworkHandler p')
             = [EvGenerateIdentities CertifierRole exampleTMS certifierNode [Name certifierNode]] \<and>
           GenerateCertifierIdentities pairGenerator exampleTMS certifierNode [Name certifierNode] \<noteq> [] \<and>
           Certifiers w = [(hd (GenerateCertifierIdentities pairGenerator exampleTMS certifierNode
                             [Name certifierNode]))\<lparr>Default := True\<rparr>] \<and>
           length (Certifiers w) = 1 \<and> Default (hd (Certifiers w))
         else Certifiers w = [])"
    using single_role_wallet [OF wellformed_NewNetworkHandler,
        of pairGenerator exampleTMS certifierNode]
    by blast
  have pe: "p' = certifierHandler"
    using ret all certifier_run by simp
  have we: "w = certifierWallet"
    using w unfolding pe by (simp add: example_entry nm certifier_walletOf)
  have "callsFor AuditorRole (newEvents NewNetworkHandler certifierHandler)
          = [EvGenerateIdentities AuditorRole exampleTMS certifierNode [''org2peer'']]"
    and "Auditors certifierWallet = [\<lparr>Credential = ''org2peer-cred'', Default = True\<rparr>]"
    and "length (Auditors certifierWallet) = 1" and "Default (hd (Auditors certifierWallet))"
    using a ca up unfolding pe we nm by (simp_all add: certifier_records)
  moreover have "callsFor CertifierRole (newEvents NewNetworkHandler certifierHandler)
          = [EvGenerateIdentities CertifierRole exampleTMS certifierNode [''org2peer'']]"
    and "Certifiers certifierWallet = [\<lparr>Credential = ''org2peer-cred'', Default = True\<rparr>]"
    and "length (Certifiers certifierWallet) = 1" and "Default (hd (Certifiers certifierWallet))"
    using c cc all unfolding pe we nm by (simp_all add: certifier_records)
  ultimately show ?thesis
    using wellformed_NewNetworkHandler ca cc all certifier_records certifier_run
      certifier_walletOf
    by blast
qed

text \<open>
  C7 as stated fails: the example node has the auditor flag set, and with a generator that
  answers the auditor request with no record the run panics on \<^verbatim>\<open>ids[0]\<close> after the call;
  the auditor sequence of the wallet it leaves is empty, not of length 1. With a
  generator that has an auditor record but answers the issuer request with no record, the
  run panics in the issuer block: the generator is never called for the auditor role, and
  the auditor sequence is empty too.
\<close>

theorem single_role_counterexample:
  "OptAuditor (PlatformOpts exampleNode) \<and>
   GenerateCryptoMaterial muteGenerator exampleTMS exampleNode NewNetworkHandler
     = Inl (IndexOutOfRange 0 0, handlerWith muteWallet) \<and>
   walletOf (handlerWith muteWallet) 0 ''org1peer'' = Some muteWallet \<and>
   callsFor AuditorRole (newEvents NewNetworkHandler (handlerWith muteWallet))
     = [EvGenerateIdentities AuditorRole exampleTMS exampleNode [''org1peer'']] \<and>
   length (Auditors muteWallet) \<noteq> 1 \<and>
   GenerateAuditorIdentities emptyGenerator exampleTMS exampleNode [''org1peer'']
     = [\<lparr>Credential = ''org1peer-cred'', Default = False\<rparr>] \<and>
   GenerateCryptoMaterial emptyGenerator exampleTMS exampleNode NewNetworkHandler
     = Inl (IndexOutOfRange (- 1) 0, blockedHandler) \<and>
   walletOf blockedHandler 0 ''org1peer'' = Some emptyWallet \<and>
   callsFor AuditorRole (newEvents NewNetworkHandler blockedHandler) = [] \<and>
   length (Auditors emptyWallet) \<noteq> 1"
  using mute_run empty_run
  by (simp add: example_walletOf example_newEvents blocked_walletOf blocked_newEvents)
    (simp add: exampleNode_def muteWallet_def emptyWallet_def exampleCalls_def callsFor_def
       emptyGenerator_def exampleGenerator_def perName_def)

text \<open>
  C8. For a role the node has no membership in, the wallet \<^verbatim>\<open>GenerateCryptoMaterial\<close>
  leaves has an empty sequence and the run made no call to the generator for the role,
  whether the run returns or panics. A panic comes from another role, one the node has
  membership in and the generator answered with no record, whose call is the last one
  made; a node with no membership at all makes the run return.
\<close>

theorem unconfigured_role_empty:
  assumes "wellformed p" and "\<not> configured node r"
    and "GenerateCryptoMaterial g tms node p = Inr p' \<or>
         GenerateCryptoMaterial g tms node p = Inl (e, p')"
  shows "\<exists>w. walletOf p' (fst (GetEntry tms p)) (Name node) = Some w \<and>
           sequence w r = [] \<and>
           callsFor r (newEvents p p') = [] \<and>
           (GenerateCryptoMaterial g tms node p = Inl (e, p') \<longrightarrow>
              (\<exists>r'. r' \<noteq> r \<and> configured node r' \<and> generated g tms node r' = [] \<and>
                 newEvents p p' \<noteq> [] \<and>
                 last (newEvents p p') = EvGenerateIdentities r' tms node (requested node r'))) \<and>
           ((\<forall>r'. \<not> configured node r') \<longrightarrow>
              GenerateCryptoMaterial g tms node p = Inr p')"
proof -
  obtain rs rs' where p': "p' = putWallet (fst (GetEntry tms p)) (Name node)
      (walletAfter g tms node rs, callsOf tms node rs') (snd (GetEntry tms p))"
    using assms(3) by (rule GenerateCryptoMaterial_leaves)
  let ?w = "walletAfter g tms node rs"
  have w: "walletOf p' (fst (GetEntry tms p)) (Name node) = Some ?w"
    unfolding p' using assms(1) by (rule walletOf_GenerateCryptoMaterial)
  have s: "sequence ?w r = []"
    using assms(2) by (simp add: sequence_walletAfter fillIn_def)
  have c: "callsFor r (newEvents p p') = []"
    unfolding p' using assms(2) by (simp add: newEvents_putWallet callsFor_unconfigured)
  have f: "\<exists>r'. r' \<noteq> r \<and> configured node r' \<and> generated g tms node r' = [] \<and>
                 newEvents p p' \<noteq> [] \<and>
                 last (newEvents p p') = EvGenerateIdentities r' tms node (requested node r')"
    if fail: "GenerateCryptoMaterial g tms node p = Inl (e, p')"
  proof -
    obtain r' where b: "blocked g tms node r'"
      and q: "p' = putWallet (fst (GetEntry tms p)) (Name node)
                  (walletAfter g tms node (before r'), callsOf tms node (before r' @ [r']))
                  (snd (GetEntry tms p))"
      using GenerateCryptoMaterial_Inl [OF fail] by blast
    have cf: "configured node r'" and g: "generated g tms node r' = []"
      using b by (simp_all add: blocked_def)
    have n: "newEvents p p' = callsOf tms node (before r') @ callOf tms node r'"
      unfolding q by (simp add: newEvents_putWallet callsOf_snoc)
    have "newEvents p p' \<noteq> []"
      and "last (newEvents p p') = EvGenerateIdentities r' tms node (requested node r')"
      using cf by (simp_all add: n callOf_def)
    moreover have "r' \<noteq> r" using cf assms(2) by blast
    ultimately show ?thesis using cf g by blast
  qed
  have t: "GenerateCryptoMaterial g tms node p = Inr p'" if "\<forall>r'. \<not> configured node r'"
  proof -
    have "\<not> (\<exists>q. GenerateCryptoMaterial g tms node p = Inl (e, q))"
      using that GenerateCryptoMaterial_Inl [of g tms node p e] by (auto simp: blocked_def)
    then show ?thesis using assms(3) by blast
  qed
  show ?thesis using w s c f t by blast
qed

text \<open>The example run: the node has no owner names.\<close>

theorem unconfigured_role_empty_witness:
  "wellformed NewNetworkHandler \<and>
   \<not> configured exampleNode OwnerRole \<and>
   GenerateCryptoMaterial exampleGenerator exampleTMS exampleNode NewNetworkHandler
     = Inr (handlerWith exampleWallet) \<and>
   walletOf (handlerWith exampleWallet) 0 ''org1peer'' = Some exampleWallet \<and>
   Owners exampleWallet = [] \<and>
   callsFor OwnerRole (newEvents NewNetworkHandler (handlerWith exampleWallet)) = []"
proof -
  have c: "\<not> configured exampleNode OwnerRole" and nm: "Name exampleNode = ''org1peer''"
    by (simp_all add: exampleNode_def)
  have "GenerateCryptoMaterial exampleGenerator exampleTMS exampleNode NewNetworkHandler
          = Inr (handlerWith exampleWallet) \<or>
        GenerateCryptoMaterial exampleGenerator exampleTMS exampleNode NewNetworkHandler
          = Inl (NoFSCTopology, handlerWith exampleWallet)"
    using example_run by simp
  from unconfigured_role_empty [OF wellformed_NewNetworkHandler c this]
  obtain w where w: "walletOf (handlerWith exampleWallet)
        (fst (GetEntry exampleTMS NewNetworkHandler)) (Name exampleNode) = Some w"
    and s: "sequence w OwnerRole = []"
    and e: "callsFor OwnerRole (newEvents NewNetworkHandler (handlerWith exampleWallet)) = []"
    by blast
  have we: "w = exampleWallet"
    using w by (simp add: example_entry nm example_walletOf)
  have "Owners exampleWallet = []"
    using s unfolding we by simp
  then show ?thesis
    using wellformed_NewNetworkHandler example_run example_walletOf [of exampleWallet] c e
    by blast
qed

text \<open>
  C10. \<^verbatim>\<open>GenerateCryptoMaterial\<close> returns exactly when the generator answers every role
  the node has membership in with at least one record. Otherwise it panics with an index
  out of range on an empty list: index -1 (the length minus 1) for Issuer and Owner,
  index 0 for Auditor and Certifier.
\<close>

theorem GenerateCryptoMaterial_total_iff:
  "((\<exists>p'. GenerateCryptoMaterial g tms node p = Inr p') \<longleftrightarrow> answersAll g tms node) \<and>
   (\<not> answersAll g tms node \<longrightarrow>
      (\<exists>r p'. configured node r \<and> generated g tms node r = [] \<and>
         GenerateCryptoMaterial g tms node p =
           Inl (IndexOutOfRange (if r = IssuerRole \<or> r = OwnerRole then - 1 else 0) 0, p')))"
proof (cases rule: GenerateCryptoMaterial_outcome [of g tms node p])
  case (panic r)
  have no: "\<not> answersAll g tms node"
    using panic(1) by (auto simp: answersAll_blocked)
  have r: "configured node r \<and> generated g tms node r = []"
    using panic(1) by (simp add: blocked_def)
  have "\<exists>p'. GenerateCryptoMaterial g tms node p =
           Inl (IndexOutOfRange (if r = IssuerRole \<or> r = OwnerRole then - 1 else 0) 0, p')"
    using panic(2) unfolding failure_def by (rule exI)
  then have "\<exists>r p'. configured node r \<and> generated g tms node r = [] \<and>
         GenerateCryptoMaterial g tms node p =
           Inl (IndexOutOfRange (if r = IssuerRole \<or> r = OwnerRole then - 1 else 0) 0, p')"
    using r by blast
  moreover have "\<not> (\<exists>p'. GenerateCryptoMaterial g tms node p = Inr p')"
    using panic(2) by simp
  ultimately show ?thesis
    using no by blast
next
  case return
  then show ?thesis
    by (simp add: answersAll_blocked)
qed

theorem GenerateCryptoMaterial_total_iff_witness:
  "(\<exists>p'. GenerateCryptoMaterial exampleGenerator exampleTMS exampleNode NewNetworkHandler = Inr p') \<and>
   generated emptyGenerator exampleTMS exampleNode IssuerRole = [] \<and>
   (\<exists>r p'. GenerateCryptoMaterial emptyGenerator exampleTMS exampleNode NewNetworkHandler =
      Inl (IndexOutOfRange (if r = IssuerRole \<or> r = OwnerRole then - 1 else 0) 0, p'))"
proof -
  have no: "\<not> answersAll emptyGenerator exampleTMS exampleNode"
    by (simp add: answersAll_def emptyGenerator_def exampleNode_def)
  have 1: "\<exists>p'. GenerateCryptoMaterial exampleGenerator exampleTMS exampleNode NewNetworkHandler = Inr p'"
    using GenerateCryptoMaterial_total_iff [of exampleGenerator exampleTMS exampleNode NewNetworkHandler]
      example_answersAll by blast
  have 2: "\<exists>r p'. GenerateCryptoMaterial emptyGenerator exampleTMS exampleNode NewNetworkHandler =
      Inl (IndexOutOfRange (if r = IssuerRole \<or> r = OwnerRole then - 1 else 0) 0, p')"
    using GenerateCryptoMaterial_total_iff [of emptyGenerator exampleTMS exampleNode NewNetworkHandler]
      no by blast
  have 3: "generated emptyGenerator exampleTMS exampleNode IssuerRole = []"
    by (simp add: emptyGenerator_def)
  show ?thesis using 1 2 3 by blast
qed

section \<open>Claims about the artifact generation\<close>

text \<open>
  C5. When no public parameters generator is registered for the driver of the TMS,
  \<^verbatim>\<open>GenerateArtifacts\<close> aborts, and the calls it made are the set-up and the identity
  calls only: it has not created the directory and has not written the file. When the
  steps before succeed, it aborts on the missing generator, with the handler as the loop
  over the nodes left it.
\<close>

theorem no_generator_no_write:
  assumes "GetPublicParamsGenerators tp (Driver tms) = None"
  shows "\<exists>e p'. GenerateArtifacts tp ext tms p = Inl (e, p') \<and>
           Trace p' = Trace p @ newEvents p p' \<and>
           (\<forall>ev \<in> set (newEvents p p'). phaseOf ev \<le> 1) \<and>
           (\<forall>dir. EvMkdirAll dir \<notin> set (newEvents p p')) \<and>
           (\<forall>file raw. EvWriteFile file raw \<notin> set (newEvents p p')) \<and>
           (\<forall>g root nodes p2.
              GetCryptoMaterialGenerator tp (Driver tms) = Some g \<and> Setup g tms = Inr root \<and>
              FSCTopology tp = Some nodes \<and>
              forNodes g tms nodes (logEvent (EvSetup tms) (snd (GetEntry tms p))) = Inr p2 \<longrightarrow>
              e = NoPublicParamsGenerator (Driver tms) \<and> p' = p2)"
proof -
  let ?p0 = "snd (GetEntry tms p)"
  let ?p1 = "withEvents [EvSetup tms] ?p0"
  have nogen: "generatePublicParameters tp ext tms root q
                 = Inl (NoPublicParamsGenerator (Driver tms), q)" for root q
    using assms by (simp add: generatePublicParameters_def)
  have direct: "GenerateArtifacts tp ext tms p = Inl (NoPublicParamsGenerator (Driver tms), p2)"
    if "GetCryptoMaterialGenerator tp (Driver tms) = Some g" and "Setup g tms = Inr root"
      and "FSCTopology tp = Some nodes"
      and "forNodes g tms nodes (logEvent (EvSetup tms) ?p0) = Inr p2"
    for g root nodes p2
    using that by (cases "GetEntry tms p") (simp add: GenerateArtifacts_def nogen)
  have shape: "\<exists>e p' evs. GenerateArtifacts tp ext tms p = Inl (e, p') \<and>
                 Trace p' = Trace p @ evs \<and> (\<forall>ev \<in> set evs. phaseOf ev \<le> 1)"
  proof (cases rule: GenerateArtifacts_outcome [of tp ext tms p])
    case nogenerator
    then show ?thesis by (simp add: Trace_GetEntry)
  next
    case (nosetup err)
    then show ?thesis by (simp add: Trace_GetEntry)
  next
    case notopology
    then show ?thesis by (simp add: Trace_GetEntry)
  next
    case (wallets g nodes e p2)
    obtain evs where "Trace p2 = Trace ?p1 @ evs" and "\<forall>ev \<in> set evs. phaseOf ev = 1"
      using forNodes_trace [of g tms nodes ?p1 p2 e] wallets(2) by blast
    then have "Trace p2 = Trace p @ (EvSetup tms # evs) \<and>
               (\<forall>ev \<in> set (EvSetup tms # evs). phaseOf ev \<le> 1)"
      by (simp add: Trace_GetEntry)
    then show ?thesis using wallets(3) by blast
  next
    case (params g root nodes p2 e p3)
    obtain evs where "Trace p2 = Trace ?p1 @ evs" and "\<forall>ev \<in> set evs. phaseOf ev = 1"
      using forNodes_trace [of g tms nodes ?p1 p2 NoFSCTopology] params(2) by blast
    then have "Trace p2 = Trace p @ (EvSetup tms # evs) \<and>
               (\<forall>ev \<in> set (EvSetup tms # evs). phaseOf ev \<le> 1)"
      by (simp add: Trace_GetEntry)
    moreover have "p3 = p2" using params(3) by (simp add: nogen)
    ultimately show ?thesis using params(4) by blast
  next
    case (chaincodes g root nodes p2 p3 e p4)
    then show ?thesis by (simp add: nogen)
  next
    case (finished g root nodes p2 p3 cc p4)
    then show ?thesis by (simp add: nogen)
  qed
  then obtain e p' evs where run: "GenerateArtifacts tp ext tms p = Inl (e, p')"
    and tr: "Trace p' = Trace p @ evs" and ph: "\<forall>ev \<in> set evs. phaseOf ev \<le> 1"
    by blast
  have ne: "newEvents p p' = evs"
    by (simp add: newEvents_def tr)
  have "\<forall>dir. EvMkdirAll dir \<notin> set evs" and "\<forall>file raw. EvWriteFile file raw \<notin> set evs"
    using ph by fastforce+
  moreover have "e = NoPublicParamsGenerator (Driver tms) \<and> p' = p2"
    if "GetCryptoMaterialGenerator tp (Driver tms) = Some g \<and> Setup g tms = Inr root \<and>
        FSCTopology tp = Some nodes \<and>
        forNodes g tms nodes (logEvent (EvSetup tms) ?p0) = Inr p2"
    for g root nodes p2
    using direct [of g root nodes p2] that run by simp
  ultimately show ?thesis
    using run tr ph unfolding ne [symmetric] by blast
qed

text \<open>The example platform has no generator for the driver fabtoken.\<close>

theorem no_generator_no_write_witness:
  "GetPublicParamsGenerators exampleTokenPlatform (Driver exampleTMS2) = None \<and>
   (\<exists>e p'. GenerateArtifacts exampleTokenPlatform exampleExternals exampleTMS2 NewNetworkHandler
              = Inl (e, p') \<and>
      (\<forall>dir. EvMkdirAll dir \<notin> set (newEvents NewNetworkHandler p')) \<and>
      (\<forall>file raw. EvWriteFile file raw \<notin> set (newEvents NewNetworkHandler p')))"
proof -
  have n: "GetPublicParamsGenerators exampleTokenPlatform (Driver exampleTMS2) = None"
    by (simp add: exampleTokenPlatform_def exampleTMS2_def exampleTMS_def)
  show ?thesis
    using n no_generator_no_write [OF n, of exampleExternals NewNetworkHandler] by blast
qed

text \<open>
  C6, as amended. A run of \<^verbatim>\<open>GenerateArtifacts\<close> on a well-formed handler, with \<open>s\<close> the
  state it ends in (\<open>ContractDescriptorSet\<close> when it returns, the last completed state of
  its error \<open>e\<close> when it aborts), \<open>e0\<close> the entry as \<^verbatim>\<open>GetEntry\<close> found or created it and
  \<open>e'\<close> the entry at the end. Its calls are in the order of the phases: set-up, identities
  of the nodes, generation of the parameters, directory, file, chaincode. Nothing is
  undone: the trace only grows, the registry and the descriptor of the entry are as
  \<^verbatim>\<open>GetEntry\<close> left them, and every name that had a wallet still has one. From
  \<open>WalletsPopulated\<close> on, the wallet map is the one of \<open>e0\<close> with the complete wallet of every
  node stored, and the identity calls are those of all the nodes. In the state \<open>Empty\<close> no
  call of a later phase was made, and the wallet map is the one of \<open>e0\<close> unless the wallets
  step panicked: then the entry is not as in the state \<open>Empty\<close>, it holds the complete wallets
  of the nodes before the one that panicked and the partly filled wallet of that node.
  The parameters are persisted exactly from \<open>ParametersPersisted\<close> on, and then they are
  what the generator returned for the root of the set-up and the arguments of the TMS.
  The TCC of the entry is unchanged in every state before the last and no chaincode was
  registered; in \<open>ContractDescriptorSet\<close> it holds the prepared chaincode, the
  registration of the chaincode being the last call of the run.
\<close>

theorem GenerateArtifacts_stages:
  assumes "wellformed p"
    and "GenerateArtifacts tp ext tms p = Inr p' \<and> s = ContractDescriptorSet \<or>
         GenerateArtifacts tp ext tms p = Inl (e, p') \<and> s = lastCompleted e"
  shows "let a = fst (GetEntry tms p); p0 = snd (GetEntry tms p); evs = newEvents p p';
             e0 = Store p0 ! a; e' = Store p' ! a
         in Trace p' = Trace p @ evs \<and> sorted (map phaseOf evs) \<and>
            Entries p' = Entries p0 \<and> TMS e' = TMS e0 \<and>
            dom (Wallets e0) \<subseteq> dom (Wallets e') \<and>
            (1 \<le> rank s \<longrightarrow> walletsPopulated tp tms e0 e' evs) \<and>
            (rank s = 0 \<longrightarrow>
               (\<forall>ev \<in> set evs. phaseOf ev \<le> 1) \<and>
               (if walletsStep e then walletsPartial tp tms e e0 e' evs
                else Wallets e' = Wallets e0)) \<and>
            (parametersPersisted tp ext tms evs \<longleftrightarrow> 2 \<le> rank s) \<and>
            (2 \<le> rank s \<longrightarrow> parametersGenerated tp ext tms evs) \<and>
            (rank s < 3 \<longrightarrow> TCC e' = TCC e0 \<and> (\<forall>ev \<in> set evs. phaseOf ev < 5)) \<and>
            (rank s = 3 \<longrightarrow> descriptorSet tp ext tms e' evs)"
proof -
  have "stageFacts tp ext tms p p' s"
    using GenerateArtifacts_stageFacts [OF assms(1), of tp ext tms] assms(2) by blast
  moreover have "entryFacts tp ext tms p p' e s"
    using GenerateArtifacts_entryFacts [OF assms(1), of tp ext tms e] assms(2) by blast
  ultimately show ?thesis
    unfolding stageFacts_def entryFacts_def Let_def by blast
qed

text \<open>
  The example run returns, in the state \<open>ContractDescriptorSet\<close>: the entry holds the
  wallet of the specification's scenario for org1peer and the prepared chaincode, and the
  calls are the set-up, the two identity calls, the generation, the directory, the file
  and the registration. The run with the generator that gives no auditor record aborts in
  the wallets step, with the TCC unset.
\<close>

theorem GenerateArtifacts_stages_witness:
  "wellformed NewNetworkHandler \<and>
   (\<exists>p'. GenerateArtifacts exampleTokenPlatform exampleExternals exampleTMS NewNetworkHandler
            = Inr p' \<and>
      sorted (map phaseOf (newEvents NewNetworkHandler p')) \<and>
      Wallets (Store p' ! 0) ''org1peer'' = Some exampleWallet \<and>
      filter (\<lambda>ev. phaseOf ev \<le> 1) (newEvents NewNetworkHandler p')
        = EvSetup exampleTMS # exampleCalls \<and>
      parametersPersisted exampleTokenPlatform exampleExternals exampleTMS
        (newEvents NewNetworkHandler p') \<and>
      filter (\<lambda>ev. 2 \<le> phaseOf ev \<and> phaseOf ev \<le> 4) (newEvents NewNetworkHandler p')
        = [EvGenerate exampleTMS [''root'', ''32''], EvMkdirAll ''/net/token'',
           EvWriteFile ''/net/token/pp.json'' ''pp''] \<and>
      TCC (Store p' ! 0) = Some \<lparr>Chaincode = \<lparr>Descr = ''tokens'', Ctor = ''init''\<rparr>\<rparr> \<and>
      last (newEvents NewNetworkHandler p')
        = EvAddChaincode \<lparr>Descr = ''tokens'', Ctor = ''init''\<rparr>) \<and>
   GenerateArtifacts muteTokenPlatform exampleExternals exampleTMS NewNetworkHandler
     = Inl (IndexOutOfRange 0 0, abortedHandler) \<and>
   walletsPartial muteTokenPlatform exampleTMS (IndexOutOfRange 0 0)
     (Store (snd (GetEntry exampleTMS NewNetworkHandler)) ! 0) (Store abortedHandler ! 0)
     (newEvents NewNetworkHandler abortedHandler) \<and>
   TCC (Store abortedHandler ! 0) = None"
proof -
  let ?e0 = "Store (snd (GetEntry exampleTMS NewNetworkHandler)) ! 0"
  obtain p' where run:
    "GenerateArtifacts exampleTokenPlatform exampleExternals exampleTMS NewNetworkHandler = Inr p'"
    using example_artifacts by blast
  let ?evs = "newEvents NewNetworkHandler p'"
  have "GenerateArtifacts exampleTokenPlatform exampleExternals exampleTMS NewNetworkHandler
          = Inr p' \<and> ContractDescriptorSet = ContractDescriptorSet \<or>
        GenerateArtifacts exampleTokenPlatform exampleExternals exampleTMS NewNetworkHandler
          = Inl (NoFSCTopology, p') \<and> ContractDescriptorSet = lastCompleted NoFSCTopology"
    using run by simp
  from GenerateArtifacts_stages [OF wellformed_NewNetworkHandler this]
  have so: "sorted (map phaseOf ?evs)"
    and wp: "walletsPopulated exampleTokenPlatform exampleTMS ?e0 (Store p' ! 0) ?evs"
    and pp: "parametersPersisted exampleTokenPlatform exampleExternals exampleTMS ?evs"
    and pg: "parametersGenerated exampleTokenPlatform exampleExternals exampleTMS ?evs"
    and ds: "descriptorSet exampleTokenPlatform exampleExternals exampleTMS (Store p' ! 0) ?evs"
    unfolding Let_def example_entry by simp_all
  have w: "Wallets (Store p' ! 0) = populated exampleGenerator exampleTMS [exampleNode] (Wallets ?e0)"
    and c: "filter (\<lambda>ev. phaseOf ev \<le> 1) ?evs = EvSetup exampleTMS # walletCalls exampleTMS [exampleNode]"
    using wp by (simp_all add: walletsPopulated_def example_platform)
  have 1: "Wallets (Store p' ! 0) ''org1peer'' = Some exampleWallet"
    unfolding w by (simp add: example_wallet) (simp add: exampleNode_def)
  have 2: "filter (\<lambda>ev. phaseOf ev \<le> 1) ?evs = EvSetup exampleTMS # exampleCalls"
    unfolding c by (simp add: walletCalls_simps example_calls)
  obtain g root ppGenerator ppRaw where
    g: "GetCryptoMaterialGenerator exampleTokenPlatform (Driver exampleTMS) = Some g"
    and r: "Setup g exampleTMS = Inr root"
    and q: "GetPublicParamsGenerators exampleTokenPlatform (Driver exampleTMS) = Some ppGenerator"
    and a: "Generate ppGenerator exampleTMS (root # PublicParamsGenArgs exampleTMS) = Inr ppRaw"
    and f: "filter (\<lambda>ev. 2 \<le> phaseOf ev \<and> phaseOf ev \<le> 4) ?evs =
          [EvGenerate exampleTMS (root # PublicParamsGenArgs exampleTMS),
           EvMkdirAll (PublicParametersDir exampleTokenPlatform),
           EvWriteFile (PublicParametersFile exampleTokenPlatform exampleTMS) ppRaw]"
    using pg unfolding parametersGenerated_def by blast
  have "g = exampleGenerator" and "ppGenerator = examplePPGenerator"
    using g q by (simp_all add: example_platform)
  then have "root = ''root''" and "ppRaw = ''pp''"
    using r a by (simp_all add: exampleGenerator_def examplePPGenerator_def)
  then have 3: "filter (\<lambda>ev. 2 \<le> phaseOf ev \<and> phaseOf ev \<le> 4) ?evs
        = [EvGenerate exampleTMS [''root'', ''32''], EvMkdirAll ''/net/token'',
           EvWriteFile ''/net/token/pp.json'' ''pp'']"
    using f by (simp add: example_platform) (simp add: exampleTMS_def)
  have cc: "chaincodeOf exampleFabric exampleExternals exampleTMS
              = \<lparr>Descr = ''tokens'', Ctor = ''init''\<rparr>"
    and rg: "registration exampleExternals exampleTMS
              = EvAddChaincode \<lparr>Descr = ''tokens'', Ctor = ''init''\<rparr>"
    by (simp_all add: chaincodeOf_def registration_def exampleTMS_def exampleExternals_def)
  have 4: "TCC (Store p' ! 0) = Some \<lparr>Chaincode = \<lparr>Descr = ''tokens'', Ctor = ''init''\<rparr>\<rparr>"
    and 5: "last ?evs = EvAddChaincode \<lparr>Descr = ''tokens'', Ctor = ''init''\<rparr>"
    using ds by (simp_all add: descriptorSet_def example_platform cc rg)
  have "GenerateArtifacts muteTokenPlatform exampleExternals exampleTMS NewNetworkHandler
          = Inr abortedHandler \<and> Empty = ContractDescriptorSet \<or>
        GenerateArtifacts muteTokenPlatform exampleExternals exampleTMS NewNetworkHandler
          = Inl (IndexOutOfRange 0 0, abortedHandler) \<and> Empty = lastCompleted (IndexOutOfRange 0 0)"
    using aborted_run by simp
  from GenerateArtifacts_stages [OF wellformed_NewNetworkHandler this]
  have 6: "walletsPartial muteTokenPlatform exampleTMS (IndexOutOfRange 0 0) ?e0
             (Store abortedHandler ! 0) (newEvents NewNetworkHandler abortedHandler)"
    and 7: "TCC (Store abortedHandler ! 0) = TCC ?e0"
    unfolding Let_def example_entry by simp_all
  show ?thesis
    using wellformed_NewNetworkHandler run so 1 2 pp 3 4 5 aborted_run 6 7
    by (auto simp: example_store)
qed

text \<open>
  C6 as stated fails in its last clause: with the generator that gives no auditor record
  the run aborts in the wallets step, whose last completed state is \<open>Empty\<close>, the entry
  as \<^verbatim>\<open>GetEntry\<close> created it, with no wallet. The entry is not in that state: it holds a
  wallet for org1peer, with the issuer identities and, for a node that is an auditor, no
  auditor identity.
\<close>

theorem partial_wallet_counterexample:
  "GenerateArtifacts muteTokenPlatform exampleExternals exampleTMS NewNetworkHandler
     = Inl (IndexOutOfRange 0 0, abortedHandler) \<and>
   lastCompleted (IndexOutOfRange 0 0) = Empty \<and>
   FSCTopology muteTokenPlatform = Some [exampleNode] \<and>
   OptAuditor (PlatformOpts exampleNode) \<and>
   Wallets (Store (snd (GetEntry exampleTMS NewNetworkHandler)) ! 0) ''org1peer'' = None \<and>
   Wallets (Store abortedHandler ! 0) ''org1peer'' = Some muteWallet \<and>
   Issuers muteWallet \<noteq> [] \<and> Auditors muteWallet = []"
  using aborted_run aborted_wallet
  by (simp add: mute_platform example_store) (simp add: exampleNode_def muteWallet_def)

section \<open>Claims about paths\<close>

text \<open>
  C9. \<^verbatim>\<open>FSCCertifierCryptoMaterialDir\<close> is the root directory of the context joined with
  crypto/fsc/<node id>/wallets/certifier/<name>, where the name joins the network, the
  channel, the namespace and the driver of the TMS with underscores: the cleaned path
  root/crypto/fsc/<node id>/wallets/certifier/<network>_<channel>_<namespace>_<driver>,
  relative when the root is empty.
\<close>

theorem FSCCertifierCryptoMaterialDir_path:
  "FSCCertifierCryptoMaterialDir Clean tp tms peer =
     filepath_Join Clean
       [RootDir tp,
        ''crypto/fsc/'' @ NodeID peer @ ''/wallets/certifier/'' @
          strings_Join [Network tms, Channel tms, Namespace tms, Driver tms] ''_''] \<and>
   FSCCertifierCryptoMaterialDir Clean tp tms peer =
     Clean ((if RootDir tp = [] then [] else RootDir tp @ ''/'') @
       ''crypto/fsc/'' @ NodeID peer @ ''/wallets/certifier/'' @
       Network tms @ ''_'' @ Channel tms @ ''_'' @ Namespace tms @ ''_'' @ Driver tms)"
  by (simp add: FSCCertifierCryptoMaterialDir_def filepath_Join_def)

theorem FSCCertifierCryptoMaterialDir_path_witness:
  "FSCCertifierCryptoMaterialDir (\<lambda>path. path) exampleTokenPlatform exampleTMS exampleNode =
     ''/net/crypto/fsc/org1peer/wallets/certifier/N1_C1_tokens_zkat''"
  using FSCCertifierCryptoMaterialDir_path [of "\<lambda>path. path" exampleTokenPlatform exampleTMS exampleNode,
      THEN conjunct2]
  by (simp add: exampleTokenPlatform_def exampleTMS_def exampleNode_def)

end
